(* ===== verification/Prelude.thy ===== *)
theory Prelude
  imports Complex_Main "HOL-Library.Multiset"
begin

text \<open>
  Shared vocabulary of the development: how JavaScript numbers and truthiness are
  read in HOL, the generic list lemmas the pricing folds need, and the model of the
  hosted query backend (tables as lists of rows, a fresh-id counter and a schedule
  of upcoming call failures) that every service theory threads through its calls.
\<close>

named_theorems pricing_simps "unfolding rules of the cart pricing functions"
named_theorems store_simps "behaviour of the backend primitives on a given schedule"

section \<open>JavaScript numbers\<close>

text \<open>
  Prices, totals and rates are JavaScript numbers. The model reads them as exact
  rationals (\<open>rat\<close>): the repository's constants (0.4, 0.35, 0.3, 0.18, 500, 50) and
  the prices of the catalogue are decimal, and all the claims are about the decimal
  arithmetic the code means. Quantities and rental periods are integers (\<open>int\<close>).
\<close>

type_synonym money = rat

text \<open>\<open>Math.round\<close> rounds half-way cases towards \<open>+\<infinity>\<close>: it is \<open>\<lfloor>x + 1/2\<rfloor>\<close>.\<close>

definition js_round :: "rat \<Rightarrow> int" where
  "js_round x = \<lfloor>x + 1/2\<rfloor>"

lemma js_round_mono: "x \<le> y \<Longrightarrow> js_round x \<le> js_round y"
  unfolding js_round_def by (simp add: floor_mono)

lemma js_round_lower: "x - 1/2 < of_int (js_round x)"
  unfolding js_round_def by linarith

lemma js_round_upper: "of_int (js_round x) \<le> x + 1/2"
  unfolding js_round_def by linarith

lemma js_round_nonneg: "0 \<le> x \<Longrightarrow> 0 \<le> js_round x"
  unfolding js_round_def by simp

section \<open>Folds and sums over lists\<close>

text \<open>
  The code's \<open>reduce((total, item) => total + \<dots>, 0)\<close> is a left fold whose step
  adds a per-item amount. Such a fold is a sum, and sums over lists do not depend
  on the order of the list.
\<close>

lemma foldl_add_sum_list:
  fixes f :: "'a \<Rightarrow> 'b::comm_monoid_add"
  assumes "\<And>t x. g t x = t + f x"
  shows "foldl g a xs = a + sum_list (map f xs)"
proof (induction xs arbitrary: a)
  case Nil
  then show ?case by simp
next
  case (Cons x xs)
  then show ?case by (simp add: assms add.assoc)
qed

lemma sum_list_map_perm:
  fixes f :: "'a \<Rightarrow> 'b::comm_monoid_add"
  assumes "mset xs = mset ys"
  shows "sum_list (map f xs) = sum_list (map f ys)"
  by (metis assms mset_map sum_mset_sum_list)

lemma mset_filter_perm: "mset xs = mset ys \<Longrightarrow> mset (filter P xs) = mset (filter P ys)"
  by (metis mset_filter)

lemma sum_list_map_nonneg:
  fixes f :: "'a \<Rightarrow> 'b::ordered_comm_monoid_add"
  shows "(\<And>x. x \<in> set xs \<Longrightarrow> 0 \<le> f x) \<Longrightarrow> 0 \<le> sum_list (map f xs)"
  by (induction xs) (auto intro: add_nonneg_nonneg)

lemma sum_list_map_mono:
  fixes f g :: "'a \<Rightarrow> 'b::ordered_comm_monoid_add"
  shows "(\<And>x. x \<in> set xs \<Longrightarrow> f x \<le> g x) \<Longrightarrow> sum_list (map f xs) \<le> sum_list (map g xs)"
  by (induction xs) (auto intro: add_mono)

section \<open>The hosted backend\<close>

text \<open>
  The services call a hosted relational store through its query client
  (\<open>supabase.from(table).select/insert/update/delete\<close>). Each such call is one
  network round trip that either succeeds or returns an error message. The model
  makes the environment explicit: a \<^emph>\<open>schedule\<close> lists, call by call, whether the
  next call fails (\<open>Some msg\<close>) or succeeds (\<open>None\<close>); an exhausted schedule means
  every further call succeeds. A failing call leaves the tables unchanged. This
  makes every error branch of the code reachable and every statement about errors
  quantify over all failure patterns.
\<close>

type_synonym schedule = "string option list"

fun next_outcome :: "schedule \<Rightarrow> string option \<times> schedule" where
  "next_outcome [] = (None, [])"
| "next_outcome (r # rs) = (r, rs)"

text \<open>
  \<open>.single()\<close> asks the backend for exactly one row: with any other number of
  matching rows it answers with an error and no data.
\<close>

fun single :: "'a list \<Rightarrow> 'a option" where
  "single [x] = Some x"
| "single _ = None"

lemma single_Some_iff [simp, store_simps]: "single xs = Some x \<longleftrightarrow> xs = [x]"
  by (cases xs rule: single.cases) auto

lemma filter_eq_single_mem: "filter P xs = [x] \<Longrightarrow> x \<in> set xs \<and> P x"
proof -
  assume "filter P xs = [x]"
  then have "x \<in> set (filter P xs)" by simp
  then show ?thesis by simp
qed

lemma single_filter_unique:
  assumes "distinct (map k xs)" and "x \<in> set xs" and "k x = v"
  shows "single (filter (\<lambda>y. k y = v) xs) = Some x"
proof -
  have "filter (\<lambda>y. k y = v) xs = [x]"
    using assms
  proof (induction xs)
    case Nil
    then show ?case by simp
  next
    case (Cons y ys)
    then show ?case
      by (auto simp: filter_empty_conv image_iff)
  qed
  then show ?thesis by simp
qed

lemma filter_key_at_most_one:
  "distinct (map k xs) \<Longrightarrow> length (filter (\<lambda>x. k x = v) xs) \<le> 1"
proof (induction xs)
  case Nil
  then show ?case by simp
next
  case (Cons y ys)
  then show ?case by (auto simp: filter_empty_conv image_iff)
qed

lemma filter_key_not_single:
  assumes "distinct (map k xs)" and "\<And>x. filter (\<lambda>x. k x = v) xs \<noteq> [x]"
  shows "v \<notin> set (map k xs)"
proof -
  have "length (filter (\<lambda>x. k x = v) xs) \<le> 1"
    using assms(1) by (rule filter_key_at_most_one)
  with assms(2) have "filter (\<lambda>x. k x = v) xs = []"
    by (cases "filter (\<lambda>x. k x = v) xs") auto
  then show ?thesis by (auto simp: filter_empty_conv)
qed

text \<open>With distinct keys, a row is the only one with its key.\<close>

lemma filter_key_single_mem:
  "distinct (map k xs) \<Longrightarrow> x \<in> set xs \<Longrightarrow> filter (\<lambda>y. k y = k x) xs = [x]"
proof (induction xs)
  case Nil then show ?case by simp
next
  case (Cons a xs)
  show ?case
  proof (cases "a = x")
    case True
    then have "\<forall>y \<in> set xs. k y \<noteq> k x" using Cons.prems(1) by (auto simp: image_iff)
    then show ?thesis using True by (simp add: filter_empty_conv)
  next
    case False
    then have x: "x \<in> set xs" using Cons.prems(2) by simp
    then have "k a \<noteq> k x" using Cons.prems(1) by auto
    then show ?thesis using Cons.IH Cons.prems(1) x by simp
  qed
qed

lemma comp_if_keep_key:
  "(\<And>x. k (f x) = k x) \<Longrightarrow> k \<circ> (\<lambda>x. if P x then f x else x) = k"
  by (rule ext) simp

lemma map_keep_key:
  "(\<And>x. k (f x) = k x) \<Longrightarrow> map k (map (\<lambda>x. if P x then f x else x) xs) = map k xs"
  by (induction xs) auto

text \<open>JavaScript truthiness of a string: only the empty string is falsy.\<close>

definition js_truthy :: "string \<Rightarrow> bool" where
  "js_truthy s \<longleftrightarrow> s \<noteq> []"

end
