(* ===== verification/Store.thy ===== *)
theory Store
  imports Prelude
begin

text \<open>
  The rows of the backend tables the services read and write, as the generated
  client types declare them (\<open>src/src/integrations/supabase/types.ts\<close>), and the
  store that holds them. Identifiers the backend generates (uuid strings in the code)
  are natural numbers drawn from a counter, so a fresh id is one never used before;
  book and user ids, which the services receive from outside, stay strings.
  Timestamps (\<open>created_at\<close>, \<open>updated_at\<close>) are not modelled: no operation of the
  services reads them. The store also carries the schedule of upcoming call outcomes.
\<close>

section \<open>Rows\<close>

text \<open>
  A row of \<open>books\<close>. There is no \<open>category\<close> column: a book refers to its
  category by \<open>category_id\<close>.
\<close>

record book_row =
  b_id :: string
  b_title :: string
  b_author :: string
  b_price :: money
  b_original_price :: money
  b_has_rent_option :: "bool option"
  b_is_available_for_resell :: "bool option"
  b_rating :: "rat option"
  b_reviews :: "int option"
  b_binding :: string
  b_category_id :: "int option"
  b_cover_image :: string
  b_description :: string
  b_edition :: "string option"
  b_has_free_delivery :: "bool option"
  b_is_new :: "bool option"
  b_isbn :: string
  b_language :: string
  b_page_count :: int
  b_publication_date :: "string option"
  b_publisher :: string
  b_stock_status :: string

record cart_row =
  cart_id :: nat
  cart_user_id :: string

record cart_item_row =
  ci_id :: nat
  ci_cart_id :: nat
  ci_book_id :: string
  ci_quantity :: int
  ci_is_rental :: bool
  ci_rental_period :: "int option"

text \<open>
  The order status is a string column; the admin page offers exactly these five
  values (\<open>AdminOrdersPage.tsx\<close>) and \<open>createOrder\<close> writes \<open>"pending"\<close>.
\<close>

datatype order_status = Pending | Processing | Shipped | Delivered | Cancelled

record order_row =
  o_id :: nat
  o_user_id :: string
  o_status :: order_status
  o_total_amount :: money
  o_shipping_address :: string
  o_shipping_city :: string
  o_shipping_state :: string
  o_shipping_zip :: string
  o_shipping_country :: string
  o_payment_method :: string

text \<open>\<open>rental_end_date\<close> is a calendar date; the model counts it in days since the epoch.\<close>

record order_item_row =
  oi_id :: nat
  oi_order_id :: nat
  oi_book_id :: string
  oi_quantity :: int
  oi_price :: money
  oi_is_rental :: bool
  oi_rental_period :: "int option"
  oi_rental_end_date :: "int option"

record category_row =
  cat_id :: int
  cat_name :: string
  cat_description :: "string option"
  cat_book_count :: "int option"

record profile_row =
  p_id :: string
  p_address :: "string option"
  p_email :: "string option"
  p_first_name :: "string option"
  p_last_name :: "string option"
  p_phone :: "string option"
  p_created_at :: "int option"

text \<open>\<open>resell_requests\<close>; its \<open>status\<close> is a free string column.\<close>

record resell_row =
  rr_id :: nat
  rr_user_id :: string
  rr_status :: string
  rr_book_title :: string
  rr_book_author :: string
  rr_book_isbn :: "string option"
  rr_book_condition :: string
  rr_asking_price :: "money option"
  rr_description :: "string option"
  rr_contact_phone :: string

record review_row =
  rv_id :: nat
  rv_user_id :: string
  rv_book_id :: string
  rv_rating :: int
  rv_comment :: "string option"

record testimonial_row =
  t_id :: string
  t_name :: string
  t_content :: string
  t_avatar_url :: "string option"
  t_role :: "string option"
  t_is_featured :: "bool option"
  t_created_at :: "int option"

section \<open>The store\<close>

text \<open>
  The hosted backend: one list per table, the paths of the \<open>resell-images\<close> storage
  bucket, the id generator and the schedule of outcomes of the next requests.
\<close>

record db =
  books :: "book_row list"
  carts :: "cart_row list"
  cart_items :: "cart_item_row list"
  orders :: "order_row list"
  order_items :: "order_item_row list"
  categories :: "category_row list"
  profiles :: "profile_row list"
  resell_requests :: "resell_row list"
  reviews :: "review_row list"
  testimonials :: "testimonial_row list"
  storage :: "string list"
  next_id :: nat
  sched :: schedule

text \<open>One round trip to the backend: its outcome is the next entry of the schedule.\<close>

definition call :: "db \<Rightarrow> string option \<times> db" where
  "call d = (let (r, rs) = next_outcome (sched d) in (r, d\<lparr>sched := rs\<rparr>))"

text \<open>The backend's id generator.\<close>

definition fresh_id :: "db \<Rightarrow> nat \<times> db" where
  "fresh_id d = (next_id d, d\<lparr>next_id := Suc (next_id d)\<rparr>)"

text \<open>The tables, without the schedule: what a client can observe of the store.\<close>

type_synonym table_state =
  "book_row list \<times> cart_row list \<times> cart_item_row list \<times> order_row list \<times> order_item_row list
   \<times> category_row list \<times> profile_row list \<times> resell_row list \<times> review_row list \<times> testimonial_row list"

definition tables :: "db \<Rightarrow> table_state" where
  "tables d = (books d, carts d, cart_items d, orders d, order_items d,
               categories d, profiles d, resell_requests d, reviews d, testimonials d)"

text \<open>
  Well-formed ids: every generated id is below the counter and ids are distinct
  within each table.
\<close>

definition ids_ok :: "db \<Rightarrow> bool" where
  "ids_ok d \<longleftrightarrow>
     (\<forall>c \<in> set (carts d). cart_id c < next_id d) \<and> distinct (map cart_id (carts d))
   \<and> (\<forall>r \<in> set (cart_items d). ci_id r < next_id d) \<and> distinct (map ci_id (cart_items d))
   \<and> (\<forall>r \<in> set (orders d). o_id r < next_id d) \<and> distinct (map o_id (orders d))
   \<and> (\<forall>r \<in> set (order_items d). oi_id r < next_id d) \<and> distinct (map oi_id (order_items d))"

section \<open>Lemmas\<close>

lemma call_Nil [store_simps]: "sched d = [] \<Longrightarrow> call d = (None, d)"
  by (simp add: call_def)

lemma call_Cons [store_simps]: "sched d = r # rs \<Longrightarrow> call d = (r, d\<lparr>sched := rs\<rparr>)"
  by (simp add: call_def)

lemma call_tables [store_simps]:
  "call d = (r, d') \<Longrightarrow>
     books d' = books d \<and> carts d' = carts d \<and> cart_items d' = cart_items d
     \<and> orders d' = orders d \<and> order_items d' = order_items d \<and> next_id d' = next_id d
     \<and> categories d' = categories d \<and> profiles d' = profiles d \<and> resell_requests d' = resell_requests d
     \<and> reviews d' = reviews d \<and> testimonials d' = testimonials d \<and> storage d' = storage d"
  by (cases "sched d") (auto simp: call_def)

lemma call_ids_ok: "call d = (r, d') \<Longrightarrow> ids_ok d' = ids_ok d"
  using call_tables [of d r d'] by (simp add: ids_ok_def)

lemma call_sched: "call d = (r, d') \<Longrightarrow> sched d' = tl (sched d) \<and> r = (case sched d of [] \<Rightarrow> None | x # _ \<Rightarrow> x)"
  by (cases "sched d") (auto simp: call_def)

lemma fresh_id_eq [store_simps]: "fresh_id d = (next_id d, d\<lparr>next_id := Suc (next_id d)\<rparr>)"
  by (simp add: fresh_id_def)

lemma tables_sched [simp]: "tables (d\<lparr>sched := s\<rparr>) = tables d"
  by (simp add: tables_def)

lemma call_tables_eq: "call d = (r, d') \<Longrightarrow> tables d' = tables d"
  using call_tables [of d r d'] by (simp add: tables_def)

end
