(* ===== verification/CartService.thy ===== *)
theory CartService
  imports Store
begin

text \<open>
  The cart service (\<open>src/src/services/cartService.ts\<close>): each function is one or two
  backend round trips over the \<open>carts\<close> and \<open>cart_items\<close> tables. A function returns
  \<open>Inl msg\<close> where the code returns \<open>{error: msg}\<close> and \<open>Inr data\<close> where it returns
  its data; the store is threaded through. The \<open>catch\<close> branches of the code handle
  thrown exceptions, which the query client does not raise for backend errors (it
  returns them), so they have no counterpart here.
\<close>

section \<open>Operations\<close>

text \<open>
  \<open>getOrCreateCart\<close>: look the user's cart up with \<open>maybeSingle()\<close> (no row: no data;
  several rows: error PGRST116, which the code ignores), create one otherwise.
\<close>

definition getOrCreateCart :: "string \<Rightarrow> db \<Rightarrow> (string + cart_row) \<times> db" where
  "getOrCreateCart userId d =
     (let (fetchError, d1) = call d in
      case fetchError of
        Some msg \<Rightarrow> (Inl msg, d1)
      | None \<Rightarrow>
          (case filter (\<lambda>c. cart_user_id c = userId) (carts d1) of
             [existingCart] \<Rightarrow> (Inr existingCart, d1)
           | _ \<Rightarrow>
               (let (createError, d2) = call d1 in
                case createError of
                  Some msg \<Rightarrow> (Inl msg, d2)
                | None \<Rightarrow>
                    (let (newId, d3) = fresh_id d2;
                         newCart = \<lparr>cart_id = newId, cart_user_id = userId\<rparr>
                     in (Inr newCart, d3\<lparr>carts := carts d3 @ [newCart]\<rparr>)))))"

text \<open>\<open>getCartItems\<close>: the cart's rows, each joined with its book row (\<open>books:book_id(*)\<close>).\<close>

definition getCartItems :: "nat \<Rightarrow> db \<Rightarrow> (string + (cart_item_row \<times> book_row option) list) \<times> db" where
  "getCartItems cartId d =
     (let (err, d1) = call d in
      case err of
        Some msg \<Rightarrow> (Inl msg, d1)
      | None \<Rightarrow>
          (Inr (map (\<lambda>r. (r, find (\<lambda>b. b_id b = ci_book_id r) (books d1)))
                    (filter (\<lambda>r. ci_cart_id r = cartId) (cart_items d1))), d1))"

definition cart_key_match :: "nat \<Rightarrow> string \<Rightarrow> bool \<Rightarrow> cart_item_row \<Rightarrow> bool" where
  "cart_key_match cartId bookId isRental r \<longleftrightarrow>
     ci_cart_id r = cartId \<and> ci_book_id r = bookId \<and> ci_is_rental r = isRental"

text \<open>
  \<open>.update({quantity}).eq("id", id).select().single()\<close>: the update of the one row
  with that id, returning it; when not exactly one row matches, the backend answers
  with an error and changes nothing.
\<close>

definition single_row_error :: string where
  "single_row_error = ''JSON object requested, multiple (or no) rows returned''"

definition update_item_quantity :: "nat \<Rightarrow> int \<Rightarrow> db \<Rightarrow> (string + cart_item_row) \<times> db" where
  "update_item_quantity itemId quantity d =
     (let (err, d1) = call d in
      case err of
        Some msg \<Rightarrow> (Inl msg, d1)
      | None \<Rightarrow>
          (case filter (\<lambda>r. ci_id r = itemId) (cart_items d1) of
             [r] \<Rightarrow> (Inr (r\<lparr>ci_quantity := quantity\<rparr>),
                     d1\<lparr>cart_items := map (\<lambda>x. if ci_id x = itemId then x\<lparr>ci_quantity := quantity\<rparr> else x)
                                          (cart_items d1)\<rparr>)
           | _ \<Rightarrow> (Inl single_row_error, d1)))"

text \<open>
  \<open>addToCart\<close>: look for a row of the same cart, book and kind with \<open>.single()\<close>; its
  error is not inspected, so a failed lookup counts as "no such row". An existing row
  gets the quantities added; otherwise a new row is inserted.
\<close>

definition addToCart :: "nat \<Rightarrow> string \<Rightarrow> int \<Rightarrow> bool \<Rightarrow> int option \<Rightarrow> db \<Rightarrow> (string + cart_item_row) \<times> db" where
  "addToCart cartId bookId quantity isRental rentalPeriod d =
     (let (lookupError, d1) = call d;
          existingItem =
            (case lookupError of
               Some _ \<Rightarrow> None
             | None \<Rightarrow> single (filter (cart_key_match cartId bookId isRental) (cart_items d1)))
      in case existingItem of
           Some ex \<Rightarrow> update_item_quantity (ci_id ex) (ci_quantity ex + quantity) d1
         | None \<Rightarrow>
             (let (err, d2) = call d1 in
              case err of
                Some msg \<Rightarrow> (Inl msg, d2)
              | None \<Rightarrow>
                  (let (newId, d3) = fresh_id d2;
                       row = \<lparr>ci_id = newId, ci_cart_id = cartId, ci_book_id = bookId,
                              ci_quantity = quantity, ci_is_rental = isRental,
                              ci_rental_period = rentalPeriod\<rparr>
                   in (Inr row, d3\<lparr>cart_items := cart_items d3 @ [row]\<rparr>))))"

definition updateCartItemQuantity :: "nat \<Rightarrow> int \<Rightarrow> db \<Rightarrow> (string + cart_item_row) \<times> db" where
  "updateCartItemQuantity itemId quantity d = update_item_quantity itemId quantity d"

definition removeFromCart :: "nat \<Rightarrow> db \<Rightarrow> (string + unit) \<times> db" where
  "removeFromCart itemId d =
     (let (err, d1) = call d in
      case err of
        Some msg \<Rightarrow> (Inl msg, d1)
      | None \<Rightarrow> (Inr (), d1\<lparr>cart_items := filter (\<lambda>r. ci_id r \<noteq> itemId) (cart_items d1)\<rparr>))"

definition clearCart :: "nat \<Rightarrow> db \<Rightarrow> (string + unit) \<times> db" where
  "clearCart cartId d =
     (let (err, d1) = call d in
      case err of
        Some msg \<Rightarrow> (Inl msg, d1)
      | None \<Rightarrow> (Inr (), d1\<lparr>cart_items := filter (\<lambda>r. ci_cart_id r \<noteq> cartId) (cart_items d1)\<rparr>))"

section \<open>Invariants\<close>

text \<open>At most one cart per user.\<close>

definition one_cart_per_user :: "db \<Rightarrow> bool" where
  "one_cart_per_user d \<longleftrightarrow> distinct (map cart_user_id (carts d))"

text \<open>The key \<open>addToCart\<close> merges on, and: at most one row per key.\<close>

definition cart_key :: "cart_item_row \<Rightarrow> nat \<times> string \<times> bool" where
  "cart_key r = (ci_cart_id r, ci_book_id r, ci_is_rental r)"

definition cart_keys_unique :: "db \<Rightarrow> bool" where
  "cart_keys_unique d \<longleftrightarrow> distinct (map cart_key (cart_items d))"

section \<open>Example store\<close>

text \<open>
  A store with one cart of user \<open>u1\<close> holding ten copies of book \<open>b1\<close> (the most the
  cart page lets a line reach) and a one-month (30-day) rental of book \<open>b2\<close>.
\<close>

definition example_db :: db where
  "example_db =
     \<lparr>books = [], carts = [\<lparr>cart_id = 0, cart_user_id = ''u1''\<rparr>],
      cart_items = [\<lparr>ci_id = 1, ci_cart_id = 0, ci_book_id = ''b1'', ci_quantity = 10,
                     ci_is_rental = False, ci_rental_period = None\<rparr>,
                    \<lparr>ci_id = 2, ci_cart_id = 0, ci_book_id = ''b2'', ci_quantity = 1,
                     ci_is_rental = True, ci_rental_period = Some 30\<rparr>],
      orders = [], order_items = [], categories = [], profiles = [], resell_requests = [], reviews = [], testimonials = [], storage = [], next_id = 3, sched = []\<rparr>"

section \<open>Lemmas\<close>

lemmas cart_defs = getOrCreateCart_def getCartItems_def update_item_quantity_def addToCart_def
  updateCartItemQuantity_def removeFromCart_def clearCart_def fresh_id_def Let_def


lemma cart_key_match_iff: "cart_key_match c b k r \<longleftrightarrow> cart_key r = (c, b, k)"
  by (auto simp: cart_key_match_def cart_key_def)

lemma cart_key_qty [simp]: "cart_key (r\<lparr>ci_quantity := q\<rparr>) = cart_key r"
  by (simp add: cart_key_def)

lemma map_update_qty_same:
  "map f (map (\<lambda>x. if ci_id x = i then x\<lparr>ci_quantity := q\<rparr> else x) xs) = map f xs"
  if "\<And>x. f (x\<lparr>ci_quantity := q\<rparr>) = f x"
  using that by (induction xs) auto

lemma upd_qty_comp [simp]:
  "ci_id \<circ> (\<lambda>x. if ci_id x = i then x\<lparr>ci_quantity := q\<rparr> else x) = ci_id"
  "cart_key \<circ> (\<lambda>x. if ci_id x = i then x\<lparr>ci_quantity := q\<rparr> else x) = cart_key"
  by (auto simp: fun_eq_iff)

lemma update_item_quantity_keys:
  "update_item_quantity i q d = (res, d') \<Longrightarrow> map cart_key (cart_items d') = map cart_key (cart_items d)
     \<and> map ci_id (cart_items d') = map ci_id (cart_items d)"
  by (auto simp: cart_defs map_update_qty_same split: prod.splits option.splits list.splits dest!: call_tables)

lemma update_item_quantity_other:
  "update_item_quantity i q d = (res, d') \<Longrightarrow>
     books d' = books d \<and> carts d' = carts d \<and> orders d' = orders d \<and> order_items d' = order_items d
     \<and> next_id d' = next_id d"
  by (auto simp: cart_defs split: prod.splits option.splits list.splits dest!: call_tables)














section \<open>Properties of the cart service\<close>

text \<open>
  C12. The cart store never gives a user a second cart: \<open>getOrCreateCart\<close> keeps
  "at most one cart per user", whatever the backend answers.
\<close>

theorem getOrCreateCart_keeps_one_cart:
  assumes "one_cart_per_user d"
  shows "one_cart_per_user (snd (getOrCreateCart userId d))"
proof -
  have len: "length (filter (\<lambda>c. cart_user_id c = userId) (carts d)) \<le> 1"
    using assms unfolding one_cart_per_user_def by (rule filter_key_at_most_one)
  show ?thesis
    using assms len
    by (auto simp: getOrCreateCart_def one_cart_per_user_def fresh_id_def filter_empty_conv Let_def
        split: prod.splits option.splits list.splits dest!: call_tables)
qed

text \<open>
  A successful \<open>getOrCreateCart\<close> returns a cart of that user which is in the
  store: the one it had, or a new one with a fresh id.
\<close>

theorem getOrCreateCart_result:
  assumes "getOrCreateCart userId d = (Inr c, d')"
  shows "cart_user_id c = userId \<and> c \<in> set (carts d') \<and> (c \<in> set (carts d) \<or> cart_id c = next_id d)"
  using assms
  by (auto simp: getOrCreateCart_def fresh_id_def Let_def dest!: filter_eq_single_mem
      split: prod.splits option.splits list.splits dest!: call_tables)

text \<open>
  C14. When its lookup reaches the backend, \<open>addToCart\<close> keeps at most one row per
  cart, book and kind: it merges into the existing row instead of inserting.
\<close>

theorem addToCart_keeps_keys_unique:
  assumes "cart_keys_unique d" and "fst (call d) = None"
  shows "cart_keys_unique (snd (addToCart cartId bookId quantity isRental rentalPeriod d))"
proof -
  have dist: "distinct (map cart_key (cart_items d))"
    using assms(1) by (simp add: cart_keys_unique_def)
  have len: "length (filter (\<lambda>r. cart_key r = (cartId, bookId, isRental)) (cart_items d)) \<le> 1"
    using dist by (rule filter_key_at_most_one)
  obtain d1 where c1: "call d = (None, d1)"
    using assms(2) by (cases "call d") auto
  then have t1: "cart_items d1 = cart_items d" by (auto dest: call_tables)
  show ?thesis
  proof (cases "single (filter (cart_key_match cartId bookId isRental) (cart_items d1))")
    case None
    then have "filter (\<lambda>r. cart_key r = (cartId, bookId, isRental)) (cart_items d) = []"
      using len t1 by (cases "filter (\<lambda>r. cart_key r = (cartId, bookId, isRental)) (cart_items d)" rule: single.cases)
        (auto simp: cart_key_match_iff [abs_def])
    then have "(cartId, bookId, isRental) \<notin> set (map cart_key (cart_items d))"
      by (auto simp: filter_empty_conv)
    then show ?thesis
      using None c1 t1 dist
      by (auto simp: cart_defs cart_keys_unique_def cart_key_def
          split: prod.splits option.splits dest!: call_tables)
  next
    case (Some ex)
    obtain res d' where u: "update_item_quantity (ci_id ex) (ci_quantity ex + quantity) d1 = (res, d')"
      by (cases "update_item_quantity (ci_id ex) (ci_quantity ex + quantity) d1")
    have "addToCart cartId bookId quantity isRental rentalPeriod d = (res, d')"
      using c1 Some u by (simp add: addToCart_def)
    then show ?thesis
      using update_item_quantity_keys [OF u] dist t1 by (simp add: cart_keys_unique_def)
  qed
qed



text \<open>
  C16. Every cart operation that reports an error leaves the tables as they were.
\<close>

theorem cart_service_errors_change_nothing:
  "(case getOrCreateCart u d of (Inl _, d') \<Rightarrow> tables d' = tables d | _ \<Rightarrow> True)
   \<and> (case addToCart c b q k p d of (Inl _, d') \<Rightarrow> tables d' = tables d | _ \<Rightarrow> True)
   \<and> (case updateCartItemQuantity i q d of (Inl _, d') \<Rightarrow> tables d' = tables d | _ \<Rightarrow> True)
   \<and> (case removeFromCart i d of (Inl _, d') \<Rightarrow> tables d' = tables d | _ \<Rightarrow> True)
   \<and> (case clearCart c d of (Inl _, d') \<Rightarrow> tables d' = tables d | _ \<Rightarrow> True)
   \<and> (case getCartItems c d of (Inl _, d') \<Rightarrow> tables d' = tables d | _ \<Rightarrow> True)"
proof -
  obtain r d1 where c1: "call d = (r, d1)" by (cases "call d")
  obtain r2 d2 where c2: "call d1 = (r2, d2)" by (cases "call d1")
  have t1: "tables d1 = tables d" using c1 by (rule call_tables_eq)
  have t2: "tables d2 = tables d" using c2 t1 by (simp add: call_tables_eq)
  have upd: "case update_item_quantity i' q' d1 of (Inl _, d') \<Rightarrow> tables d' = tables d | _ \<Rightarrow> True" for i' q'
    using c2 t1 t2 by (simp add: update_item_quantity_def split: option.splits list.splits)
  show ?thesis
    using c1 c2 t1 t2 upd
    by (simp add: getOrCreateCart_def addToCart_def updateCartItemQuantity_def removeFromCart_def
        clearCart_def getCartItems_def update_item_quantity_def fresh_id_def Let_def
        split: option.splits list.splits sum.splits)
qed


text \<open>
  \<open>removeFromCart\<close> deletes exactly the rows with that id and \<open>clearCart\<close>
  exactly the rows of that cart when the call goes through; when it fails they
  report the backend's message and delete nothing.
\<close>

theorem cart_delete_effects:
  "cart_items (snd (removeFromCart i d)) =
     (if fst (call d) = None then filter (\<lambda>r. ci_id r \<noteq> i) (cart_items d) else cart_items d)
   \<and> fst (removeFromCart i d) = (case fst (call d) of None \<Rightarrow> Inr () | Some msg \<Rightarrow> Inl msg)
   \<and> cart_items (snd (clearCart c d)) =
     (if fst (call d) = None then filter (\<lambda>r. ci_cart_id r \<noteq> c) (cart_items d) else cart_items d)
   \<and> fst (clearCart c d) = (case fst (call d) of None \<Rightarrow> Inr () | Some msg \<Rightarrow> Inl msg)"
proof -
  obtain r d1 where c1: "call d = (r, d1)" by (cases "call d")
  then have "cart_items d1 = cart_items d" by (auto dest: call_tables)
  then show ?thesis
    using c1 by (simp add: removeFromCart_def clearCart_def split: option.splits)
qed


text \<open>
  Merging adds quantities without the cart page's bound of 10 and keeps the
  old rental period: on the example store one more copy of \<open>b1\<close> gives a row of 11
  copies, and a six-month rental of \<open>b2\<close> leaves its row at the one-month period.
\<close>

theorem addToCart_merge_unbounded:
  "fst (addToCart 0 ''b1'' 1 False None example_db) =
     Inr \<lparr>ci_id = 1, ci_cart_id = 0, ci_book_id = ''b1'', ci_quantity = 11,
          ci_is_rental = False, ci_rental_period = None\<rparr>
   \<and> fst (addToCart 0 ''b2'' 1 True (Some 180) example_db) =
     Inr \<lparr>ci_id = 2, ci_cart_id = 0, ci_book_id = ''b2'', ci_quantity = 2,
          ci_is_rental = True, ci_rental_period = Some 30\<rparr>"
  by (simp add: example_db_def addToCart_def update_item_quantity_def cart_key_match_def call_def)

section \<open>Witnesses\<close>

theorem getOrCreateCart_keeps_one_cart_witness:
  "one_cart_per_user (snd (getOrCreateCart ''u2'' example_db))"
proof -
  have h: "one_cart_per_user example_db" by (simp add: one_cart_per_user_def example_db_def)
  show ?thesis by (rule getOrCreateCart_keeps_one_cart [OF h])
qed

theorem getOrCreateCart_result_witness:
  "cart_user_id (projr (fst (getOrCreateCart ''u1'' example_db))) = ''u1''"
proof -
  have h: "getOrCreateCart ''u1'' example_db = (Inr \<lparr>cart_id = 0, cart_user_id = ''u1''\<rparr>, example_db)"
    by (simp add: getOrCreateCart_def example_db_def call_def)
  show ?thesis using getOrCreateCart_result [OF h] h by simp
qed


theorem addToCart_keeps_keys_unique_witness:
  "cart_keys_unique (snd (addToCart 0 ''b1'' 1 False None example_db))"
proof -
  have h1: "cart_keys_unique example_db"
    by (simp add: cart_keys_unique_def cart_key_def example_db_def)
  have h2: "fst (call example_db) = None"
    by (simp add: call_def example_db_def)
  show ?thesis by (rule addToCart_keeps_keys_unique [OF h1 h2])
qed


section \<open>Effects on the cart lines\<close>

text \<open>What each successful or failed update leaves in \<open>cart_items\<close>; the cart page's invariants rest on these.\<close>

lemma update_item_quantity_Inr:
  "update_item_quantity i q d = (Inr x, d1) \<Longrightarrow>
     (\<exists>r. filter (\<lambda>r. ci_id r = i) (cart_items d) = [r])
     \<and> cart_items d1 = map (\<lambda>x. if ci_id x = i then x\<lparr>ci_quantity := q\<rparr> else x) (cart_items d)"
  by (auto simp: update_item_quantity_def split: prod.splits option.splits list.splits dest!: call_tables)

lemma update_item_quantity_Inl:
  "update_item_quantity i q d = (Inl e, d1) \<Longrightarrow> cart_items d1 = cart_items d"
  by (auto simp: update_item_quantity_def split: prod.splits option.splits list.splits dest!: call_tables)

lemma removeFromCart_cart_items:
  "removeFromCart i d = (res, d1) \<Longrightarrow>
     cart_items d1 = (case res of Inr _ \<Rightarrow> filter (\<lambda>r. ci_id r \<noteq> i) (cart_items d) | Inl _ \<Rightarrow> cart_items d)"
  by (auto simp: removeFromCart_def split: prod.splits option.splits dest!: call_tables)

end
