(* ===== verification/Pricing.thy ===== *)
theory Pricing
  imports Prelude
begin

text \<open>
  The pricing engine of the cart page (\<open>src/src/pages/CartPage.tsx\<close>, functions
  \<open>calculateSubtotal\<close>, \<open>calculateTax\<close>, \<open>calculateShipping\<close>,
  \<open>calculateSecurityDeposit\<close> and \<open>calculateTotal\<close>) over the page's cart lines, and
  the per-month rental price the page displays for a rental line. The folds are
  translated as left folds with the code's step functions; \<open>line_amount\<close> is the
  reference definition of one line's contribution, and the lemmas relate the folds
  to sums of it.
\<close>

section \<open>Cart lines as the page holds them\<close>

text \<open>\<open>item.type\<close> is \<open>"buy"\<close> or \<open>"rent"\<close> (set from \<open>is_rental\<close> when the cart is read).\<close>

datatype item_kind = Buy | Rent

text \<open>The fields of the book row the pricing reads: its id and its list price.\<close>

record cart_book =
  bk_id :: string
  bk_price :: money

text \<open>
  One transformed cart item \<open>{id, type, book, quantity, rentalPeriod}\<close>;
  \<open>rentalPeriod\<close> is in months and is present on every line (3 by default).
\<close>

record cart_line =
  cl_id :: nat
  cl_type :: item_kind
  cl_book :: cart_book
  cl_quantity :: int
  cl_rental_period :: int

section \<open>The pricing functions\<close>

text \<open>
  \<^verbatim>\<open>let rentalRate = 0.4; if (p === 3) rentalRate = 0.35; if (p === 6) rentalRate = 0.3;\<close>
\<close>

definition rental_rate :: "int \<Rightarrow> rat" where
  "rental_rate p =
     (let r = 2/5;
          r = (if p = 3 then 7/20 else r);
          r = (if p = 6 then 3/10 else r)
      in r)"

definition subtotal_step :: "money \<Rightarrow> cart_line \<Rightarrow> money" where
  "subtotal_step tot item =
     (if cl_type item = Buy
      then tot + bk_price (cl_book item) * of_int (cl_quantity item)
      else (let rentalRate = rental_rate (cl_rental_period item)
            in tot + bk_price (cl_book item) * rentalRate * of_int (cl_quantity item)))"

definition calculateSubtotal :: "cart_line list \<Rightarrow> money" where
  "calculateSubtotal cartItems = foldl subtotal_step 0 cartItems"

text \<open>\<open>Math.round(calculateSubtotal() * 0.18)\<close>: 18\% GST, rounded to a whole rupee.\<close>

definition calculateTax :: "cart_line list \<Rightarrow> money" where
  "calculateTax cartItems = of_int (js_round (calculateSubtotal cartItems * 18/100))"

definition calculateShipping :: "cart_line list \<Rightarrow> money" where
  "calculateShipping cartItems =
     (let subtotal = calculateSubtotal cartItems
      in if subtotal \<ge> 500 then 0 else 50)"

text \<open>The deposit repeats the rate table inline, as \<open>depositRate\<close>.\<close>

definition deposit_rate :: "int \<Rightarrow> rat" where
  "deposit_rate p =
     (let r = 2/5;
          r = (if p = 3 then 7/20 else r);
          r = (if p = 6 then 3/10 else r)
      in r)"

definition deposit_step :: "money \<Rightarrow> cart_line \<Rightarrow> money" where
  "deposit_step tot item =
     (let depositRate = deposit_rate (cl_rental_period item)
      in tot + bk_price (cl_book item) * depositRate * of_int (cl_quantity item))"

definition calculateSecurityDeposit :: "cart_line list \<Rightarrow> money" where
  "calculateSecurityDeposit cartItems =
     foldl deposit_step 0 (filter (\<lambda>item. cl_type item = Rent) cartItems)"

definition calculateTotal :: "cart_line list \<Rightarrow> money" where
  "calculateTotal cartItems =
     calculateSubtotal cartItems + calculateTax cartItems + calculateShipping cartItems
     + calculateSecurityDeposit cartItems"

text \<open>
  The rental price shown beside a rental line:
  \<^verbatim>\<open>Math.round(item.book.price * (p === 1 ? 0.4 : p === 3 ? 0.35 : 0.3))\<close>.
\<close>

definition display_rate :: "int \<Rightarrow> rat" where
  "display_rate p = (if p = 1 then 2/5 else if p = 3 then 7/20 else 3/10)"

definition rental_display_price :: "cart_line \<Rightarrow> int" where
  "rental_display_price item =
     js_round (bk_price (cl_book item) * display_rate (cl_rental_period item))"

section \<open>Reference definition of a line's amount\<close>

definition line_amount :: "cart_line \<Rightarrow> money" where
  "line_amount item =
     (case cl_type item of
        Buy \<Rightarrow> bk_price (cl_book item) * of_int (cl_quantity item)
      | Rent \<Rightarrow> bk_price (cl_book item) * rental_rate (cl_rental_period item)
                * of_int (cl_quantity item))"

abbreviation is_rent :: "cart_line \<Rightarrow> bool" where
  "is_rent item \<equiv> cl_type item = Rent"

abbreviation is_buy :: "cart_line \<Rightarrow> bool" where
  "is_buy item \<equiv> cl_type item = Buy"

section \<open>Carts of the specification's scenarios\<close>

definition scenario_A :: "cart_line list" where
  "scenario_A = [\<lparr>cl_id = 1, cl_type = Buy, cl_book = \<lparr>bk_id = ''b599'', bk_price = 599\<rparr>,
                  cl_quantity = 1, cl_rental_period = 3\<rparr>]"

definition scenario_B :: "cart_line list" where
  "scenario_B = [\<lparr>cl_id = 1, cl_type = Rent, cl_book = \<lparr>bk_id = ''b830'', bk_price = 830\<rparr>,
                  cl_quantity = 1, cl_rental_period = 3\<rparr>]"

definition scenario_C :: "cart_line list" where
  "scenario_C = [\<lparr>cl_id = 1, cl_type = Buy, cl_book = \<lparr>bk_id = ''b200'', bk_price = 200\<rparr>,
                  cl_quantity = 2, cl_rental_period = 3\<rparr>,
                 \<lparr>cl_id = 2, cl_type = Rent, cl_book = \<lparr>bk_id = ''b300'', bk_price = 300\<rparr>,
                  cl_quantity = 1, cl_rental_period = 6\<rparr>]"

section \<open>Lemmas\<close>

lemma rental_rate_cases: "rental_rate p = (if p = 6 then 3/10 else if p = 3 then 7/20 else 2/5)"
  by (simp add: rental_rate_def)

lemma deposit_rate_eq_rental_rate [pricing_simps]: "deposit_rate p = rental_rate p"
  by (simp add: deposit_rate_def rental_rate_def)

lemma subtotal_step_eq [pricing_simps]: "subtotal_step t item = t + line_amount item"
  by (simp add: subtotal_step_def line_amount_def split: item_kind.split)

lemma deposit_step_eq: "deposit_step t item = t + bk_price (cl_book item) * rental_rate (cl_rental_period item) * of_int (cl_quantity item)"
  by (simp add: deposit_step_def pricing_simps)

lemma line_amount_rent:
  "is_rent item \<Longrightarrow> line_amount item = bk_price (cl_book item) * rental_rate (cl_rental_period item) * of_int (cl_quantity item)"
  by (simp add: line_amount_def)

lemma subtotal_sum [pricing_simps]: "calculateSubtotal xs = sum_list (map line_amount xs)"
  unfolding calculateSubtotal_def by (simp add: foldl_add_sum_list subtotal_step_eq)

lemma deposit_sum [pricing_simps]:
  "calculateSecurityDeposit xs = sum_list (map line_amount (filter is_rent xs))"
proof -
  have "map (\<lambda>item. bk_price (cl_book item) * rental_rate (cl_rental_period item) * of_int (cl_quantity item)) (filter is_rent xs)
        = map line_amount (filter is_rent xs)"
    by (rule map_cong) (simp_all add: line_amount_rent)
  then show ?thesis
    unfolding calculateSecurityDeposit_def
    by (simp only: foldl_add_sum_list [OF deposit_step_eq] add_0_left)
qed

lemma sum_line_amount_partition:
  "sum_list (map line_amount xs) =
     sum_list (map line_amount (filter is_buy xs)) + sum_list (map line_amount (filter is_rent xs))"
proof (induction xs)
  case Nil
  then show ?case by simp
next
  case (Cons x xs)
  then show ?case by (cases "cl_type x") (simp_all add: algebra_simps)
qed

lemma rental_rate_range: "3/10 \<le> rental_rate p \<and> rental_rate p \<le> 2/5"
  by (simp add: rental_rate_cases)

lemma line_amount_nonneg:
  "0 \<le> bk_price (cl_book item) \<Longrightarrow> 0 \<le> cl_quantity item \<Longrightarrow> 0 \<le> line_amount item"
  using rental_rate_range [of "cl_rental_period item"]
  by (simp add: line_amount_def split: item_kind.split)

lemma tax_as_round: "calculateTax xs = of_int (js_round (sum_list (map line_amount xs) * 18/100))"
  by (simp add: calculateTax_def pricing_simps)

lemma shipping_as_threshold: "calculateShipping xs = (if 500 \<le> sum_list (map line_amount xs) then 0 else 50)"
  by (simp add: calculateShipping_def pricing_simps)

lemmas pricing_unfold = subtotal_sum deposit_sum tax_as_round shipping_as_threshold

section \<open>Properties of the pricing engine\<close>

text \<open>
  C1. The grand total is the subtotal (the sum of the line amounts), plus 18\% tax on
  it rounded with \<open>Math.round\<close>, plus shipping (free from a subtotal of 500, else 50),
  plus the security deposit (the sum of the rental line amounts), each computed
  from the lines independently.
\<close>

theorem calculateTotal_decomposition:
  "calculateTotal xs =
     (let S = sum_list (map line_amount xs);
          D = sum_list (map line_amount (filter is_rent xs))
      in S + of_int (js_round (S * 18/100)) + (if 500 \<le> S then 0 else 50) + D)"
  by (simp add: calculateTotal_def pricing_unfold Let_def)

text \<open>
  C2. The code's fold \<open>calculateSubtotal\<close> computes the sum of the reference line
  amounts: a purchase line costs price times quantity, a rental line price times the
  rate of its term times quantity.
\<close>

theorem calculateSubtotal_equiv_sum:
  "calculateSubtotal xs = sum_list (map line_amount xs)"
  unfolding calculateSubtotal_def
  by (rule foldl_add_sum_list [where a = 0, simplified]) (rule subtotal_step_eq)



text \<open>
  A cart without rental lines carries no security deposit, and adding purchase
  lines to a cart never changes its deposit.
\<close>

theorem deposit_zero_without_rentals:
  assumes "\<forall>item \<in> set ys. cl_type item = Buy"
  shows "calculateSecurityDeposit ys = 0 \<and> calculateSecurityDeposit (xs @ ys) = calculateSecurityDeposit xs"
proof -
  have "filter is_rent ys = []"
    using assms by (auto simp: filter_empty_conv)
  then show ?thesis by (simp add: pricing_unfold)
qed

text \<open>The tax never decreases when the subtotal grows.\<close>

theorem calculateTax_monotone:
  assumes "calculateSubtotal xs \<le> calculateSubtotal ys"
  shows "calculateTax xs \<le> calculateTax ys"
proof -
  have "calculateSubtotal xs * 18/100 \<le> calculateSubtotal ys * 18/100"
    using assms by simp
  then show ?thesis
    unfolding calculateTax_def by (simp add: js_round_mono)
qed

text \<open>C7. The rounded tax is within half a rupee of 18\% of the subtotal.\<close>

theorem calculateTax_rounding_bounds:
  "calculateSubtotal xs * 18/100 - 1/2 < calculateTax xs
   \<and> calculateTax xs \<le> calculateSubtotal xs * 18/100 + 1/2"
  unfolding calculateTax_def using js_round_lower js_round_upper by blast

text \<open>
  C8. On a well-formed cart (no negative price or quantity) every figure is
  non-negative, the deposit never exceeds the subtotal, and the total is at least
  the subtotal plus the deposit.
\<close>

theorem pricing_nonneg:
  assumes "\<forall>item \<in> set xs. 0 \<le> bk_price (cl_book item) \<and> 0 \<le> cl_quantity item"
  shows "0 \<le> calculateSecurityDeposit xs \<and> calculateSecurityDeposit xs \<le> calculateSubtotal xs
    \<and> 0 \<le> calculateTax xs \<and> calculateSubtotal xs + calculateSecurityDeposit xs \<le> calculateTotal xs"
proof -
  have nn: "\<And>item. item \<in> set xs \<Longrightarrow> 0 \<le> line_amount item"
    using assms by (simp add: line_amount_nonneg)
  have B: "0 \<le> sum_list (map line_amount (filter is_buy xs))"
    by (rule sum_list_map_nonneg) (simp add: nn)
  have D: "0 \<le> sum_list (map line_amount (filter is_rent xs))"
    by (rule sum_list_map_nonneg) (simp add: nn)
  have S: "0 \<le> sum_list (map line_amount xs)"
    by (rule sum_list_map_nonneg) (simp add: nn)
  have T: "0 \<le> calculateTax xs"
    unfolding calculateTax_def using S by (simp add: pricing_simps js_round_nonneg)
  have Sh: "0 \<le> calculateShipping xs"
    by (simp add: calculateShipping_def)
  show ?thesis
    using B D S T Sh sum_line_amount_partition [of xs]
    by (simp add: calculateTotal_def pricing_unfold)
qed

text \<open>
  C9. The two inline copies of the rate table agree (the deposit rate is the rental
  rate), and the table is 0.35 for a 3-month term, 0.30 for 6 months, and 0.40 for
  every other term, the 1-month term and unknown terms alike.
\<close>

theorem rental_rate_table:
  "deposit_rate p = rental_rate p
   \<and> rental_rate p = (if p = 3 then 7/20 else if p = 6 then 3/10 else 2/5)"
  by (simp add: deposit_rate_def rental_rate_def)

text \<open>
  The per-month rental price the cart displays uses the charged rate only for
  the terms 1, 3 and 6: for any other term it shows 30\% of the price while the
  subtotal charges 40\%.
\<close>

theorem display_rate_matches_only_known_terms:
  "display_rate p = rental_rate p \<longleftrightarrow> p \<in> {1, 3, 6}"
  by (auto simp: display_rate_def rental_rate_def)

text \<open>
  The three worked scenarios of the specification: one purchase at 599
  (subtotal 599, tax 108, free shipping, no deposit, total 707); one 3-month rental
  of an 830 book (subtotal 290.5, tax 52, shipping 50, deposit 290.5, total 683);
  two purchases at 200 with a 6-month rental of a 300 book (subtotal 490, tax 88,
  shipping 50, deposit 90, total 718).
\<close>

theorem spec_scenarios:
  "calculateSubtotal scenario_A = 599 \<and> calculateTax scenario_A = 108
   \<and> calculateShipping scenario_A = 0 \<and> calculateSecurityDeposit scenario_A = 0
   \<and> calculateTotal scenario_A = 707
   \<and> calculateSubtotal scenario_B = 581/2 \<and> calculateTax scenario_B = 52
   \<and> calculateShipping scenario_B = 50 \<and> calculateSecurityDeposit scenario_B = 581/2
   \<and> calculateTotal scenario_B = 683
   \<and> calculateSubtotal scenario_C = 490 \<and> calculateTax scenario_C = 88
   \<and> calculateShipping scenario_C = 50 \<and> calculateSecurityDeposit scenario_C = 90
   \<and> calculateTotal scenario_C = 718"
  by (simp add: scenario_A_def scenario_B_def scenario_C_def calculateTotal_def pricing_unfold
      line_amount_def rental_rate_def js_round_def floor_eq_iff)

section \<open>Witnesses\<close>


theorem deposit_zero_without_rentals_witness:
  "calculateSecurityDeposit scenario_A = 0
   \<and> calculateSecurityDeposit (scenario_B @ scenario_A) = calculateSecurityDeposit scenario_B"
proof -
  have h: "\<forall>item \<in> set scenario_A. cl_type item = Buy"
    by (simp add: scenario_A_def)
  show ?thesis using deposit_zero_without_rentals [OF h, of scenario_B] by simp
qed

theorem calculateTax_monotone_witness:
  "calculateSubtotal scenario_B \<le> calculateSubtotal scenario_A
   \<and> calculateTax scenario_B \<le> calculateTax scenario_A"
proof -
  have h: "calculateSubtotal scenario_B \<le> calculateSubtotal scenario_A"
    by (simp add: scenario_A_def scenario_B_def pricing_unfold line_amount_def rental_rate_def)
  show ?thesis using calculateTax_monotone [OF h] h by simp
qed

theorem pricing_nonneg_witness:
  "calculateSubtotal scenario_C + calculateSecurityDeposit scenario_C \<le> calculateTotal scenario_C"
proof -
  have h: "\<forall>item \<in> set scenario_C. 0 \<le> bk_price (cl_book item) \<and> 0 \<le> cl_quantity item"
    by (simp add: scenario_C_def)
  show ?thesis using pricing_nonneg [OF h] by simp
qed

end
