(* ===== verification/Checkout.thy ===== *)
theory Checkout
  imports Pricing Store
begin

text \<open>
  Order placement: the order form's submit handler (\<open>src/src/components/OrderForm.tsx\<close>,
  \<open>onSubmit\<close>) turns the cart page's lines into order inputs and calls
  \<open>createOrder\<close> (\<open>src/src/services/orderService.ts\<close>), which inserts the order
  header, then each order line in its own round trip (a failed line is logged and
  skipped), then clears the cart, then re-reads the order. Every round trip may fail
  as the store's schedule says. \<open>Date.now()\<close> is read as one instant \<open>now\<close>
  (milliseconds since the epoch) for the whole submission.
\<close>

section \<open>Inputs\<close>

text \<open>One element of \<open>items\<close>: \<open>{book_id, quantity, is_rental, rental_period, books: {price}}\<close>.\<close>

record order_input =
  in_book_id :: string
  in_quantity :: int
  in_is_rental :: bool
  in_rental_period :: "int option"
  in_price :: money

record shipping_info =
  sh_address :: string
  sh_city :: string
  sh_state :: string
  sh_zip :: string
  sh_country :: string

text \<open>The form's fields (validated by the form schema before \<open>onSubmit\<close> runs).\<close>

record form_values =
  fv_fullName :: string
  fv_email :: string
  fv_phone :: string
  fv_address :: string
  fv_city :: string
  fv_pincode :: string
  fv_state :: string

section \<open>createOrder\<close>

definition default_user_id :: string where
  "default_user_id = ''00000000-0000-0000-0000-000000000000''"

definition ms_per_day :: int where
  "ms_per_day = 24 * 60 * 60 * 1000"

text \<open>
  \<open>new Date(Date.now() + item.rental_period * 24*60*60*1000).toISOString().split("T")[0]\<close>:
  the UTC calendar day, as a day number; a missing period is \<open>null\<close>, which
  JavaScript multiplies as 0.
\<close>

definition rental_end_day :: "int \<Rightarrow> int option \<Rightarrow> int" where
  "rental_end_day now rental_period =
     (now + (case rental_period of None \<Rightarrow> 0 | Some p \<Rightarrow> p) * ms_per_day) div ms_per_day"

definition order_item_of :: "nat \<Rightarrow> nat \<Rightarrow> int \<Rightarrow> order_input \<Rightarrow> order_item_row" where
  "order_item_of newId orderId now item =
     \<lparr>oi_id = newId, oi_order_id = orderId, oi_book_id = in_book_id item,
      oi_quantity = in_quantity item, oi_price = in_price item,
      oi_is_rental = in_is_rental item, oi_rental_period = in_rental_period item,
      oi_rental_end_date =
        (if in_is_rental item then Some (rental_end_day now (in_rental_period item)) else None)\<rparr>"

text \<open>The loop \<open>for (const item of items)\<close>: one insert per item; an error is logged and the loop goes on.\<close>

fun insert_order_items :: "nat \<Rightarrow> int \<Rightarrow> order_input list \<Rightarrow> db \<Rightarrow> db" where
  "insert_order_items orderId now [] d = d"
| "insert_order_items orderId now (item # items) d =
     (let (itemError, d1) = call d in
      case itemError of
        Some _ \<Rightarrow> insert_order_items orderId now items d1
      | None \<Rightarrow>
          (let (newId, d2) = fresh_id d1
           in insert_order_items orderId now items
                (d2\<lparr>order_items := order_items d2 @ [order_item_of newId orderId now item]\<rparr>)))"

text \<open>The order header inserted first, with status \<open>"pending"\<close>.\<close>

definition order_header :: "string \<Rightarrow> money \<Rightarrow> shipping_info \<Rightarrow> string \<Rightarrow> nat \<Rightarrow> order_row" where
  "order_header userToUse totalAmount shippingInfo paymentMethod orderId =
     \<lparr>o_id = orderId, o_user_id = userToUse, o_status = Pending,
      o_total_amount = totalAmount,
      o_shipping_address = sh_address shippingInfo,
      o_shipping_city = sh_city shippingInfo,
      o_shipping_state = sh_state shippingInfo,
      o_shipping_zip = sh_zip shippingInfo,
      o_shipping_country = sh_country shippingInfo,
      o_payment_method = paymentMethod\<rparr>"

text \<open>
  \<open>if (cartId) { delete from cart_items where cart_id = cartId }\<close>; an error is
  logged only. \<open>cartId\<close> is \<open>None\<close> where the caller passes the empty string
  (\<open>cart?.id || ''\<close>).
\<close>

definition clear_cart_after_order :: "nat option \<Rightarrow> db \<Rightarrow> db" where
  "clear_cart_after_order cartId d =
     (case cartId of
        None \<Rightarrow> d
      | Some cid \<Rightarrow>
          (let (cartError, d1) = call d in
           case cartError of
             Some _ \<Rightarrow> d1
           | None \<Rightarrow> d1\<lparr>cart_items := filter (\<lambda>r. ci_cart_id r \<noteq> cid) (cart_items d1)\<rparr>))"

text \<open>Re-read the order with \<open>.single()\<close>; on an error return the order as inserted.\<close>

definition refetch_order :: "order_row \<Rightarrow> db \<Rightarrow> (string + order_row) \<times> db" where
  "refetch_order order d =
     (let (fetchError, d1) = call d in
      case fetchError of
        Some _ \<Rightarrow> (Inr order, d1)
      | None \<Rightarrow>
          (case filter (\<lambda>o'. o_id o' = o_id order) (orders d1) of
             [completeOrder] \<Rightarrow> (Inr completeOrder, d1)
           | _ \<Rightarrow> (Inr order, d1)))"

definition createOrder ::
  "string \<Rightarrow> nat option \<Rightarrow> order_input list \<Rightarrow> shipping_info \<Rightarrow> string \<Rightarrow> money \<Rightarrow> int \<Rightarrow> db
   \<Rightarrow> (string + order_row) \<times> db" where
  "createOrder userId cartId items shippingInfo paymentMethod totalAmount now d =
     (let userToUse = (if js_truthy userId then userId else default_user_id);
          (orderError, d1) = call d
      in case orderError of
           Some msg \<Rightarrow> (Inl msg, d1)
         | None \<Rightarrow>
             (let (orderId, d2) = fresh_id d1;
                  order = order_header userToUse totalAmount shippingInfo paymentMethod orderId;
                  d3 = d2\<lparr>orders := orders d2 @ [order]\<rparr>;
                  d4 = insert_order_items orderId now items d3;
                  d5 = clear_cart_after_order cartId d4
              in refetch_order order d5))"

section \<open>The order form's submit handler\<close>

text \<open>\<open>cartItems.map(item => ({...}))\<close>: months become days, the list price is frozen.\<close>

definition order_input_of :: "cart_line \<Rightarrow> order_input" where
  "order_input_of item =
     \<lparr>in_book_id = bk_id (cl_book item), in_quantity = cl_quantity item,
      in_is_rental = (cl_type item = Rent),
      in_rental_period = (if cl_type item = Rent then Some (cl_rental_period item * 30) else None),
      in_price = bk_price (cl_book item)\<rparr>"

datatype submit_outcome = LoginRequired | OrderFailed string | OrderPlaced order_row

text \<open>
  \<open>onSubmit\<close>: without a signed-in user nothing is sent; otherwise the order is
  created with the shipping fields of the form (country \<open>"India"\<close>), payment
  \<open>"Cash on Delivery"\<close> and the total the cart page computed.
\<close>

definition onSubmit ::
  "string option \<Rightarrow> form_values \<Rightarrow> cart_line list \<Rightarrow> nat option \<Rightarrow> money \<Rightarrow> int \<Rightarrow> db
   \<Rightarrow> submit_outcome \<times> db" where
  "onSubmit user data cartItems cartId cartTotal now d =
     (case user of
        None \<Rightarrow> (LoginRequired, d)
      | Some uid \<Rightarrow>
          (let shippingInfo = \<lparr>sh_address = fv_address data, sh_city = fv_city data,
                               sh_state = fv_state data, sh_zip = fv_pincode data,
                               sh_country = ''India''\<rparr>;
               items = map order_input_of cartItems;
               (res, d') = createOrder uid cartId items shippingInfo ''Cash on Delivery'' cartTotal now d
           in case res of
                Inl err \<Rightarrow> (OrderFailed err, d')
              | Inr order \<Rightarrow> (OrderPlaced order, d')))"

section \<open>Example data\<close>

definition sample_shipping :: shipping_info where
  "sample_shipping = \<lparr>sh_address = ''12 MG Road'', sh_city = ''Pune'', sh_state = ''MH'',
                      sh_zip = ''411001'', sh_country = ''India''\<rparr>"

text \<open>Two purchases of \<open>b1\<close> at 200 and a six-month rental of \<open>b2\<close> at 300, as the form sends them.\<close>

definition sample_inputs :: "order_input list" where
  "sample_inputs =
     [\<lparr>in_book_id = ''b1'', in_quantity = 2, in_is_rental = False, in_rental_period = None, in_price = 200\<rparr>,
      \<lparr>in_book_id = ''b2'', in_quantity = 1, in_is_rental = True, in_rental_period = Some 180, in_price = 300\<rparr>]"

definition checkout_db :: db where
  "checkout_db =
     \<lparr>books = [], carts = [\<lparr>cart_id = 0, cart_user_id = ''u1''\<rparr>],
      cart_items = [\<lparr>ci_id = 1, ci_cart_id = 0, ci_book_id = ''b1'', ci_quantity = 2,
                     ci_is_rental = False, ci_rental_period = None\<rparr>,
                    \<lparr>ci_id = 2, ci_cart_id = 0, ci_book_id = ''b2'', ci_quantity = 1,
                     ci_is_rental = True, ci_rental_period = Some 180\<rparr>],
      orders = [], order_items = [], categories = [], profiles = [], resell_requests = [], reviews = [], testimonials = [], storage = [], next_id = 3, sched = []\<rparr>"

section \<open>Lemmas\<close>

lemma order_item_of_order: "oi_order_id (order_item_of k oid now item) = oid"
  by (simp add: order_item_of_def)

lemma insert_order_items_frame:
  "books (insert_order_items oid now items d) = books d
   \<and> carts (insert_order_items oid now items d) = carts d
   \<and> cart_items (insert_order_items oid now items d) = cart_items d
   \<and> orders (insert_order_items oid now items d) = orders d"
proof (induction items arbitrary: d)
  case Nil
  then show ?case by simp
next
  case (Cons item items)
  obtain r d1 where c: "call d = (r, d1)" by (cases "call d")
  then show ?case
    using Cons.IH [of d1] Cons.IH [of "d1\<lparr>next_id := Suc (next_id d1), order_items := order_items d1 @ [order_item_of (next_id d1) oid now item]\<rparr>"]
    by (cases r) (auto simp: fresh_id_def dest: call_tables)
qed

lemma insert_order_items_sched:
  "sched (insert_order_items oid now items d) = drop (length items) (sched d)"
proof (induction items arbitrary: d)
  case Nil
  then show ?case by simp
next
  case (Cons item items)
  obtain r d1 where c: "call d = (r, d1)" by (cases "call d")
  have s1: "sched d1 = tl (sched d)" using c by (simp add: call_sched)
  show ?case
    using c s1 Cons.IH [of d1] Cons.IH [of "d1\<lparr>next_id := Suc (next_id d1), order_items := order_items d1 @ [order_item_of (next_id d1) oid now item]\<rparr>"]
    by (cases r) (auto simp: fresh_id_def drop_Suc)
qed

lemma insert_order_items_lines:
  "\<exists>new. order_items (insert_order_items oid now items d) = order_items d @ new
     \<and> length new \<le> length items
     \<and> (\<forall>r \<in> set new. \<exists>item \<in> set items. r = order_item_of (oi_id r) oid now item)
     \<and> (\<forall>r \<in> set new. next_id d \<le> oi_id r \<and> oi_id r < next_id (insert_order_items oid now items d))
     \<and> distinct (map oi_id new)
     \<and> next_id d \<le> next_id (insert_order_items oid now items d)"
proof (induction items arbitrary: d)
  case Nil
  then show ?case by simp
next
  case (Cons item items)
  obtain r d1 where c: "call d = (r, d1)" by (cases "call d")
  have t: "order_items d1 = order_items d" "next_id d1 = next_id d" using c by (auto dest: call_tables)
  show ?case
  proof (cases r)
    case None
    let ?row = "order_item_of (next_id d1) oid now item"
    let ?d2 = "d1\<lparr>next_id := Suc (next_id d1), order_items := order_items d1 @ [?row]\<rparr>"
    obtain new where n: "order_items (insert_order_items oid now items ?d2) = order_items ?d2 @ new"
      "length new \<le> length items"
      "\<forall>r \<in> set new. \<exists>item \<in> set items. r = order_item_of (oi_id r) oid now item"
      "\<forall>r \<in> set new. next_id ?d2 \<le> oi_id r \<and> oi_id r < next_id (insert_order_items oid now items ?d2)"
      "distinct (map oi_id new)" "next_id ?d2 \<le> next_id (insert_order_items oid now items ?d2)"
      using Cons.IH [of ?d2] by blast
    have idrow: "oi_id ?row = next_id d" using t by (simp add: order_item_of_def)
    show ?thesis
      using c None t n idrow
      by (intro exI [of _ "?row # new"]) (auto simp: fresh_id_def order_item_of_def)
  next
    case (Some e)
    obtain new where n: "order_items (insert_order_items oid now items d1) = order_items d1 @ new"
      "length new \<le> length items"
      "\<forall>r \<in> set new. \<exists>item \<in> set items. r = order_item_of (oi_id r) oid now item"
      "\<forall>r \<in> set new. next_id d1 \<le> oi_id r \<and> oi_id r < next_id (insert_order_items oid now items d1)"
      "distinct (map oi_id new)" "next_id d1 \<le> next_id (insert_order_items oid now items d1)"
      using Cons.IH [of d1] by blast
    show ?thesis
      using c Some t n by (intro exI [of _ new]) auto
  qed
qed


lemma insert_order_items_no_faults:
  "sched d = [] \<Longrightarrow> insert_order_items oid now items d =
     d\<lparr>next_id := next_id d + length items,
       order_items := order_items d @ map2 (\<lambda>k item. order_item_of k oid now item)
                                          [next_id d..<next_id d + length items] items\<rparr>"
proof (induction items arbitrary: d)
  case Nil
  then show ?case by simp
next
  case (Cons item items)
  let ?d2 = "d\<lparr>next_id := Suc (next_id d), order_items := order_items d @ [order_item_of (next_id d) oid now item]\<rparr>"
  have "insert_order_items oid now (item # items) d = insert_order_items oid now items ?d2"
    using Cons.prems by (simp add: call_Nil fresh_id_def)
  also have "\<dots> = ?d2\<lparr>next_id := next_id ?d2 + length items,
       order_items := order_items ?d2 @ map2 (\<lambda>k item. order_item_of k oid now item)
                                          [next_id ?d2..<next_id ?d2 + length items] items\<rparr>"
    using Cons.prems by (intro Cons.IH) simp
  also have "\<dots> = d\<lparr>next_id := next_id d + length (item # items),
       order_items := order_items d @ map2 (\<lambda>k item. order_item_of k oid now item)
                                          [next_id d..<next_id d + length (item # items)] (item # items)\<rparr>"
  proof -
    have "[next_id d..<next_id d + length (item # items)] = next_id d # [Suc (next_id d)..<Suc (next_id d) + length items]"
      by (simp add: upt_conv_Cons del: upt_Suc)
    then show ?thesis by (simp del: upt_Suc)
  qed
  finally show ?case .
qed

lemma clear_cart_after_order_frame:
  "books (clear_cart_after_order c d) = books d \<and> carts (clear_cart_after_order c d) = carts d
   \<and> orders (clear_cart_after_order c d) = orders d \<and> order_items (clear_cart_after_order c d) = order_items d
   \<and> next_id (clear_cart_after_order c d) = next_id d"
proof -
  obtain r d1 where "call d = (r, d1)" by (cases "call d")
  then show ?thesis
    by (cases c; cases r) (auto simp: clear_cart_after_order_def dest: call_tables)
qed

lemma clear_cart_after_order_cart_items:
  "cart_items (clear_cart_after_order c d) = cart_items d
   \<or> (\<exists>cid. c = Some cid \<and> cart_items (clear_cart_after_order c d) = filter (\<lambda>r. ci_cart_id r \<noteq> cid) (cart_items d))"
proof -
  obtain r d1 where "call d = (r, d1)" by (cases "call d")
  then show ?thesis
    by (cases c; cases r) (auto simp: clear_cart_after_order_def dest: call_tables)
qed

lemma refetch_order_result:
  assumes "order \<in> set (orders d)"
  shows "refetch_order order d = (Inr order, snd (call d))"
proof -
  obtain r d1 where c: "call d = (r, d1)" by (cases "call d")
  have o1: "orders d1 = orders d" using c by (auto dest: call_tables)
  have "filter (\<lambda>o'. o_id o' = o_id order) (orders d1) = [x] \<Longrightarrow> x = order" for x
  proof -
    assume f: "filter (\<lambda>o'. o_id o' = o_id order) (orders d1) = [x]"
    have "order \<in> set (filter (\<lambda>o'. o_id o' = o_id order) (orders d1))" using assms o1 by simp
    with f show "x = order" by simp
  qed
  then show ?thesis
    using c by (cases r) (auto simp: refetch_order_def split: list.splits)
qed

lemma createOrder_header_failure_eq:
  "call d = (Some msg, d1) \<Longrightarrow> createOrder u c items sh pm tot now d = (Inl msg, d1)"
  by (simp add: createOrder_def)

lemma createOrder_success_eq:
  assumes "call d = (None, d1)"
  shows "createOrder u c items sh pm tot now d =
    (let order = order_header (if js_truthy u then u else default_user_id) tot sh pm (next_id d1)
     in (Inr order, snd (call (clear_cart_after_order c (insert_order_items (next_id d1) now items
            (d1\<lparr>next_id := Suc (next_id d1), orders := orders d1 @ [order]\<rparr>))))))"
proof -
  let ?order = "order_header (if js_truthy u then u else default_user_id) tot sh pm (next_id d1)"
  let ?d3 = "d1\<lparr>next_id := Suc (next_id d1), orders := orders d1 @ [?order]\<rparr>"
  let ?d5 = "clear_cart_after_order c (insert_order_items (next_id d1) now items ?d3)"
  have "?order \<in> set (orders ?d5)"
    by (simp add: clear_cart_after_order_frame insert_order_items_frame)
  then have "refetch_order ?order ?d5 = (Inr ?order, snd (call ?d5))"
    by (rule refetch_order_result)
  then show ?thesis
    using assms by (simp add: createOrder_def fresh_id_def Let_def)
qed


lemma ids_ok_insert_order_items:
  "ids_ok d \<Longrightarrow> ids_ok (insert_order_items oid now items d)"
proof -
  assume ok: "ids_ok d"
  obtain new where n: "order_items (insert_order_items oid now items d) = order_items d @ new"
      "\<forall>r \<in> set new. next_id d \<le> oi_id r \<and> oi_id r < next_id (insert_order_items oid now items d)"
      "distinct (map oi_id new)" "next_id d \<le> next_id (insert_order_items oid now items d)"
    using insert_order_items_lines [of oid now items d] by blast
  have "oi_id r \<notin> oi_id ` set new" if "r \<in> set (order_items d)" for r
    using ok that n(2) unfolding ids_ok_def by fastforce
  then show ?thesis
    using ok n insert_order_items_frame [of oid now items d]
    unfolding ids_ok_def by (auto intro: order.strict_trans2)
qed

lemma ids_ok_clear_cart_after_order: "ids_ok d \<Longrightarrow> ids_ok (clear_cart_after_order c d)"
proof -
  assume ok: "ids_ok d"
  obtain r d1 where c1: "call d = (r, d1)" by (cases "call d")
  have ok1: "ids_ok d1" using ok c1 by (simp add: call_ids_ok)
  show ?thesis
  proof (cases c)
    case None
    then show ?thesis using ok by (simp add: clear_cart_after_order_def)
  next
    case (Some cid)
    then show ?thesis
      using c1 ok1 by (cases r) (auto simp: clear_cart_after_order_def ids_ok_def distinct_map_filter)
  qed
qed

text \<open>
  Order creation keeps the generated ids fresh and distinct: the header and
  every inserted line get ids no row had before.
\<close>

theorem createOrder_keeps_ids_ok:
  assumes "ids_ok d"
  shows "ids_ok (snd (createOrder u c items sh pm tot now d))"
proof -
  obtain r d1 where c1: "call d = (r, d1)" by (cases "call d")
  have ok1: "ids_ok d1" using assms c1 by (simp add: call_ids_ok)
  show ?thesis
  proof (cases r)
    case (Some msg)
    then show ?thesis using c1 ok1 by (simp add: createOrder_header_failure_eq)
  next
    case None
    let ?order = "order_header (if js_truthy u then u else default_user_id) tot sh pm (next_id d1)"
    let ?d3 = "d1\<lparr>next_id := Suc (next_id d1), orders := orders d1 @ [?order]\<rparr>"
    have ok3: "ids_ok ?d3" using ok1 by (auto simp: ids_ok_def order_header_def less_Suc_eq)
    have ok5: "ids_ok (clear_cart_after_order c (insert_order_items (next_id d1) now items ?d3))"
      by (intro ids_ok_clear_cart_after_order ids_ok_insert_order_items ok3)
    show ?thesis
      using c1 None ok5 by (simp add: createOrder_success_eq Let_def call_ids_ok [OF prod.collapse [symmetric]])
  qed
qed


lemma call_fst_snd: "call d = (fst (call d), snd (call d))"
  by simp

text \<open>
  C21. When inserting the order header fails, \<open>createOrder\<close> reports the backend's
  message and nothing is persisted: no order, no order line, and the cart is not
  cleared.
\<close>

theorem createOrder_header_failure:
  assumes "fst (call d) = Some msg"
  shows "createOrder u c items sh pm tot now d = (Inl msg, snd (call d))
    \<and> tables (snd (call d)) = tables d"
  using assms createOrder_header_failure_eq [of d msg "snd (call d)"] call_tables_eq [OF call_fst_snd]
  by (metis prod.collapse)

lemma createOrder_inserts_header:
  assumes "fst (call d) = None"
  shows "\<exists>d'. createOrder u c items sh pm tot now d
      = (Inr (order_header (if js_truthy u then u else default_user_id) tot sh pm (next_id d)), d')
    \<and> orders d' = orders d @ [order_header (if js_truthy u then u else default_user_id) tot sh pm (next_id d)]
    \<and> books d' = books d \<and> carts d' = carts d"
proof -
  obtain d1 where c1: "call d = (None, d1)" using assms by (cases "call d") auto
  have t: "next_id d1 = next_id d" "orders d1 = orders d" "books d1 = books d" "carts d1 = carts d"
    using c1 by (auto dest: call_tables)
  let ?order = "order_header (if js_truthy u then u else default_user_id) tot sh pm (next_id d1)"
  let ?d5 = "clear_cart_after_order c (insert_order_items (next_id d1) now items
      (d1\<lparr>next_id := Suc (next_id d1), orders := orders d1 @ [?order]\<rparr>))"
  have f: "orders (snd (call ?d5)) = orders d @ [?order] \<and> books (snd (call ?d5)) = books d
      \<and> carts (snd (call ?d5)) = carts d"
    using call_tables [OF call_fst_snd [of ?d5]] t
    by (simp add: clear_cart_after_order_frame insert_order_items_frame)
  show ?thesis
    using f t by (simp add: createOrder_success_eq [OF c1] Let_def)
qed

text \<open>
  C22. Once the header is inserted, checkout succeeds whatever happens later (line
  inserts, cart clearing and the re-read may all fail): the result is the order
  as inserted (status pending, the caller's user or the default user, the total the
  caller passed, the shipping fields and payment method), appended to the orders.
\<close>

theorem createOrder_success:
  assumes "fst (call d) = None"
  shows "\<exists>d'. createOrder u c items sh pm tot now d
      = (Inr (order_header (if js_truthy u then u else default_user_id) tot sh pm (next_id d)), d')
    \<and> orders d' = orders d @ [order_header (if js_truthy u then u else default_user_id) tot sh pm (next_id d)]
    \<and> books d' = books d \<and> carts d' = carts d"
  using assms by (rule createOrder_inserts_header)

text \<open>
  C23. The order lines a successful \<open>createOrder\<close> writes are appended to the
  table, belong to the new order, are each the materialisation of one input item,
  and there are at most as many as items: a line whose insert fails is skipped.
\<close>

theorem createOrder_lines_best_effort:
  assumes "createOrder u c items sh pm tot now d = (Inr order, d')"
  shows "\<exists>new. order_items d' = order_items d @ new \<and> length new \<le> length items
    \<and> (\<forall>r \<in> set new. oi_order_id r = o_id order
         \<and> (\<exists>item \<in> set items. r = order_item_of (oi_id r) (o_id order) now item))"
proof -
  obtain r d1 where c1: "call d = (r, d1)" by (cases "call d")
  have r: "r = None" using assms c1 by (cases r) (auto simp: createOrder_header_failure_eq)
  let ?order = "order_header (if js_truthy u then u else default_user_id) tot sh pm (next_id d1)"
  let ?d3 = "d1\<lparr>next_id := Suc (next_id d1), orders := orders d1 @ [?order]\<rparr>"
  let ?d4 = "insert_order_items (next_id d1) now items ?d3"
  have c1': "call d = (None, d1)" using c1 r by simp
  have e0: "(Inr ?order :: string + order_row, snd (call (clear_cart_after_order c ?d4))) = (Inr order, d')"
    using assms by (simp only: createOrder_success_eq [OF c1'] Let_def)
  have eq: "order = ?order" "d' = snd (call (clear_cart_after_order c ?d4))"
    using arg_cong [OF e0, of fst] arg_cong [OF e0, of snd] by simp_all
  have oi: "order_items d' = order_items ?d4"
    using eq(2) call_tables [OF call_fst_snd [of "clear_cart_after_order c ?d4"]]
    by (simp add: clear_cart_after_order_frame)
  have t: "order_items d1 = order_items d" using c1 by (auto dest: call_tables)
  obtain new where n: "order_items ?d4 = order_items ?d3 @ new" "length new \<le> length items"
      "\<forall>r \<in> set new. \<exists>item \<in> set items. r = order_item_of (oi_id r) (next_id d1) now item"
    using insert_order_items_lines [of "next_id d1" now items ?d3] by blast
  have "\<forall>r \<in> set new. oi_order_id r = o_id order"
  proof
    fix r assume "r \<in> set new"
    with n(3) obtain item where "r = order_item_of (oi_id r) (next_id d1) now item" by blast
    then have "oi_order_id r = next_id d1" by (metis order_item_of_order)
    then show "oi_order_id r = o_id order" using eq(1) by (simp add: order_header_def)
  qed
  then show ?thesis
    using n oi t eq(1) by (intro exI [of _ new]) (auto simp: order_header_def)
qed

text \<open>
  C26. Checkout never touches another cart: afterwards the cart items are either
  unchanged or exactly those not belonging to the cart that was passed.
\<close>

theorem createOrder_clears_only_its_cart:
  "cart_items (snd (createOrder u c items sh pm tot now d)) = cart_items d
   \<or> (\<exists>cid. c = Some cid \<and> cart_items (snd (createOrder u c items sh pm tot now d))
                             = filter (\<lambda>r. ci_cart_id r \<noteq> cid) (cart_items d))"
proof -
  obtain r d1 where c1: "call d = (r, d1)" by (cases "call d")
  have t: "cart_items d1 = cart_items d" using c1 by (auto dest: call_tables)
  show ?thesis
  proof (cases r)
    case (Some msg)
    then show ?thesis using c1 t by (simp add: createOrder_header_failure_eq)
  next
    case None
    let ?order = "order_header (if js_truthy u then u else default_user_id) tot sh pm (next_id d1)"
    let ?d4 = "insert_order_items (next_id d1) now items (d1\<lparr>next_id := Suc (next_id d1), orders := orders d1 @ [?order]\<rparr>)"
    have "cart_items ?d4 = cart_items d" using t by (simp add: insert_order_items_frame)
    moreover have "cart_items (snd (call (clear_cart_after_order c ?d4))) = cart_items (clear_cart_after_order c ?d4)"
      using call_tables [OF call_fst_snd] by blast
    ultimately show ?thesis
      using c1 None clear_cart_after_order_cart_items [of c ?d4]
      by (simp add: createOrder_success_eq Let_def)
  qed
qed

lemma createOrder_no_faults_eq:
  assumes "sched d = []"
  shows "createOrder u (Some cid) items sh pm tot now d =
      (Inr (order_header (if js_truthy u then u else default_user_id) tot sh pm (next_id d)),
       snd (createOrder u (Some cid) items sh pm tot now d))
    \<and> order_items (snd (createOrder u (Some cid) items sh pm tot now d)) = order_items d
        @ map2 (\<lambda>k item. order_item_of k (next_id d) now item)
               [Suc (next_id d)..<Suc (next_id d) + length items] items
    \<and> cart_items (snd (createOrder u (Some cid) items sh pm tot now d))
        = filter (\<lambda>r. ci_cart_id r \<noteq> cid) (cart_items d)"
proof -
  have c1: "call d = (None, d)" using assms by (rule call_Nil)
  let ?order = "order_header (if js_truthy u then u else default_user_id) tot sh pm (next_id d)"
  let ?d3 = "d\<lparr>next_id := Suc (next_id d), orders := orders d @ [?order]\<rparr>"
  have s3: "sched ?d3 = []" using assms by simp
  have d4: "insert_order_items (next_id d) now items ?d3 =
      ?d3\<lparr>next_id := next_id ?d3 + length items,
          order_items := order_items ?d3 @ map2 (\<lambda>k item. order_item_of k (next_id d) now item)
                                          [next_id ?d3..<next_id ?d3 + length items] items\<rparr>"
    using s3 by (rule insert_order_items_no_faults)
  show ?thesis
    using c1 assms d4 by (simp add: createOrder_success_eq clear_cart_after_order_def call_Nil Let_def)
qed

text \<open>
  C24. When no round trip fails, \<open>createOrder\<close> returns the new order, writes one
  line per input item in order with consecutive fresh ids, and empties the cart.
\<close>

theorem createOrder_without_faults:
  assumes "sched d = []"
  shows "createOrder u (Some cid) items sh pm tot now d =
      (Inr (order_header (if js_truthy u then u else default_user_id) tot sh pm (next_id d)),
       snd (createOrder u (Some cid) items sh pm tot now d))
    \<and> order_items (snd (createOrder u (Some cid) items sh pm tot now d)) = order_items d
        @ map2 (\<lambda>k item. order_item_of k (next_id d) now item)
               [Suc (next_id d)..<Suc (next_id d) + length items] items
    \<and> cart_items (snd (createOrder u (Some cid) items sh pm tot now d))
        = filter (\<lambda>r. ci_cart_id r \<noteq> cid) (cart_items d)"
  using assms by (rule createOrder_no_faults_eq)

lemma rental_end_day_some: "rental_end_day now (Some p) = now div ms_per_day + p"
  by (simp add: rental_end_day_def ms_per_day_def)

text \<open>
  The order line written for a cart line freezes the book's list price, copies
  book and quantity, and for a rental of \<open>m\<close> months records a period of
  \<open>30 * m\<close> days ending \<open>30 * m\<close> days after the order's UTC day.
\<close>

theorem order_line_from_cart_line:
  "order_item_of k oid now (order_input_of item) =
     \<lparr>oi_id = k, oi_order_id = oid, oi_book_id = bk_id (cl_book item),
      oi_quantity = cl_quantity item, oi_price = bk_price (cl_book item),
      oi_is_rental = (cl_type item = Rent),
      oi_rental_period = (if cl_type item = Rent then Some (30 * cl_rental_period item) else None),
      oi_rental_end_date =
        (if cl_type item = Rent then Some (now div ms_per_day + 30 * cl_rental_period item) else None)\<rparr>"
  by (simp add: order_item_of_def order_input_of_def rental_end_day_some mult.commute)

text \<open>
  C29. The sign-in requirement is enforced by the form only: \<open>onSubmit\<close> without a
  user touches nothing, but \<open>createOrder\<close> called with an empty user id persists
  the order under the all-zero default user instead of failing.
\<close>

theorem login_guard_is_in_the_form:
  assumes "fst (call d) = None"
  shows "onSubmit None data cartItems c t now d = (LoginRequired, d)
    \<and> o_user_id (projr (fst (createOrder '''' c items sh pm tot now d))) = default_user_id
    \<and> projr (fst (createOrder '''' c items sh pm tot now d)) \<in> set (orders (snd (createOrder '''' c items sh pm tot now d)))"
proof -
  obtain d' where e: "createOrder '''' c items sh pm tot now d
      = (Inr (order_header default_user_id tot sh pm (next_id d)), d')"
      and o: "orders d' = orders d @ [order_header default_user_id tot sh pm (next_id d)]"
    using createOrder_inserts_header [OF assms, of "''''" c items sh pm tot now] by (auto simp: js_truthy_def)
  show ?thesis using e o by (simp add: onSubmit_def order_header_def)
qed

text \<open>
  A failed line does not abort checkout: on the example cart, with the header
  insert succeeding and the first line's insert refused, the order is returned, the
  second line is written, the first is missing, and the cart is emptied.
\<close>

theorem createOrder_partial_failure_example:
  "createOrder ''u1'' (Some 0) sample_inputs sample_shipping ''Cash on Delivery'' 718 0
      (checkout_db\<lparr>sched := [None, Some ''new row violates row-level security policy'']\<rparr>)
   = (Inr (order_header ''u1'' 718 sample_shipping ''Cash on Delivery'' 3),
      checkout_db\<lparr>cart_items := [],
                  orders := [order_header ''u1'' 718 sample_shipping ''Cash on Delivery'' 3],
                  order_items := [order_item_of 4 3 0 (sample_inputs ! 1)], next_id := 5\<rparr>)"
  by (simp add: createOrder_def checkout_db_def sample_inputs_def call_def fresh_id_def Let_def
      clear_cart_after_order_def refetch_order_def js_truthy_def order_header_def)

section \<open>Witnesses\<close>

theorem createOrder_header_failure_witness:
  "fst (createOrder ''u1'' (Some 0) sample_inputs sample_shipping ''Cash on Delivery'' 718 0
          (checkout_db\<lparr>sched := [Some ''timeout'']\<rparr>)) = Inl ''timeout''"
proof -
  have h: "fst (call (checkout_db\<lparr>sched := [Some ''timeout'']\<rparr>)) = Some ''timeout''"
    by (simp add: call_def)
  show ?thesis using createOrder_header_failure [OF h] by simp
qed

theorem createOrder_success_witness:
  "o_status (projr (fst (createOrder ''u1'' (Some 0) sample_inputs sample_shipping ''Cash on Delivery'' 718 0 checkout_db))) = Pending"
proof -
  have h: "fst (call checkout_db) = None" by (simp add: call_def checkout_db_def)
  obtain d' where "createOrder ''u1'' (Some 0) sample_inputs sample_shipping ''Cash on Delivery'' 718 0 checkout_db
      = (Inr (order_header ''u1'' 718 sample_shipping ''Cash on Delivery'' (next_id checkout_db)), d')"
    using createOrder_success [OF h, of "''u1''" "Some 0" sample_inputs sample_shipping "''Cash on Delivery''" 718 0]
    by (auto simp: js_truthy_def)
  then show ?thesis by (simp add: order_header_def)
qed

theorem createOrder_lines_best_effort_witness:
  "length (order_items (snd (createOrder ''u1'' (Some 0) sample_inputs sample_shipping ''Cash on Delivery'' 718 0
     (checkout_db\<lparr>sched := [None, Some ''rls'']\<rparr>)))) \<le> 2"
proof -
  let ?r = "createOrder ''u1'' (Some 0) sample_inputs sample_shipping ''Cash on Delivery'' 718 0
     (checkout_db\<lparr>sched := [None, Some ''rls'']\<rparr>)"
  have e: "fst ?r = Inr (order_header ''u1'' 718 sample_shipping ''Cash on Delivery'' 3)"
    by (simp add: createOrder_def checkout_db_def sample_inputs_def call_def fresh_id_def Let_def
      clear_cart_after_order_def refetch_order_def js_truthy_def order_header_def)
  then have h: "?r = (Inr (order_header ''u1'' 718 sample_shipping ''Cash on Delivery'' 3), snd ?r)"
    by (metis prod.collapse)
  show ?thesis
    using createOrder_lines_best_effort [OF h] by (auto simp: checkout_db_def sample_inputs_def)
qed

theorem createOrder_without_faults_witness:
  "cart_items (snd (createOrder ''u1'' (Some 0) sample_inputs sample_shipping ''Cash on Delivery'' 718 0 checkout_db)) = []"
proof -
  have h: "sched checkout_db = []" by (simp add: checkout_db_def)
  show ?thesis using createOrder_without_faults [OF h, of "''u1''" 0 sample_inputs sample_shipping "''Cash on Delivery''" 718 0]
    by (simp add: checkout_db_def)
qed

theorem createOrder_keeps_ids_ok_witness:
  "ids_ok (snd (createOrder ''u1'' (Some 0) sample_inputs sample_shipping ''Cash on Delivery'' 718 0 checkout_db))"
proof -
  have h: "ids_ok checkout_db" by (simp add: ids_ok_def checkout_db_def)
  show ?thesis by (rule createOrder_keeps_ids_ok [OF h])
qed

theorem login_guard_is_in_the_form_witness:
  "o_user_id (projr (fst (createOrder '''' None sample_inputs sample_shipping ''Cash on Delivery'' 718 0 checkout_db)))
     = default_user_id"
proof -
  have h: "fst (call checkout_db) = None" by (simp add: call_def checkout_db_def)
  show ?thesis using login_guard_is_in_the_form [OF h] by blast
qed

end
