(* ===== verification/CartPage.thy ===== *)
theory CartPage
  imports CartService Checkout
begin

text \<open>
  The cart page's own state and handlers (\<open>src/src/pages/CartPage.tsx\<close>): loading
  the cart (the \<open>useEffect\<close> \<open>fetchCart\<close>), changing a line's quantity, choosing a
  rental term, removing a line, proceeding to checkout, and the hand-over to the
  order form. The page state is a record of its \<open>useState\<close> variables; a handler
  takes the state and the store and returns both. Toasts and navigation are not
  state and are not modelled.
\<close>

section \<open>Page state\<close>

record cart_page =
  cp_cartItems :: "cart_line list"
  cp_cart :: "cart_row option"
  cp_isLoading :: bool
  cp_isCheckingOut :: bool

text \<open>The initial values of the \<open>useState\<close> hooks.\<close>

definition initial_page :: cart_page where
  "initial_page = \<lparr>cp_cartItems = [], cp_cart = None, cp_isLoading = True, cp_isCheckingOut = False\<rparr>"

section \<open>Loading the cart\<close>

text \<open>
  \<open>rentalPeriod: item.rental_period ? Math.ceil(item.rental_period / 30) : 3\<close>:
  stored days back to months; a missing (or zero) period becomes 3 months.
\<close>

definition months_of_days :: "int option \<Rightarrow> int" where
  "months_of_days rental_period =
     (case rental_period of
        None \<Rightarrow> 3
      | Some p \<Rightarrow> if p \<noteq> 0 then \<lceil>(of_int p :: rat) / 30\<rceil> else 3)"

definition cart_book_of :: "book_row \<Rightarrow> cart_book" where
  "cart_book_of b = \<lparr>bk_id = b_id b, bk_price = b_price b\<rparr>"

definition transformItem :: "cart_item_row \<Rightarrow> book_row \<Rightarrow> cart_line" where
  "transformItem item book =
     \<lparr>cl_id = ci_id item, cl_type = (if ci_is_rental item then Rent else Buy),
      cl_book = cart_book_of book, cl_quantity = ci_quantity item,
      cl_rental_period = months_of_days (ci_rental_period item)\<rparr>"

text \<open>
  \<open>fetchCart\<close>. The join \<open>books:book_id(*)\<close> always finds the book, since
  \<open>cart_items.book_id\<close> is a foreign key to \<open>books\<close> (\<open>cart_items_book_id_fkey\<close>);
  the comprehension below reads the joined book of each row.
\<close>

definition fetchCart :: "string option \<Rightarrow> cart_page \<Rightarrow> db \<Rightarrow> cart_page \<times> db" where
  "fetchCart user st d =
     (case user of
        None \<Rightarrow> (st\<lparr>cp_isLoading := False\<rparr>, d)
      | Some uid \<Rightarrow>
          (let (res, d1) = getOrCreateCart uid d in
           case res of
             Inl _ \<Rightarrow> (st\<lparr>cp_isLoading := False\<rparr>, d1)
           | Inr cart \<Rightarrow>
               (let st1 = st\<lparr>cp_cart := Some cart\<rparr>;
                    (items, d2) = getCartItems (cart_id cart) d1
                in case items of
                     Inl _ \<Rightarrow> (st1\<lparr>cp_isLoading := False\<rparr>, d2)
                   | Inr rows \<Rightarrow>
                       (st1\<lparr>cp_cartItems := [transformItem r b. (r, Some b) \<leftarrow> rows],
                            cp_isLoading := False\<rparr>, d2))))"

section \<open>Handlers\<close>

text \<open>\<open>Math.max(1, Math.min(10, item.quantity + change))\<close>\<close>

definition clamp_quantity :: "int \<Rightarrow> int" where
  "clamp_quantity q = max 1 (min 10 q)"

definition handleQuantityChange :: "nat \<Rightarrow> int \<Rightarrow> cart_page \<Rightarrow> db \<Rightarrow> cart_page \<times> db" where
  "handleQuantityChange itemId change st d =
     (case find (\<lambda>item. cl_id item = itemId) (cp_cartItems st) of
        None \<Rightarrow> (st, d)
      | Some item \<Rightarrow>
          (let newQuantity = clamp_quantity (cl_quantity item + change);
               (res, d1) = updateCartItemQuantity itemId newQuantity d
           in case res of
                Inr _ \<Rightarrow>
                  (st\<lparr>cp_cartItems := map (\<lambda>item. if cl_id item = itemId then item\<lparr>cl_quantity := newQuantity\<rparr> else item)
                                           (cp_cartItems st)\<rparr>, d1)
              | Inl _ \<Rightarrow> (st, d1)))"

text \<open>The term is changed in the page only; the code notes there is no backend update for it.\<close>

definition handleRentalPeriodChange :: "nat \<Rightarrow> int \<Rightarrow> cart_page \<Rightarrow> cart_page" where
  "handleRentalPeriodChange itemId period st =
     st\<lparr>cp_cartItems := map (\<lambda>item. if cl_id item = itemId then item\<lparr>cl_rental_period := period\<rparr> else item)
                              (cp_cartItems st)\<rparr>"

definition handleRemoveItem :: "nat \<Rightarrow> cart_page \<Rightarrow> db \<Rightarrow> cart_page \<times> db" where
  "handleRemoveItem itemId st d =
     (let (res, d1) = removeFromCart itemId d in
      case res of
        Inr _ \<Rightarrow> (st\<lparr>cp_cartItems := filter (\<lambda>item. cl_id item \<noteq> itemId) (cp_cartItems st)\<rparr>, d1)
      | Inl _ \<Rightarrow> (st, d1))"

definition handleProceedToCheckout :: "string option \<Rightarrow> cart_page \<Rightarrow> cart_page" where
  "handleProceedToCheckout user st =
     (case user of None \<Rightarrow> st | Some _ \<Rightarrow> st\<lparr>cp_isCheckingOut := True\<rparr>)"

definition handleOrderSuccess :: "cart_page \<Rightarrow> cart_page" where
  "handleOrderSuccess st = st\<lparr>cp_cartItems := [], cp_isCheckingOut := False\<rparr>"

text \<open>
  The checkout view renders \<open>OrderForm\<close> with the page's lines, \<open>cart?.id || ''\<close>
  and \<open>calculateTotal()\<close>; a placed order calls back \<open>handleOrderSuccess\<close>.
\<close>

definition submitCheckout :: "string option \<Rightarrow> form_values \<Rightarrow> int \<Rightarrow> cart_page \<Rightarrow> db \<Rightarrow> (submit_outcome \<times> cart_page) \<times> db" where
  "submitCheckout user data now st d =
     (let (outcome, d1) = onSubmit user data (cp_cartItems st) (map_option cart_id (cp_cart st))
                                   (calculateTotal (cp_cartItems st)) now d
      in case outcome of
           OrderPlaced order \<Rightarrow> ((outcome, handleOrderSuccess st), d1)
         | _ \<Rightarrow> ((outcome, st), d1))"

section \<open>Invariants\<close>

text \<open>Every line of the page shows a quantity between 1 and 10.\<close>

definition quantities_in_range :: "cart_page \<Rightarrow> bool" where
  "quantities_in_range st \<longleftrightarrow> (\<forall>item \<in> set (cp_cartItems st). 1 \<le> cl_quantity item \<and> cl_quantity item \<le> 10)"

text \<open>Every line of the page is a row of the store with the quantity the page shows.\<close>

definition page_matches_store :: "cart_page \<Rightarrow> db \<Rightarrow> bool" where
  "page_matches_store st d \<longleftrightarrow>
     (\<forall>item \<in> set (cp_cartItems st). \<exists>r \<in> set (cart_items d). ci_id r = cl_id item \<and> ci_quantity r = cl_quantity item)"

section \<open>Example\<close>

text \<open>The page as \<open>fetchCart\<close> shows the example store's cart (\<open>b1\<close> at 200, \<open>b2\<close> at 300).\<close>

definition page_example :: cart_page where
  "page_example =
     \<lparr>cp_cartItems =
        [\<lparr>cl_id = 1, cl_type = Buy, cl_book = \<lparr>bk_id = ''b1'', bk_price = 200\<rparr>, cl_quantity = 10, cl_rental_period = 3\<rparr>,
         \<lparr>cl_id = 2, cl_type = Rent, cl_book = \<lparr>bk_id = ''b2'', bk_price = 300\<rparr>, cl_quantity = 1, cl_rental_period = 1\<rparr>],
      cp_cart = Some \<lparr>cart_id = 0, cart_user_id = ''u1''\<rparr>, cp_isLoading = False, cp_isCheckingOut = False\<rparr>"

section \<open>Lemmas\<close>

lemma clamp_quantity_range: "1 \<le> clamp_quantity q \<and> clamp_quantity q \<le> 10"
  by (simp add: clamp_quantity_def)

lemma page_matches_after_update:
  assumes m: "page_matches_store st d"
    and f: "filter (\<lambda>r. ci_id r = i) (cart_items d) = [r0]"
  shows "page_matches_store
           (st\<lparr>cp_cartItems := map (\<lambda>item. if cl_id item = i then item\<lparr>cl_quantity := q\<rparr> else item) (cp_cartItems st)\<rparr>)
           (d1\<lparr>cart_items := map (\<lambda>x. if ci_id x = i then x\<lparr>ci_quantity := q\<rparr> else x) (cart_items d)\<rparr>)"
  unfolding page_matches_store_def
proof
  fix l
  assume "l \<in> set (cp_cartItems (st\<lparr>cp_cartItems := map (\<lambda>item. if cl_id item = i then item\<lparr>cl_quantity := q\<rparr> else item) (cp_cartItems st)\<rparr>))"
  then obtain l0 where l0: "l0 \<in> set (cp_cartItems st)"
    and l: "l = (if cl_id l0 = i then l0\<lparr>cl_quantity := q\<rparr> else l0)" by auto
  let ?xs = "map (\<lambda>x. if ci_id x = i then x\<lparr>ci_quantity := q\<rparr> else x) (cart_items d)"
  have xs: "set (cart_items (d1\<lparr>cart_items := ?xs\<rparr>)) = set ?xs" by simp
  show "\<exists>r \<in> set (cart_items (d1\<lparr>cart_items := ?xs\<rparr>)). ci_id r = cl_id l \<and> ci_quantity r = cl_quantity l"
  proof (cases "cl_id l0 = i")
    case True
    have "r0 \<in> set (cart_items d)" and "ci_id r0 = i" using filter_eq_single_mem [OF f] by auto
    then have "r0\<lparr>ci_quantity := q\<rparr> \<in> set ?xs" by force
    moreover have "ci_id (r0\<lparr>ci_quantity := q\<rparr>) = cl_id l" "ci_quantity (r0\<lparr>ci_quantity := q\<rparr>) = cl_quantity l"
      using True l \<open>ci_id r0 = i\<close> by simp_all
    ultimately show ?thesis using xs by blast
  next
    case False
    obtain r where r: "r \<in> set (cart_items d)" "ci_id r = cl_id l0" "ci_quantity r = cl_quantity l0"
      using m l0 unfolding page_matches_store_def by blast
    then have "r \<in> set ?xs" using False by force
    then show ?thesis using False l r xs by auto
  qed
qed

lemma handleQuantityChange_matches_store:
  assumes "page_matches_store st d"
  shows "page_matches_store (fst (handleQuantityChange i change st d)) (snd (handleQuantityChange i change st d))"
proof (cases "find (\<lambda>item. cl_id item = i) (cp_cartItems st)")
  case None
  then show ?thesis using assms by (simp add: handleQuantityChange_def)
next
  case (Some item)
  let ?q = "clamp_quantity (cl_quantity item + change)"
  obtain res d1 where u: "updateCartItemQuantity i ?q d = (res, d1)" by (cases "updateCartItemQuantity i ?q d")
  show ?thesis
  proof (cases res)
    case (Inl e)
    then have "cart_items d1 = cart_items d"
      using u by (simp add: updateCartItemQuantity_def update_item_quantity_Inl)
    then show ?thesis using Some u Inl assms by (simp add: handleQuantityChange_def page_matches_store_def)
  next
    case (Inr x)
    then obtain r0 where f: "filter (\<lambda>r. ci_id r = i) (cart_items d) = [r0]"
      and c: "cart_items d1 = map (\<lambda>x. if ci_id x = i then x\<lparr>ci_quantity := ?q\<rparr> else x) (cart_items d)"
      using u by (auto simp: updateCartItemQuantity_def dest!: update_item_quantity_Inr)
    have "d1 = d1\<lparr>cart_items := map (\<lambda>x. if ci_id x = i then x\<lparr>ci_quantity := ?q\<rparr> else x) (cart_items d)\<rparr>"
      using c by simp
    then show ?thesis
      using Some u Inr page_matches_after_update [OF assms f, of ?q d1]
      by (simp add: handleQuantityChange_def)
  qed
qed

text \<open>
  C30. The page's quantity bound is an invariant of its handlers: if every line
  shows 1 to 10 copies, it still does after a quantity change (clamped), a term
  change, a removal, or a placed order.
\<close>

theorem page_handlers_keep_quantities_in_range:
  assumes "quantities_in_range st"
  shows "quantities_in_range (fst (handleQuantityChange i change st d))
    \<and> quantities_in_range (handleRentalPeriodChange i p st)
    \<and> quantities_in_range (fst (handleRemoveItem i st d))
    \<and> quantities_in_range (handleOrderSuccess st)"
proof -
  have q: "quantities_in_range (fst (handleQuantityChange i change st d))"
  proof -
    obtain r d1 where c: "updateCartItemQuantity i (clamp_quantity (cl_quantity (the (find (\<lambda>item. cl_id item = i) (cp_cartItems st))) + change)) d = (r, d1)"
      by (cases "updateCartItemQuantity i (clamp_quantity (cl_quantity (the (find (\<lambda>item. cl_id item = i) (cp_cartItems st))) + change)) d")
    then show ?thesis
      using assms clamp_quantity_range
      by (auto simp: handleQuantityChange_def quantities_in_range_def Let_def split: option.splits sum.splits)
  qed
  have r: "quantities_in_range (fst (handleRemoveItem i st d))"
    using assms by (auto simp: handleRemoveItem_def quantities_in_range_def split: prod.splits sum.splits)
  show ?thesis
    using q r assms
    by (auto simp: handleRentalPeriodChange_def handleOrderSuccess_def quantities_in_range_def)
qed

text \<open>
  C31. The page agrees with the store: if every line of the page is a stored cart
  row with the quantity shown, this still holds after a quantity change (the page
  changes only when the store accepted the update), a term change (page only; the
  store's row keeps its quantity) and a removal (the page drops the line only when
  the store deleted it).
\<close>

theorem page_handlers_keep_store_agreement:
  assumes "page_matches_store st d"
  shows "page_matches_store (fst (handleQuantityChange i change st d)) (snd (handleQuantityChange i change st d))
    \<and> page_matches_store (handleRentalPeriodChange i p st) d
    \<and> page_matches_store (fst (handleRemoveItem i st d)) (snd (handleRemoveItem i st d))"
proof -
  obtain res d1 where u: "removeFromCart i d = (res, d1)" by (cases "removeFromCart i d")
  have r: "page_matches_store (fst (handleRemoveItem i st d)) (snd (handleRemoveItem i st d))"
    using u removeFromCart_cart_items [OF u] assms
    by (cases res) (fastforce simp: handleRemoveItem_def page_matches_store_def)+
  have p: "page_matches_store (handleRentalPeriodChange i p st) d"
    using assms by (auto simp: handleRentalPeriodChange_def page_matches_store_def)
  show ?thesis using handleQuantityChange_matches_store [OF assms] r p by blast
qed


text \<open>
  Any positive stored number of days reads back as the least number of
  30-day months covering it.
\<close>

theorem months_of_days_bounds:
  assumes pos: "0 < days"
  shows "days \<le> 30 * months_of_days (Some days) \<and> 30 * months_of_days (Some days) < days + 30"
proof -
  let ?c = "\<lceil>(of_int days :: rat) / 30\<rceil>"
  have c1: "of_int ?c - 1 < (of_int days :: rat) / 30" and c2: "(of_int days :: rat) / 30 \<le> of_int ?c"
    using ceiling_correct [of "(of_int days :: rat) / 30"] by (rule conjunct1, rule conjunct2)
  have "of_int (30 * ?c - 30) < (of_int days :: rat)" using c1 by (simp add: field_simps)
  moreover have "(of_int days :: rat) \<le> of_int (30 * ?c)"
    using mult_left_mono [OF c2, of 30] by simp
  ultimately have "30 * ?c - 30 < days \<and> days \<le> 30 * ?c"
    by (simp only: of_int_less_iff of_int_le_iff)
  then show ?thesis using pos by (simp add: months_of_days_def)
qed

section \<open>Witnesses\<close>

lemma page_example_ok: "quantities_in_range page_example \<and> page_matches_store page_example example_db"
  by (simp add: page_example_def example_db_def quantities_in_range_def page_matches_store_def)

theorem page_handlers_keep_quantities_in_range_witness:
  "quantities_in_range (fst (handleQuantityChange 2 5 page_example example_db))
   \<and> quantities_in_range (handleRentalPeriodChange 2 6 page_example)
   \<and> quantities_in_range (fst (handleRemoveItem 2 page_example example_db))
   \<and> quantities_in_range (handleOrderSuccess page_example)"
  by (rule page_handlers_keep_quantities_in_range [OF conjunct1 [OF page_example_ok]])

theorem page_handlers_keep_store_agreement_witness:
  "page_matches_store (fst (handleQuantityChange 2 (-3) page_example example_db)) (snd (handleQuantityChange 2 (-3) page_example example_db))
   \<and> page_matches_store (handleRentalPeriodChange 2 6 page_example) example_db
   \<and> page_matches_store (fst (handleRemoveItem 2 page_example example_db)) (snd (handleRemoveItem 2 page_example example_db))"
  by (rule page_handlers_keep_store_agreement [OF conjunct2 [OF page_example_ok]])


theorem months_of_days_bounds_witness:
  "(0::int) < 45 \<and> 45 \<le> 30 * months_of_days (Some 45) \<and> 30 * months_of_days (Some 45) < 45 + 30"
  using months_of_days_bounds [of 45] by simp

end
