(* ===== verification/Query.thy ===== *)
theory Query
  imports Prelude "HOL-Library.Sublist" "HOL-Library.Product_Lexorder"
begin

text \<open>
  The filters and pagination of the query builder, as the services use them:
  \<open>ilike\<close> patterns (\<open>%\<close> any sequence, \<open>_\<close> any character, a backslash escapes the
  next character; letters compared without case), \<open>.range(from, to)\<close> (offset
  \<open>from\<close>, at most \<open>to - from + 1\<close> rows) and the page count \<open>Math.ceil(count / limit)\<close>
  the catalogue returns. Case folding covers the ASCII letters.
\<close>

section \<open>Pattern matching\<close>

fun like_match :: "string \<Rightarrow> string \<Rightarrow> bool" where
  "like_match [] s = (s = [])"
| "like_match (c # p) [] = (c = CHR ''%'' \<and> like_match p [])"
| "like_match (c # p) (x # s) =
     (if c = CHR ''%'' then like_match p (x # s) \<or> like_match (c # p) s
      else if c = CHR ''_'' then like_match p s
      else if c = CHR 0x5C \<and> p \<noteq> [] then x = hd p \<and> like_match (tl p) s
      else x = c \<and> like_match p s)"

definition lower_char :: "char \<Rightarrow> char" where
  "lower_char c = (let n = (of_char c :: nat) in if 65 \<le> n \<and> n \<le> 90 then char_of (n + 32) else c)"

definition ilike :: "string \<Rightarrow> string \<Rightarrow> bool" where
  "ilike s pattern = like_match (map lower_char pattern) (map lower_char s)"

text \<open>A search text with no character that is special in a pattern.\<close>

definition wild_free :: "string \<Rightarrow> bool" where
  "wild_free p \<longleftrightarrow> (\<forall>c \<in> set p. c \<noteq> CHR ''%'' \<and> c \<noteq> CHR ''_'' \<and> c \<noteq> CHR 0x5C)"

section \<open>Pagination\<close>

definition range_rows :: "int \<Rightarrow> int \<Rightarrow> 'a list \<Rightarrow> 'a list" where
  "range_rows from to xs = take (nat (to - from + 1)) (drop (nat from) xs)"

text \<open>\<open>const from = (page - 1) * limit; const to = from + limit - 1\<close>\<close>

definition page_rows :: "int \<Rightarrow> int \<Rightarrow> 'a list \<Rightarrow> 'a list" where
  "page_rows page limit xs = (let from = (page - 1) * limit in range_rows from (from + limit - 1) xs)"

text \<open>\<open>count ? Math.ceil(count / limit) : 0\<close>\<close>

definition total_pages :: "nat \<Rightarrow> int \<Rightarrow> int" where
  "total_pages cnt limit = (if cnt \<noteq> 0 then \<lceil>(of_nat cnt :: rat) / of_int limit\<rceil> else 0)"

section \<open>Ordering\<close>

text \<open>
  \<open>.order(column, {ascending})\<close>: rows sorted by the column; rows with equal
  keys keep their order in the table. A \<open>NULL\<close> sorts above every value, so it
  comes last in ascending and first in descending order.
\<close>

definition order_by :: "('a \<Rightarrow> 'k::linorder) \<Rightarrow> bool \<Rightarrow> 'a list \<Rightarrow> 'a list" where
  "order_by key ascending xs = (if ascending then sort_key key xs else rev (sort_key key (rev xs)))"

definition nulls_high :: "'a::{zero,linorder} option \<Rightarrow> nat \<times> 'a" where
  "nulls_high v = (case v of None \<Rightarrow> (1, 0) | Some x \<Rightarrow> (0, x))"

section \<open>Lemmas\<close>

lemma like_literal: "wild_free p \<Longrightarrow> like_match p s \<longleftrightarrow> s = p"
proof (induction p arbitrary: s)
  case Nil then show ?case by auto
next
  case (Cons c p)
  then show ?case by (cases s) (auto simp: wild_free_def)
qed

lemma like_pct_only: "like_match ''%'' s"
  by (induction s) auto

lemma like_literal_pct: "wild_free p \<Longrightarrow> like_match (p @ ''%'') s \<longleftrightarrow> prefix p s"
proof (induction p arbitrary: s)
  case Nil
  then show ?case by (simp add: like_pct_only)
next
  case (Cons c p)
  then show ?case by (cases s) (auto simp: wild_free_def)
qed

lemma like_pct_any: "like_match (CHR ''%'' # q) s \<longleftrightarrow> (\<exists>k \<le> length s. like_match q (drop k s))"
proof (induction s)
  case Nil
  then show ?case by (cases q) auto
next
  case (Cons a s)
  have "like_match (CHR ''%'' # q) (a # s) \<longleftrightarrow> like_match q (a # s) \<or> like_match (CHR ''%'' # q) s"
    by simp
  also have "\<dots> \<longleftrightarrow> like_match q (drop 0 (a # s)) \<or> (\<exists>k \<le> length s. like_match q (drop (Suc k) (a # s)))"
    using Cons.IH by simp
  also have "\<dots> \<longleftrightarrow> (\<exists>k \<le> length (a # s). like_match q (drop k (a # s)))"
  proof
    assume "like_match q (drop 0 (a # s)) \<or> (\<exists>k \<le> length s. like_match q (drop (Suc k) (a # s)))"
    then show "\<exists>k \<le> length (a # s). like_match q (drop k (a # s))"
      by (metis Suc_le_mono le0 length_Cons)
  next
    assume "\<exists>k \<le> length (a # s). like_match q (drop k (a # s))"
    then obtain k where k: "k \<le> Suc (length s)" "like_match q (drop k (a # s))" by auto
    show "like_match q (drop 0 (a # s)) \<or> (\<exists>k \<le> length s. like_match q (drop (Suc k) (a # s)))"
    proof (cases k)
      case 0 then show ?thesis using k by simp
    next
      case (Suc j) then show ?thesis using k by auto
    qed
  qed
  finally show ?case .
qed

lemma sublist_drop: "sublist p s \<longleftrightarrow> (\<exists>k \<le> length s. prefix p (drop k s))"
proof
  assume "sublist p s"
  then obtain a b where "s = a @ p @ b" by (auto simp: sublist_def)
  then show "\<exists>k \<le> length s. prefix p (drop k s)"
    by (intro exI [of _ "length a"]) auto
next
  assume "\<exists>k \<le> length s. prefix p (drop k s)"
  then obtain k b where "drop k s = p @ b" by (auto simp: prefix_def)
  then have "s = take k s @ p @ b" by (metis append_take_drop_id)
  then show "sublist p s" by (metis sublist_appendI)
qed

lemma like_contains: "wild_free p \<Longrightarrow> like_match (CHR ''%'' # p @ ''%'') s \<longleftrightarrow> sublist p s"
  by (simp add: like_pct_any like_literal_pct sublist_drop)

lemma of_char_lower_char:
  "(of_char (lower_char c) :: nat) = (if 65 \<le> (of_char c :: nat) \<and> (of_char c :: nat) \<le> 90 then of_char c + 32 else of_char c)"
  by (simp add: lower_char_def Let_def of_char_of)

lemma char_nat_iff: "c = d \<longleftrightarrow> (of_char c :: nat) = of_char d"
  by (simp add: of_char_eq_iff)

lemma lower_char_special [simp]:
  "lower_char c = CHR ''%'' \<longleftrightarrow> c = CHR ''%''"
  "lower_char c = CHR ''_'' \<longleftrightarrow> c = CHR ''_''"
  "lower_char c = CHR 0x5C \<longleftrightarrow> c = CHR 0x5C"
  by (subst (1 2) char_nat_iff, simp add: of_char_lower_char)+

lemma wild_free_lower: "wild_free (map lower_char p) \<longleftrightarrow> wild_free p"
  by (auto simp: wild_free_def)


lemma page_rows_nat: "page_rows (int k + 1) (int L) xs = take L (drop (k * L) xs)"
  by (simp add: page_rows_def range_rows_def Let_def nat_mult_distrib)

lemma chunks_take: "concat (map (\<lambda>k. take L (drop (k * L) xs)) [0..<n]) = take (n * L) xs"
proof (induction n)
  case 0 then show ?case by simp
next
  case (Suc n)
  have "take (L + n * L) xs = take (n * L) xs @ take L (drop (n * L) xs)"
    by (metis add.commute take_add)
  then show ?case using Suc.IH by simp
qed

lemma ceil_div_cover: "0 < (L::nat) \<Longrightarrow> m \<le> ((m + L - 1) div L) * L"
  using div_mult_mod_eq [of "m + L - 1" L] mod_less_divisor [of L "m + L - 1"] by linarith

lemma ceil_div_less: "0 < (L::nat) \<Longrightarrow> k < (m + L - 1) div L \<longleftrightarrow> k * L < m"
proof -
  assume L: "0 < L"
  have "k < (m + L - 1) div L \<longleftrightarrow> Suc k * L \<le> m + L - 1"
    using L by (simp add: Suc_le_eq [symmetric] less_eq_div_iff_mult_less_eq)
  also have "\<dots> \<longleftrightarrow> k * L < m" using L by auto
  finally show ?thesis .
qed

lemma total_pages_nat:
  assumes L: "0 < L"
  shows "total_pages m (int L) = int ((m + L - 1) div L)"
proof (cases "m = 0")
  case True
  then show ?thesis using L by (simp add: total_pages_def)
next
  case False
  define q where "q = (m + L - 1) div L"
  have dm: "q * L + (m + L - 1) mod L = m + L - 1" unfolding q_def by (rule div_mult_mod_eq)
  have r: "(m + L - 1) mod L < L" using L by (rule mod_less_divisor)
  have a: "q * L < m + L" using dm L by linarith
  have b: "m \<le> q * L" using dm r by linarith
  have a': "(of_nat q - 1) * of_nat L < (of_nat m :: rat)"
  proof -
    have "(of_nat (q * L) :: rat) < of_nat (m + L)" using a by (simp only: of_nat_less_iff)
    then show ?thesis by (simp add: algebra_simps)
  qed
  have b': "(of_nat m :: rat) \<le> of_nat q * of_nat L"
    using b by (metis of_nat_le_iff of_nat_mult)
  have Lr: "(0::rat) < of_nat L" using L by simp
  have "\<lceil>(of_nat m :: rat) / of_nat L\<rceil> = int q"
  proof (rule ceiling_unique)
    show "of_int (int q) - 1 < (of_nat m :: rat) / of_nat L"
      using a' Lr by (simp add: pos_less_divide_eq)
    show "(of_nat m :: rat) / of_nat L \<le> of_int (int q)"
      using b' Lr by (simp add: pos_divide_le_eq)
  qed
  then show ?thesis using False by (simp add: total_pages_def q_def)
qed

lemma pages_cover:
  assumes "0 < L"
  shows "concat (map (\<lambda>k. page_rows (int k + 1) (int L) xs) [0..<nat (total_pages (length xs) (int L))]) = xs"
proof -
  have n: "nat (total_pages (length xs) (int L)) = (length xs + L - 1) div L"
    using total_pages_nat [OF assms] by (simp only: nat_int)
  have "take (((length xs + L - 1) div L) * L) xs = xs"
    using ceil_div_cover [OF assms, of "length xs"] by (rule take_all)
  then show ?thesis by (simp only: n page_rows_nat chunks_take)
qed

lemma page_nonempty:
  assumes "0 < L"
  shows "page_rows (int k + 1) (int L) xs \<noteq> [] \<longleftrightarrow> int k < total_pages (length xs) (int L)"
proof -
  have "int k < total_pages (length xs) (int L) \<longleftrightarrow> k < (length xs + L - 1) div L"
    using total_pages_nat [OF assms] by (simp only: of_nat_less_iff)
  also have "\<dots> \<longleftrightarrow> k * L < length xs" using assms by (rule ceil_div_less)
  finally show ?thesis using assms by (auto simp: page_rows_nat)
qed

lemma order_by_mset [simp]: "mset (order_by key asc xs) = mset xs"
  by (simp add: order_by_def)

lemma order_by_set [simp]: "set (order_by key asc xs) = set xs"
  by (metis order_by_mset set_mset_mset)

lemma order_by_length [simp]: "length (order_by key asc xs) = length xs"
  by (metis order_by_mset size_mset)

lemma order_by_desc_hd_max:
  assumes "xs \<noteq> []" and "y \<in> set xs"
  shows "key y \<le> key (hd (order_by key False xs))"
proof -
  let ?s = "sort_key key (rev xs)"
  have sorted: "sorted (map key ?s)" by (rule sorted_sort_key)
  have ne: "?s \<noteq> []" using assms(1) by (metis length_0_conv length_rev length_sort)
  have y: "y \<in> set ?s" using assms(2) by simp
  have "key y \<le> key (last ?s)"
  proof -
    obtain i where i: "i < length ?s" "?s ! i = y" using y by (metis in_set_conv_nth)
    have "key (?s ! i) \<le> key (?s ! (length ?s - 1))"
      using sorted i(1) by (auto simp: sorted_iff_nth_mono)
    then show ?thesis using i ne by (simp add: last_conv_nth)
  qed
  then show ?thesis using ne by (simp add: order_by_def hd_rev)
qed

lemma nulls_high_None_max: "nulls_high v \<le> nulls_high None"
  by (cases v) (simp_all add: nulls_high_def)

lemma nulls_high_eq_None: "nulls_high v = nulls_high None \<longleftrightarrow> v = None"
  by (cases v) (simp_all add: nulls_high_def)

end
