(* ===== verification/Catalog.thy ===== *)
theory Catalog
  imports Query Store "HOL-Library.List_Lexorder" "HOL-Library.Char_ord"
begin

text \<open>
  The catalogue (\<open>src/src/services/booksService.ts\<close>) and the book model of
  \<open>src/src/types/book.ts\<close>: listing with search, category, sort and pagination,
  one book, the categories with their book counts, the featured books and the
  featured testimonials. Every query is one round trip that may fail; the category
  filter costs one more (the database function \<open>get_all_categories\<close>).
\<close>

section \<open>The book model\<close>

record book_model =
  bm_id :: string
  bm_title :: string
  bm_author :: string
  bm_coverImage :: string
  bm_price :: money
  bm_originalPrice :: money
  bm_rating :: rat
  bm_reviews :: int
  bm_description :: string
  bm_category :: "string option"
  bm_language :: string
  bm_publisher :: string
  bm_publicationDate :: "string option"
  bm_isbn :: string
  bm_pageCount :: int
  bm_edition :: string
  bm_binding :: string
  bm_isNew :: "bool option"
  bm_hasFreeDelivery :: "bool option"
  bm_hasRentOption :: "bool option"
  bm_isAvailableForResell :: "bool option"
  bm_stockStatus :: string

text \<open>
  \<open>mapDatabaseBookToModel\<close>. A row read with \<open>select("*")\<close> has no \<open>category\<close>
  column, so \<open>dbBook.category\<close> is \<open>undefined\<close> (\<open>None\<close>); \<open>rating || 0\<close>,
  \<open>reviews || 0\<close> and \<open>edition || ''\<close> replace \<open>null\<close>.
\<close>

definition mapDatabaseBookToModel :: "book_row \<Rightarrow> book_model" where
  "mapDatabaseBookToModel b =
     \<lparr>bm_id = b_id b, bm_title = b_title b, bm_author = b_author b, bm_coverImage = b_cover_image b,
      bm_price = b_price b, bm_originalPrice = b_original_price b,
      bm_rating = (case b_rating b of None \<Rightarrow> 0 | Some r \<Rightarrow> r),
      bm_reviews = (case b_reviews b of None \<Rightarrow> 0 | Some n \<Rightarrow> n),
      bm_description = b_description b, bm_category = None, bm_language = b_language b,
      bm_publisher = b_publisher b, bm_publicationDate = b_publication_date b, bm_isbn = b_isbn b,
      bm_pageCount = b_page_count b, bm_edition = (case b_edition b of None \<Rightarrow> [] | Some e \<Rightarrow> e),
      bm_binding = b_binding b, bm_isNew = b_is_new b, bm_hasFreeDelivery = b_has_free_delivery b,
      bm_hasRentOption = b_has_rent_option b, bm_isAvailableForResell = b_is_available_for_resell b,
      bm_stockStatus = b_stock_status b\<rparr>"

section \<open>Categories\<close>

text \<open>
  The database function \<open>get_all_categories\<close> (defined in the database, not in the
  repository) returns \<open>{id, name, book_count}\<close> per category; the model reads the
  \<open>categories\<close> table, a missing count as 0.
\<close>

definition get_all_categories :: "db \<Rightarrow> (int \<times> string \<times> int) list" where
  "get_all_categories d =
     map (\<lambda>c. (cat_id c, cat_name c, case cat_book_count c of None \<Rightarrow> 0 | Some n \<Rightarrow> n)) (categories d)"

section \<open>Listing\<close>

text \<open>The two columns the callers sort by: \<open>"title"\<close> (the listing) and \<open>"rating"\<close> (featured books).\<close>

datatype sort_column = SortTitle | SortRating

definition sort_books :: "sort_column \<Rightarrow> bool \<Rightarrow> book_row list \<Rightarrow> book_row list" where
  "sort_books col ascending xs =
     (case col of
        SortTitle \<Rightarrow> order_by b_title ascending xs
      | SortRating \<Rightarrow> order_by (\<lambda>b. nulls_high (b_rating b)) ascending xs)"

text \<open>\<open>query.or(`title.ilike.%${search}%, author.ilike.%${search}%`)\<close>, applied when \<open>search\<close> is truthy.\<close>

definition search_match :: "string \<Rightarrow> book_row \<Rightarrow> bool" where
  "search_match search b =
     (\<not> js_truthy search
      \<or> ilike (b_title b) (CHR ''%'' # search @ ''%'') \<or> ilike (b_author b) (CHR ''%'' # search @ ''%''))"

record books_page =
  bp_books :: "book_model list"
  bp_count :: nat
  bp_totalPages :: int
  bp_currentPage :: int

text \<open>The final query: filter, count, order, range.\<close>

definition run_books_query ::
  "int \<Rightarrow> int \<Rightarrow> string \<Rightarrow> (book_row \<Rightarrow> bool) \<Rightarrow> sort_column \<Rightarrow> string \<Rightarrow> db \<Rightarrow> (string + books_page) \<times> db" where
  "run_books_query page limit search categoryFilter sortBy sortOrder d =
     (let (err, d1) = call d in
      case err of
        Some msg \<Rightarrow> (Inl msg, d1)
      | None \<Rightarrow>
          (let rows = sort_books sortBy (sortOrder = ''asc'')
                        (filter (\<lambda>b. search_match search b \<and> categoryFilter b) (books d1));
               cnt = length rows;
               offset = (page - 1) * limit
           in (Inr \<lparr>bp_books = map mapDatabaseBookToModel (range_rows offset (offset + limit - 1) rows),
                    bp_count = cnt, bp_totalPages = total_pages cnt limit, bp_currentPage = page\<rparr>, d1)))"

text \<open>
  \<open>getAllBooks\<close>. A category other than \<open>""\<close>, \<open>"all-categories"\<close> and \<open>"all"\<close> is
  looked up by name among \<open>get_all_categories\<close>; when no category has that name the
  query runs without a category filter.
\<close>

definition getAllBooks ::
  "int \<Rightarrow> int \<Rightarrow> string \<Rightarrow> string \<Rightarrow> sort_column \<Rightarrow> string \<Rightarrow> db \<Rightarrow> (string + books_page) \<times> db" where
  "getAllBooks page limit search category sortBy sortOrder d =
     (if js_truthy category \<and> category \<noteq> ''all-categories'' \<and> category \<noteq> ''all'' then
        (let (categoryError, d1) = call d in
         case categoryError of
           Some msg \<Rightarrow> (Inl msg, d1)
         | None \<Rightarrow>
             (case find (\<lambda>(i, n, c). n = category) (get_all_categories d1) of
                Some (i, _, _) \<Rightarrow> run_books_query page limit search (\<lambda>b. b_category_id b = Some i) sortBy sortOrder d1
              | None \<Rightarrow> run_books_query page limit search (\<lambda>b. True) sortBy sortOrder d1))
      else run_books_query page limit search (\<lambda>b. True) sortBy sortOrder d)"

text \<open>\<open>getBookById\<close>: \<open>.eq("id", id).single()\<close>.\<close>

definition getBookById :: "string \<Rightarrow> db \<Rightarrow> (string + book_model) \<times> db" where
  "getBookById bookId d =
     (let (err, d1) = call d in
      case err of
        Some msg \<Rightarrow> (Inl msg, d1)
      | None \<Rightarrow>
          (case filter (\<lambda>b. b_id b = bookId) (books d1) of
             [b] \<Rightarrow> (Inr (mapDatabaseBookToModel b), d1)
           | _ \<Rightarrow> (Inl ''JSON object requested, multiple (or no) rows returned'', d1)))"

text \<open>\<open>getCategories\<close>: the names, and the reduce that maps each name to its count.\<close>

definition book_counts :: "(int \<times> string \<times> int) list \<Rightarrow> string \<Rightarrow> int option" where
  "book_counts items = foldl (\<lambda>acc (i, n, c). acc(n \<mapsto> c)) Map.empty items"

definition getCategories :: "db \<Rightarrow> (string + string list \<times> (string \<Rightarrow> int option)) \<times> db" where
  "getCategories d =
     (let (err, d1) = call d in
      case err of
        Some msg \<Rightarrow> (Inl msg, d1)
      | None \<Rightarrow>
          (let items = get_all_categories d1
           in (Inr (map (\<lambda>(i, n, c). n) items, book_counts items), d1)))"

definition getFeaturedBooks :: "db \<Rightarrow> (string + books_page) \<times> db" where
  "getFeaturedBooks d = getAllBooks 1 6 [] [] SortRating ''desc'' d"

record testimonial =
  tm_id :: string
  tm_name :: string
  tm_avatar :: string
  tm_text :: string
  tm_rating :: int
  tm_location :: string

definition testimonial_of :: "testimonial_row \<Rightarrow> testimonial" where
  "testimonial_of t =
     \<lparr>tm_id = t_id t, tm_name = t_name t,
      tm_avatar = (case t_avatar_url t of None \<Rightarrow> [] | Some a \<Rightarrow> a),
      tm_text = t_content t, tm_rating = 5,
      tm_location = (case t_role t of None \<Rightarrow> [] | Some r \<Rightarrow> r)\<rparr>"

definition getTestimonials :: "db \<Rightarrow> (string + testimonial list) \<times> db" where
  "getTestimonials d =
     (let (err, d1) = call d in
      case err of
        Some msg \<Rightarrow> (Inl msg, d1)
      | None \<Rightarrow>
          (Inr (map testimonial_of
                  (take 3 (order_by (\<lambda>t. nulls_high (t_created_at t)) False
                             (filter (\<lambda>t. t_is_featured t = Some True) (testimonials d1))))), d1))"


section \<open>Example\<close>

definition sample_book :: "string \<Rightarrow> string \<Rightarrow> string \<Rightarrow> money \<Rightarrow> rat option \<Rightarrow> int option \<Rightarrow> book_row" where
  "sample_book i t a p r c =
     \<lparr>b_id = i, b_title = t, b_author = a, b_price = p, b_original_price = p, b_has_rent_option = Some True,
      b_is_available_for_resell = Some False, b_rating = r, b_reviews = None, b_binding = ''Paperback'',
      b_category_id = c, b_cover_image = [], b_description = [], b_edition = None, b_has_free_delivery = None,
      b_is_new = None, b_isbn = [], b_language = ''English'', b_page_count = 100, b_publication_date = None,
      b_publisher = [], b_stock_status = ''in_stock''\<rparr>"

definition catalog_db :: db where
  "catalog_db =
     \<lparr>books = [sample_book ''b1'' ''Wings of Fire'' ''Kalam'' 300 (Some 5) (Some 1),
               sample_book ''b2'' ''Indian Polity'' ''Laxmikanth'' 650 None (Some 2),
               sample_book ''b3'' ''Quantitative Aptitude'' ''Aggarwal'' 550 (Some 4) (Some 3)],
      carts = [], cart_items = [], orders = [], order_items = [],
      categories = [\<lparr>cat_id = 1, cat_name = ''biography'', cat_description = None, cat_book_count = Some 1\<rparr>,
                    \<lparr>cat_id = 2, cat_name = ''upsc'', cat_description = None, cat_book_count = Some 1\<rparr>],
      profiles = [], resell_requests = [], reviews = [], testimonials = [], storage = [], next_id = 0, sched = []\<rparr>"

section \<open>Lemmas\<close>

lemma lower_char_pct [simp]: "lower_char CHR ''%'' = CHR ''%''"
  by simp



lemma run_books_query_ok:
  "sched d = [] \<Longrightarrow> fst (run_books_query page limit search f sb so d) =
     Inr \<lparr>bp_books = map mapDatabaseBookToModel
            (range_rows ((page - 1) * limit) ((page - 1) * limit + limit - 1)
               (sort_books sb (so = ''asc'') (filter (\<lambda>b. search_match search b \<and> f b) (books d)))),
          bp_count = length (filter (\<lambda>b. search_match search b \<and> f b) (books d)),
          bp_totalPages = total_pages (length (filter (\<lambda>b. search_match search b \<and> f b) (books d))) limit,
          bp_currentPage = page\<rparr>"
  by (simp add: run_books_query_def call_Nil Let_def sort_books_def split: sort_column.split)

lemma getAllBooks_no_category:
  "\<not> js_truthy category \<Longrightarrow> getAllBooks page limit search category sb so d = run_books_query page limit search (\<lambda>b. True) sb so d"
  by (simp add: getAllBooks_def)

lemma getFeaturedBooks_ok:
  "sched d = [] \<Longrightarrow> fst (getFeaturedBooks d) =
     Inr \<lparr>bp_books = map mapDatabaseBookToModel (take 6 (order_by (\<lambda>b. nulls_high (b_rating b)) False (books d))),
          bp_count = length (books d), bp_totalPages = total_pages (length (books d)) 6, bp_currentPage = 1\<rparr>"
  by (simp add: getFeaturedBooks_def getAllBooks_no_category js_truthy_def run_books_query_ok
      search_match_def range_rows_def sort_books_def)


section \<open>Properties of the catalogue\<close>




text \<open>
  C37. The home page's featured books are sorted by rating descending, and the
  backend puts \<open>NULL\<close> first in descending order: when any book has no rating, the
  first featured book is an unrated one, shown with rating 0.
\<close>

theorem featured_books_unrated_first:
  assumes "sched d = []" and "b \<in> set (books d)" and "b_rating b = None"
  shows "\<exists>fs u. fst (getFeaturedBooks d) = Inr fs \<and> u \<in> set (books d) \<and> b_rating u = None
           \<and> hd (bp_books fs) = mapDatabaseBookToModel u \<and> bm_rating (hd (bp_books fs)) = 0"
proof -
  let ?xs = "order_by (\<lambda>b. nulls_high (b_rating b)) False (books d)"
  have ne: "books d \<noteq> []" using assms(2) by auto
  then have ne': "?xs \<noteq> []" by (metis length_0_conv order_by_length)
  have "nulls_high (b_rating b) \<le> nulls_high (b_rating (hd ?xs))"
    using order_by_desc_hd_max [OF ne assms(2), of "\<lambda>b. nulls_high (b_rating b)"] by simp
  then have "b_rating (hd ?xs) = None"
    using assms(3) nulls_high_None_max [of "b_rating (hd ?xs)"] nulls_high_eq_None by (metis order_antisym)
  moreover have "hd ?xs \<in> set (books d)" using ne' by (metis hd_in_set order_by_set)
  moreover have "hd (map mapDatabaseBookToModel (take 6 ?xs)) = mapDatabaseBookToModel (hd ?xs)"
    using ne' by (simp add: hd_map)
  ultimately show ?thesis
    using getFeaturedBooks_ok [OF assms(1)] by (auto simp: mapDatabaseBookToModel_def)
qed


text \<open>
  C38. A category name that no category has is not an error and does not empty
  the listing: the result is the same as with no category at all.
\<close>

theorem unknown_category_ignored:
  assumes "sched d = []" and "js_truthy c" and "c \<noteq> ''all-categories''" and "c \<noteq> ''all''"
    and "c \<notin> cat_name ` set (categories d)"
  shows "fst (getAllBooks p l s c sb so d) = fst (getAllBooks p l s [] sb so d)"
proof -
  have "find (\<lambda>(i, n, k). n = c) (get_all_categories d) = None"
    using assms(5) by (auto simp: get_all_categories_def find_None_iff)
  then show ?thesis using assms by (simp add: getAllBooks_def call_Nil js_truthy_def)
qed


section \<open>Witnesses\<close>


theorem featured_books_unrated_first_witness:
  "\<exists>fs u. fst (getFeaturedBooks catalog_db) = Inr fs \<and> u \<in> set (books catalog_db) \<and> b_rating u = None
      \<and> hd (bp_books fs) = mapDatabaseBookToModel u \<and> bm_rating (hd (bp_books fs)) = 0"
proof -
  have h1: "sched catalog_db = []" by (simp add: catalog_db_def)
  have h2: "sample_book ''b2'' ''Indian Polity'' ''Laxmikanth'' 650 None (Some 2) \<in> set (books catalog_db)"
    by (simp add: catalog_db_def)
  show ?thesis by (rule featured_books_unrated_first [OF h1 h2]) (simp add: sample_book_def)
qed

theorem unknown_category_ignored_witness:
  "fst (getAllBooks 1 20 [] ''comics'' SortTitle ''asc'' catalog_db) = fst (getAllBooks 1 20 [] [] SortTitle ''asc'' catalog_db)"
proof -
  have h: "''comics'' \<notin> cat_name ` set (categories catalog_db)" by (simp add: catalog_db_def)
  show ?thesis
    by (rule unknown_category_ignored [OF _ _ _ _ h]) (simp_all add: catalog_db_def js_truthy_def)
qed

end
