(* ===== verification/BookDetail.thy ===== *)
theory BookDetail
  imports CartPage Catalog
begin

text \<open>
  The book page's add-to-cart handler (\<open>src/src/pages/BookDetailPage.tsx\<close>,
  \<open>handleAddToCart\<close>): it requires a signed-in user and a book id, fetches or creates
  the user's cart and adds one copy. The "Buy" button calls it with
  \<open>(false)\<close>, the "Rent" button with \<open>(true, 3)\<close>. Toasts and navigation are not state.
\<close>

datatype add_outcome = AddLoginRequired | AddFailed string | Added

definition handleAddToCart :: "string option \<Rightarrow> string \<Rightarrow> bool \<Rightarrow> int option \<Rightarrow> db \<Rightarrow> add_outcome \<times> db" where
  "handleAddToCart user bookId isRental rentalPeriod d =
     (case user of
        None \<Rightarrow> (AddLoginRequired, d)
      | Some uid \<Rightarrow>
          (if \<not> js_truthy bookId then (AddFailed ''Cannot add to cart: Book data is missing'', d)
           else
             (let (cartRes, d1) = getOrCreateCart uid d in
              case cartRes of
                Inl cartError \<Rightarrow> (AddFailed cartError, d1)
              | Inr cart \<Rightarrow>
                  (let (res, d2) = addToCart (cart_id cart) bookId 1 isRental rentalPeriod d1 in
                   case res of
                     Inl err \<Rightarrow> (AddFailed err, d2)
                   | Inr _ \<Rightarrow> (Added, d2)))))"

definition buy_button :: "string option \<Rightarrow> string \<Rightarrow> db \<Rightarrow> add_outcome \<times> db" where
  "buy_button user bookId d = handleAddToCart user bookId False None d"


section \<open>Example\<close>



section \<open>Lemmas\<close>


end
