(* ===== verification/JsObject.thy ===== *)
theory JsObject
  imports Prelude
begin

text \<open>
  JavaScript values and plain objects as the services hand them to the backend: an
  object is its list of keys and values in insertion order. The backend rejects a
  write whose object has a key that is not a column of the table, and reads a column
  from the value under its key. Also the string helpers of the pages (\<open>trim\<close>) and
  the object spread \<open>{...prev, [name]: value}\<close>.
\<close>

datatype js_value = JNull | JBool bool | JNum rat | JStr string | JArr "js_value list"

type_synonym js_object = "(string \<times> js_value) list"

text \<open>The first key of an object that is not a column; the backend rejects such a write.\<close>

definition unknown_column :: "string list \<Rightarrow> js_object \<Rightarrow> string option" where
  "unknown_column cols obj = map_option fst (find (\<lambda>(k, v). k \<notin> set cols) obj)"

definition js_str :: "js_value option \<Rightarrow> string option" where
  "js_str v = (case v of Some (JStr s) \<Rightarrow> Some s | _ \<Rightarrow> None)"

definition js_num :: "js_value option \<Rightarrow> rat option" where
  "js_num v = (case v of Some (JNum n) \<Rightarrow> Some n | _ \<Rightarrow> None)"

definition js_int :: "js_value option \<Rightarrow> int option" where
  "js_int v = (case v of Some (JNum n) \<Rightarrow> if n = of_int \<lfloor>n\<rfloor> then Some \<lfloor>n\<rfloor> else None | _ \<Rightarrow> None)"

text \<open>A nullable column: absent or \<open>null\<close> is \<open>NULL\<close>; another value must have the column's type.\<close>

definition js_nullable :: "(js_value option \<Rightarrow> 'a option) \<Rightarrow> js_value option \<Rightarrow> 'a option option" where
  "js_nullable f v = (case v of None \<Rightarrow> Some None | Some JNull \<Rightarrow> Some None
                                | Some x \<Rightarrow> map_option Some (f (Some x)))"

definition js_bool :: "js_value option \<Rightarrow> bool option" where
  "js_bool v = (case v of Some (JBool b) \<Rightarrow> Some b | _ \<Rightarrow> None)"

definition js_opt :: "('a \<Rightarrow> js_value) \<Rightarrow> 'a option \<Rightarrow> js_value" where
  "js_opt f v = (case v of None \<Rightarrow> JNull | Some x \<Rightarrow> f x)"

text \<open>\<open>{...prev, [name]: value}\<close>: an existing key keeps its place, a new one is appended.\<close>

definition js_set :: "js_object \<Rightarrow> string \<Rightarrow> js_value \<Rightarrow> js_object" where
  "js_set obj k v =
     (if k \<in> fst ` set obj then map (\<lambda>(k', v'). if k' = k then (k', v) else (k', v')) obj
      else obj @ [(k, v)])"

text \<open>\<open>String.prototype.trim\<close> on the usual white space.\<close>

definition js_space :: "char \<Rightarrow> bool" where
  "js_space c \<longleftrightarrow> c \<in> {CHR '' '', CHR 0x09, CHR 0x0A, CHR 0x0B, CHR 0x0C, CHR 0x0D}"

definition js_trim :: "string \<Rightarrow> string" where
  "js_trim s = rev (dropWhile js_space (rev (dropWhile js_space s)))"

text \<open>
  \<open>JSON.stringify\<close> of an object literal: a property whose value is \<open>undefined\<close>
  (here \<open>None\<close>) is left out, every other one is kept in order.
\<close>

definition js_defined :: "(string \<times> js_value option) list \<Rightarrow> js_object" where
  "js_defined kvs = [(k, the v). (k, v) \<leftarrow> kvs, v \<noteq> None]"

text \<open>A natural number in a template literal: its decimal digits.\<close>

fun string_of_nat :: "nat \<Rightarrow> string" where
  "string_of_nat n =
     (if n < 10 then [char_of (48 + n)] else string_of_nat (n div 10) @ [char_of (48 + n mod 10)])"

text \<open>\<open>s.split(c)\<close> on one character: the pieces between the separators, empty ones included.\<close>

fun js_split :: "char \<Rightarrow> string \<Rightarrow> string list" where
  "js_split c [] = [[]]"
| "js_split c (x # xs) =
     (if x = c then [] # js_split c xs
      else (case js_split c xs of p # ps \<Rightarrow> (x # p) # ps | [] \<Rightarrow> [[x]]))"

subsection \<open>\<open>parseFloat\<close>\<close>

text \<open>
  \<open>parseFloat(s)\<close>: leading white space is skipped, then the longest prefix of the form
  sign, digits, fraction, exponent is read. The value is kept exact as a rational, as
  everywhere in this development; \<open>None\<close> is \<open>NaN\<close> (no digits) and also stands for the
  \<open>Infinity\<close> prefix, which \<open>JSON.stringify\<close> sends as \<open>null\<close> just as it sends \<open>NaN\<close>.
\<close>

definition is_digit :: "char \<Rightarrow> bool" where
  "is_digit c \<longleftrightarrow> 48 \<le> (of_char c :: nat) \<and> (of_char c :: nat) \<le> 57"

definition nat_of_digits :: "string \<Rightarrow> nat" where
  "nat_of_digits ds = foldl (\<lambda>n c. 10 * n + (of_char c - 48)) 0 ds"

definition js_sign :: "string \<Rightarrow> int \<times> string" where
  "js_sign s = (case s of c # r \<Rightarrow> if c = CHR ''-'' then (-1, r) else if c = CHR ''+'' then (1, r) else (1, s)
                         | [] \<Rightarrow> (1, []))"

definition js_exponent :: "string \<Rightarrow> int" where
  "js_exponent s =
     (case s of
        e # r \<Rightarrow>
          if e = CHR ''e'' \<or> e = CHR ''E'' then
            (let (sg, q) = js_sign r; ds = takeWhile is_digit q in
             if ds = [] then 0 else sg * int (nat_of_digits ds))
          else 0
      | [] \<Rightarrow> 0)"

definition pow10 :: "int \<Rightarrow> rat" where
  "pow10 e = (if 0 \<le> e then 10 ^ nat e else 1 / 10 ^ nat (- e))"

definition parseFloat :: "string \<Rightarrow> rat option" where
  "parseFloat s =
     (let (sg, r) = js_sign (dropWhile js_space s);
          ip = takeWhile is_digit r; r1 = drop (length ip) r;
          (fp, r2) = (case r1 of c # q \<Rightarrow> if c = CHR ''.'' then (takeWhile is_digit q, dropWhile is_digit q) else ([], r1)
                               | [] \<Rightarrow> ([], []))
      in if ip = [] \<and> fp = [] then None
         else Some (of_int sg * (of_nat (nat_of_digits (ip @ fp)) / 10 ^ length fp) * pow10 (js_exponent r2)))"

section \<open>Lemmas\<close>

lemma js_nullable_opt [simp]:
  "js_nullable js_bool (Some (js_opt JBool v)) = Some v"
  "js_nullable js_str (Some (js_opt JStr s)) = Some s"
  "js_nullable js_num (Some (js_opt JNum n)) = Some n"
  "js_nullable js_int (Some (js_opt (JNum \<circ> of_int) i)) = Some i"
    apply (cases v; simp add: js_nullable_def js_opt_def js_bool_def)
   apply (cases s; simp add: js_nullable_def js_opt_def js_str_def)
  apply (cases n; simp add: js_nullable_def js_opt_def js_num_def)
  apply (cases i; simp add: js_nullable_def js_opt_def js_int_def)
  done

lemma map_fst_js_set:
  "map fst (js_set obj k v) = (if k \<in> fst ` set obj then map fst obj else map fst obj @ [k])"
  by (induction obj) (auto simp: js_set_def split: prod.splits)

lemma map_fst_js_defined: "map fst (js_defined kvs) = [k. (k, v) \<leftarrow> kvs, v \<noteq> None]"
  by (induction kvs) (auto simp: js_defined_def)

lemma map_of_js_defined_Cons:
  "map_of (js_defined ((k', x) # kvs)) k = (if k' = k \<and> x \<noteq> None then x else map_of (js_defined kvs) k)"
  by (cases x) (auto simp: js_defined_def)

lemma js_defined_Nil [simp]: "js_defined [] = []"
  by (simp add: js_defined_def)

lemma js_nullable_None [simp]: "js_nullable f None = Some None"
  by (simp add: js_nullable_def)

lemma js_nullable_Some_JStr [simp]: "js_nullable js_str (Some (JStr s)) = Some (Some s)"
  by (simp add: js_nullable_def js_str_def)

lemma js_nullable_map_option [simp]:
  "js_nullable js_bool (map_option JBool ob) = Some ob"
  "js_nullable js_str (map_option JStr s) = Some s"
  by (cases ob; simp add: js_nullable_def js_bool_def) (cases s; simp add: js_nullable_def js_str_def)

lemma js_defined_keys: "set (map fst (js_defined kvs)) \<subseteq> set (map fst kvs)"
  unfolding map_fst_js_defined by (induction kvs) auto

lemma unknown_column_None_iff: "unknown_column cols obj = None \<longleftrightarrow> set (map fst obj) \<subseteq> set cols"
  by (induction obj) (auto simp: unknown_column_def split: prod.splits)

lemma js_split_nonempty [simp]: "js_split c s \<noteq> []"
  by (induction s) (auto split: list.splits)

lemma js_split_concat: "c \<notin> set s \<Longrightarrow> js_split c s = [s]"
  by (induction s) auto

end
