(* ===== verification/AdminBooks.thy ===== *)
theory AdminBooks
  imports Catalog JsObject
begin

text \<open>
  The admin side of the catalogue: \<open>createBook\<close>, \<open>updateBook\<close>, \<open>deleteBook\<close> and
  \<open>getAllBooks\<close> of \<open>src/src/services/adminService.ts\<close>, and the handlers of
  \<open>src/src/pages/admin/AdminBooksPage.tsx\<close> that call them. The admin service passes
  the caller's object to the backend unchanged, so the model represents it as a
  JavaScript object (a list of keys and values) and the backend's reading of such an
  object against the columns of \<open>books\<close>.
\<close>

section \<open>The books columns\<close>

text \<open>The columns of \<open>books\<close> (\<open>Tables.books.Row\<close> of the generated types).\<close>

definition books_columns :: "string list" where
  "books_columns =
     [''author'', ''binding'', ''category_id'', ''cover_image'', ''created_at'', ''description'',
      ''edition'', ''has_free_delivery'', ''has_rent_option'', ''id'', ''is_available_for_resell'',
      ''is_new'', ''isbn'', ''language'', ''original_price'', ''page_count'', ''price'',
      ''publication_date'', ''publisher'', ''rating'', ''reviews'', ''stock_status'', ''title'',
      ''updated_at'']"

text \<open>
  The row the backend stores for an object whose keys are all columns: every
  \<open>NOT NULL\<close> column must be present with its type (\<open>None\<close> otherwise: the write
  fails), the nullable ones default to \<open>NULL\<close>. The id is the object's, or the one
  generated.
\<close>

definition book_row_of_object :: "string \<Rightarrow> js_object \<Rightarrow> book_row option" where
  "book_row_of_object newId obj =
     (let v = map_of obj;
          rowId = (case js_str (v ''id'') of Some i \<Rightarrow> i | None \<Rightarrow> newId) in
      Option.bind (js_str (v ''title'')) (\<lambda>t. Option.bind (js_str (v ''author'')) (\<lambda>a.
      Option.bind (js_num (v ''price'')) (\<lambda>p. Option.bind (js_num (v ''original_price'')) (\<lambda>op.
      Option.bind (js_str (v ''binding'')) (\<lambda>bi. Option.bind (js_str (v ''cover_image'')) (\<lambda>ci.
      Option.bind (js_str (v ''description'')) (\<lambda>de. Option.bind (js_str (v ''isbn'')) (\<lambda>isbn.
      Option.bind (js_str (v ''language'')) (\<lambda>la. Option.bind (js_int (v ''page_count'')) (\<lambda>pc.
      Option.bind (js_str (v ''publisher'')) (\<lambda>pu. Option.bind (js_str (v ''stock_status'')) (\<lambda>ss.
      Option.bind (js_nullable js_bool (v ''has_rent_option'')) (\<lambda>hr.
      Option.bind (js_nullable js_bool (v ''is_available_for_resell'')) (\<lambda>ar.
      Option.bind (js_nullable js_num (v ''rating'')) (\<lambda>ra. Option.bind (js_nullable js_int (v ''reviews'')) (\<lambda>rv.
      Option.bind (js_nullable js_int (v ''category_id'')) (\<lambda>cat. Option.bind (js_nullable js_str (v ''edition'')) (\<lambda>ed.
      Option.bind (js_nullable js_bool (v ''has_free_delivery'')) (\<lambda>fd. Option.bind (js_nullable js_bool (v ''is_new'')) (\<lambda>nw.
      Option.bind (js_nullable js_str (v ''publication_date'')) (\<lambda>pd.
        Some \<lparr>b_id = rowId, b_title = t, b_author = a, b_price = p, b_original_price = op,
              b_has_rent_option = hr, b_is_available_for_resell = ar, b_rating = ra, b_reviews = rv,
              b_binding = bi, b_category_id = cat, b_cover_image = ci, b_description = de,
              b_edition = ed, b_has_free_delivery = fd, b_is_new = nw, b_isbn = isbn, b_language = la,
              b_page_count = pc, b_publication_date = pd, b_publisher = pu, b_stock_status = ss\<rparr>))))))))))))))))))))))"

text \<open>A stored row as the object the backend returns for it (\<open>select()\<close>).\<close>

definition object_of_book_row :: "book_row \<Rightarrow> js_object" where
  "object_of_book_row b =
     [(''author'', JStr (b_author b)), (''binding'', JStr (b_binding b)),
      (''category_id'', js_opt (JNum \<circ> of_int) (b_category_id b)), (''cover_image'', JStr (b_cover_image b)),
      (''description'', JStr (b_description b)), (''edition'', js_opt JStr (b_edition b)),
      (''has_free_delivery'', js_opt JBool (b_has_free_delivery b)), (''has_rent_option'', js_opt JBool (b_has_rent_option b)),
      (''id'', JStr (b_id b)), (''is_available_for_resell'', js_opt JBool (b_is_available_for_resell b)),
      (''is_new'', js_opt JBool (b_is_new b)), (''isbn'', JStr (b_isbn b)), (''language'', JStr (b_language b)),
      (''original_price'', JNum (b_original_price b)), (''page_count'', JNum (of_int (b_page_count b))),
      (''price'', JNum (b_price b)), (''publication_date'', js_opt JStr (b_publication_date b)),
      (''publisher'', JStr (b_publisher b)), (''rating'', js_opt JNum (b_rating b)),
      (''reviews'', js_opt (JNum \<circ> of_int) (b_reviews b)), (''stock_status'', JStr (b_stock_status b)),
      (''title'', JStr (b_title b))]"

text \<open>The backend's generated uuid, drawn from the id counter.\<close>

definition uuid_of :: "nat \<Rightarrow> string" where
  "uuid_of n = ''uuid-'' @ replicate n (CHR ''1'')"

definition column_error :: "string \<Rightarrow> string" where
  "column_error k = ''Could not find the '' @ k @ '' column of books in the schema cache''"

definition row_error :: string where
  "row_error = ''null value or invalid input for a column of books''"

section \<open>adminService: books\<close>

text \<open>\<open>createBook(bookData)\<close>: \<open>insert([bookData]).select().single()\<close>; an error is caught and returned.\<close>

definition admin_createBook :: "js_object \<Rightarrow> db \<Rightarrow> (string + book_row) \<times> db" where
  "admin_createBook bookData d =
     (let (err, d1) = call d in
      case err of
        Some msg \<Rightarrow> (Inl msg, d1)
      | None \<Rightarrow>
          (case unknown_column books_columns bookData of
             Some k \<Rightarrow> (Inl (column_error k), d1)
           | None \<Rightarrow>
               (let (newId, d2) = fresh_id d1 in
                case book_row_of_object (uuid_of newId) bookData of
                  None \<Rightarrow> (Inl row_error, d1)
                | Some row \<Rightarrow>
                    if b_id row \<in> b_id ` set (books d1) then (Inl ''duplicate key value violates unique constraint books_pkey'', d1)
                    else (Inr row, d2\<lparr>books := books d2 @ [row]\<rparr>))))"

text \<open>\<open>updateBook(id, bookData)\<close>: \<open>update(bookData).eq("id", id).select().single()\<close>.\<close>

definition admin_updateBook :: "string \<Rightarrow> js_object \<Rightarrow> db \<Rightarrow> (string + book_row) \<times> db" where
  "admin_updateBook bookId bookData d =
     (let (err, d1) = call d in
      case err of
        Some msg \<Rightarrow> (Inl msg, d1)
      | None \<Rightarrow>
          (case unknown_column books_columns bookData of
             Some k \<Rightarrow> (Inl (column_error k), d1)
           | None \<Rightarrow>
               (case filter (\<lambda>b. b_id b = bookId) (books d1) of
                  [r] \<Rightarrow>
                    (case book_row_of_object (b_id r) (bookData @ object_of_book_row r) of
                       None \<Rightarrow> (Inl row_error, d1)
                     | Some r' \<Rightarrow> (Inr r', d1\<lparr>books := map (\<lambda>b. if b_id b = bookId then r' else b) (books d1)\<rparr>))
                | _ \<Rightarrow> (Inl ''JSON object requested, multiple (or no) rows returned'', d1))))"

definition admin_deleteBook :: "string \<Rightarrow> db \<Rightarrow> (string + unit) \<times> db" where
  "admin_deleteBook bookId d =
     (let (err, d1) = call d in
      case err of
        Some msg \<Rightarrow> (Inl msg, d1)
      | None \<Rightarrow> (Inr (), d1\<lparr>books := filter (\<lambda>b. b_id b \<noteq> bookId) (books d1)\<rparr>))"

text \<open>
  \<open>getAllBooks(page, limit, filters)\<close>. Each filter applies when truthy (an absent
  filter is \<open>""\<close> or 0). The total comes from a separate count of the whole table
  whose error is not inspected (\<open>count || 0\<close>). Rows are listed newest first; rows are
  appended as they are created, so that is the reverse of the table.
\<close>

record admin_filters =
  af_title :: string
  af_author :: string
  af_categoryId :: int
  af_minPrice :: money
  af_maxPrice :: money

definition admin_book_match :: "admin_filters \<Rightarrow> book_row \<Rightarrow> bool" where
  "admin_book_match f b =
     ((af_title f = [] \<or> ilike (b_title b) (CHR ''%'' # af_title f @ ''%''))
      \<and> (af_author f = [] \<or> ilike (b_author b) (CHR ''%'' # af_author f @ ''%''))
      \<and> (af_categoryId f = 0 \<or> b_category_id b = Some (af_categoryId f))
      \<and> (af_minPrice f = 0 \<or> af_minPrice f \<le> b_price b)
      \<and> (af_maxPrice f = 0 \<or> b_price b \<le> af_maxPrice f))"

record admin_books_result =
  abr_books :: "(book_row \<times> string option) list"
  abr_total :: nat
  abr_page :: int
  abr_limit :: int

definition category_name :: "db \<Rightarrow> book_row \<Rightarrow> string option" where
  "category_name d b =
     (case b_category_id b of None \<Rightarrow> None
      | Some i \<Rightarrow> map_option cat_name (find (\<lambda>c. cat_id c = i) (categories d)))"

definition admin_getAllBooks :: "int \<Rightarrow> int \<Rightarrow> admin_filters \<Rightarrow> db \<Rightarrow> (string + admin_books_result) \<times> db" where
  "admin_getAllBooks page limit filters d =
     (let (countError, d1) = call d;
          total = (case countError of None \<Rightarrow> length (books d1) | Some _ \<Rightarrow> 0);
          (err, d2) = call d1
      in case err of
           Some msg \<Rightarrow> (Inl msg, d2)
         | None \<Rightarrow>
             (let rows = page_rows page limit (rev (filter (admin_book_match filters) (books d2)))
              in (Inr \<lparr>abr_books = map (\<lambda>b. (b, category_name d2 b)) rows, abr_total = total,
                       abr_page = page, abr_limit = limit\<rparr>, d2)))"

section \<open>The admin books page\<close>

definition ensureValidCategory :: "string option \<Rightarrow> string" where
  "ensureValidCategory category =
     (case map_option js_trim category of
        Some c \<Rightarrow> if c \<noteq> [] then c else ''uncategorized''
      | None \<Rightarrow> ''uncategorized'')"

text \<open>The form object of \<open>useState\<close> and \<open>resetForm\<close> (\<open>today\<close> is \<open>new Date().toISOString().split('T')[0]\<close>).\<close>

definition empty_book_form :: "string \<Rightarrow> js_object" where
  "empty_book_form today =
     [(''title'', JStr []), (''author'', JStr []), (''coverImage'', JStr []), (''price'', JNum 0),
      (''originalPrice'', JNum 0), (''description'', JStr []), (''category'', JStr ''uncategorized''),
      (''language'', JStr []), (''publisher'', JStr []), (''publicationDate'', JStr today),
      (''isbn'', JStr []), (''pageCount'', JNum 0), (''edition'', JStr []), (''binding'', JStr []),
      (''isNew'', JBool True), (''hasFreeDelivery'', JBool False), (''hasRentOption'', JBool False),
      (''isAvailableForResell'', JBool False), (''stockStatus'', JStr ''in_stock'')]"

definition edit_book_form :: "book_model \<Rightarrow> js_object" where
  "edit_book_form b =
     [(''title'', JStr (bm_title b)), (''author'', JStr (bm_author b)), (''coverImage'', JStr (bm_coverImage b)),
      (''price'', JNum (bm_price b)), (''originalPrice'', JNum (bm_originalPrice b)),
      (''description'', JStr (bm_description b)), (''category'', JStr (ensureValidCategory (bm_category b))),
      (''language'', JStr (bm_language b)), (''publisher'', JStr (bm_publisher b)),
      (''publicationDate'', js_opt JStr (bm_publicationDate b)), (''isbn'', JStr (bm_isbn b)),
      (''pageCount'', JNum (of_int (bm_pageCount b))), (''edition'', JStr (bm_edition b)),
      (''binding'', JStr (bm_binding b)), (''isNew'', js_opt JBool (bm_isNew b)),
      (''hasFreeDelivery'', js_opt JBool (bm_hasFreeDelivery b)), (''hasRentOption'', js_opt JBool (bm_hasRentOption b)),
      (''isAvailableForResell'', js_opt JBool (bm_isAvailableForResell b)), (''stockStatus'', JStr (bm_stockStatus b))]"

record admin_books_page =
  abp_formData :: js_object
  abp_bookToEdit :: "book_model option"
  abp_bookToDelete :: "string option"
  abp_addOpen :: bool
  abp_editOpen :: bool
  abp_deleteOpen :: bool
  abp_page :: int
  abp_search :: string
  abp_category :: string
  abp_toast :: "string option"

definition initial_admin_books :: "string \<Rightarrow> admin_books_page" where
  "initial_admin_books today =
     \<lparr>abp_formData = empty_book_form today, abp_bookToEdit = None, abp_bookToDelete = None,
      abp_addOpen = False, abp_editOpen = False, abp_deleteOpen = False, abp_page = 1,
      abp_search = [], abp_category = [], abp_toast = None\<rparr>"

definition handleChange :: "string \<Rightarrow> string \<Rightarrow> admin_books_page \<Rightarrow> admin_books_page" where
  "handleChange name value st = st\<lparr>abp_formData := js_set (abp_formData st) name (JStr value)\<rparr>"

definition handleSwitchChange :: "string \<Rightarrow> js_value \<Rightarrow> admin_books_page \<Rightarrow> admin_books_page" where
  "handleSwitchChange name value st = st\<lparr>abp_formData := js_set (abp_formData st) name value\<rparr>"

definition handleNumberChange :: "string \<Rightarrow> rat \<Rightarrow> admin_books_page \<Rightarrow> admin_books_page" where
  "handleNumberChange name value st = st\<lparr>abp_formData := js_set (abp_formData st) name (JNum value)\<rparr>"

definition resetForm :: "string \<Rightarrow> admin_books_page \<Rightarrow> admin_books_page" where
  "resetForm today st = st\<lparr>abp_formData := empty_book_form today, abp_bookToEdit := None\<rparr>"

definition openAddBookModal :: "string \<Rightarrow> admin_books_page \<Rightarrow> admin_books_page" where
  "openAddBookModal today st = (resetForm today st)\<lparr>abp_addOpen := True\<rparr>"

definition openEditBookModal :: "book_model \<Rightarrow> admin_books_page \<Rightarrow> admin_books_page" where
  "openEditBookModal b st = st\<lparr>abp_bookToEdit := Some b, abp_formData := edit_book_form b, abp_editOpen := True\<rparr>"

definition openDeleteConfirm :: "string \<Rightarrow> admin_books_page \<Rightarrow> admin_books_page" where
  "openDeleteConfirm bookId st = st\<lparr>abp_bookToDelete := Some bookId, abp_deleteOpen := True\<rparr>"

text \<open>
  \<open>handleSubmit\<close>: the mutation calls the admin service, which returns its errors
  instead of throwing; the mutation therefore always resolves and \<open>onSuccess\<close> runs.
\<close>

definition handleSubmit :: "string \<Rightarrow> admin_books_page \<Rightarrow> db \<Rightarrow> admin_books_page \<times> db" where
  "handleSubmit today st d =
     (case abp_bookToEdit st of
        Some b \<Rightarrow>
          (let (res, d') = admin_updateBook (bm_id b) (abp_formData st) d
           in ((resetForm today (st\<lparr>abp_editOpen := False\<rparr>))\<lparr>abp_toast := Some ''Book updated successfully''\<rparr>, d'))
      | None \<Rightarrow>
          (let (res, d') = admin_createBook (abp_formData st) d
           in ((resetForm today (st\<lparr>abp_addOpen := False\<rparr>))\<lparr>abp_toast := Some ''Book created successfully''\<rparr>, d')))"

definition handleDeleteBook :: "admin_books_page \<Rightarrow> db \<Rightarrow> admin_books_page \<times> db" where
  "handleDeleteBook st d =
     (case abp_bookToDelete st of
        None \<Rightarrow> (st, d)
      | Some bookId \<Rightarrow>
          (let (res, d') = admin_deleteBook bookId d
           in (st\<lparr>abp_deleteOpen := False, abp_bookToDelete := None,
                  abp_toast := Some ''Book deleted successfully''\<rparr>, d')))"

definition handlePrevPage :: "admin_books_page \<Rightarrow> admin_books_page" where
  "handlePrevPage st = st\<lparr>abp_page := max (abp_page st - 1) 1\<rparr>"

text \<open>
  \<open>if (data?.totalPages && page < data.totalPages)\<close>: the argument is the value of
  \<open>data?.totalPages\<close>, \<open>None\<close> when undefined; the admin service's result has no
  \<open>totalPages\<close> field, so the page always passes \<open>None\<close>.
\<close>

definition handleNextPage :: "int option \<Rightarrow> admin_books_page \<Rightarrow> admin_books_page" where
  "handleNextPage totalPages st =
     (case totalPages of
        Some tp \<Rightarrow> if tp \<noteq> 0 \<and> abp_page st < tp then st\<lparr>abp_page := abp_page st + 1\<rparr> else st
      | None \<Rightarrow> st)"

text \<open>\<open>useEffect(() => { if (search || category) setPage(1) }, [search, category])\<close>\<close>

definition setFilters :: "string \<Rightarrow> string \<Rightarrow> admin_books_page \<Rightarrow> admin_books_page" where
  "setFilters search category st =
     (let st' = st\<lparr>abp_search := search, abp_category := category\<rparr>
      in if js_truthy search \<or> js_truthy category then st'\<lparr>abp_page := 1\<rparr> else st')"

text \<open>The form objects the page builds start with \<open>title\<close>, \<open>author\<close>, \<open>coverImage\<close>.\<close>

definition form_prefix_ok :: "js_object \<Rightarrow> bool" where
  "form_prefix_ok obj \<longleftrightarrow> take 3 (map fst obj) = [''title'', ''author'', ''coverImage'']"

text \<open>The states the page reaches through its handlers, from any store.\<close>

inductive admin_books_reachable :: "string \<Rightarrow> admin_books_page \<Rightarrow> bool" for today where
  init: "admin_books_reachable today (initial_admin_books today)"
| change: "admin_books_reachable today st \<Longrightarrow> admin_books_reachable today (handleChange n v st)"
| switch: "admin_books_reachable today st \<Longrightarrow> admin_books_reachable today (handleSwitchChange n x st)"
| number: "admin_books_reachable today st \<Longrightarrow> admin_books_reachable today (handleNumberChange n q st)"
| add: "admin_books_reachable today st \<Longrightarrow> admin_books_reachable today (openAddBookModal today st)"
| edit: "admin_books_reachable today st \<Longrightarrow> admin_books_reachable today (openEditBookModal b st)"
| del: "admin_books_reachable today st \<Longrightarrow> admin_books_reachable today (openDeleteConfirm i st)"
| submit: "admin_books_reachable today st \<Longrightarrow> admin_books_reachable today (fst (handleSubmit today st d))"
| delete: "admin_books_reachable today st \<Longrightarrow> admin_books_reachable today (fst (handleDeleteBook st d))"
| prev_page: "admin_books_reachable today st \<Longrightarrow> admin_books_reachable today (handlePrevPage st)"
| next_page: "admin_books_reachable today st \<Longrightarrow> admin_books_reachable today (handleNextPage tp st)"
| filters: "admin_books_reachable today st \<Longrightarrow> admin_books_reachable today (setFilters s c st)"

section \<open>Lemmas\<close>

text \<open>Reading back the object of a stored row gives the row.\<close>

lemma book_row_object_roundtrip:
  "book_row_of_object (b_id b) (object_of_book_row b) = Some b"
  by (simp add: book_row_of_object_def object_of_book_row_def js_str_def js_num_def js_int_def)

lemma form_prefix_js_set: "form_prefix_ok obj \<Longrightarrow> form_prefix_ok (js_set obj k v)"
proof -
  assume a: "form_prefix_ok obj"
  then have "length (take 3 (map fst obj)) = 3" by (simp add: form_prefix_ok_def)
  then have "3 \<le> length obj" by simp
  then show ?thesis using a by (simp add: form_prefix_ok_def map_fst_js_set)
qed


lemma unknown_column_coverImage:
  assumes "form_prefix_ok obj"
  shows "unknown_column books_columns obj = Some ''coverImage''"
proof -
  have t: "take 3 (map fst obj) = [''title'', ''author'', ''coverImage'']"
    using assms by (simp add: form_prefix_ok_def)
  have "map fst obj = take 3 (map fst obj) @ drop 3 (map fst obj)" by (rule append_take_drop_id [symmetric])
  then have m: "map fst obj = ''title'' # ''author'' # ''coverImage'' # drop 3 (map fst obj)"
    by (simp only: t append_Cons append_Nil)
  then obtain a b c rest where o: "obj = a # b # c # rest"
    by (cases obj; cases "tl obj"; cases "tl (tl obj)") auto
  have "fst a = ''title''" "fst b = ''author''" "fst c = ''coverImage''" using m o by simp_all
  then show ?thesis using o
    by (cases a, cases b, cases c) (simp add: unknown_column_def books_columns_def)
qed


lemma empty_book_form_prefix: "form_prefix_ok (empty_book_form today)"
  by (simp add: empty_book_form_def form_prefix_ok_def)

lemma edit_book_form_prefix: "form_prefix_ok (edit_book_form b)"
  by (simp add: edit_book_form_def form_prefix_ok_def)

lemma admin_books_form_prefix:
  "admin_books_reachable today st \<Longrightarrow> form_prefix_ok (abp_formData st)"
proof (induction rule: admin_books_reachable.induct)
  case init
  then show ?case by (simp add: initial_admin_books_def empty_book_form_prefix)
next
  case (submit st d)
  then show ?case
    by (simp add: handleSubmit_def resetForm_def empty_book_form_prefix split: option.split prod.split)
next
  case (delete st d)
  then show ?case by (simp add: handleDeleteBook_def split: option.split prod.split)
next
  case (filters st s c)
  then show ?case by (simp add: setFilters_def Let_def)
next
  case (next_page st tp)
  then show ?case by (simp add: handleNextPage_def split: option.split)
qed (simp_all add: handleChange_def handleSwitchChange_def handleNumberChange_def openAddBookModal_def
       resetForm_def openEditBookModal_def openDeleteConfirm_def handlePrevPage_def
       form_prefix_js_set empty_book_form_prefix edit_book_form_prefix)

lemma admin_write_unknown_column:
  assumes "unknown_column books_columns obj = Some k"
  shows "admin_createBook obj d = (Inl (case fst (call d) of Some msg \<Rightarrow> msg | None \<Rightarrow> column_error k), snd (call d))"
    and "admin_updateBook i obj d = (Inl (case fst (call d) of Some msg \<Rightarrow> msg | None \<Rightarrow> column_error k), snd (call d))"
  using assms by (simp_all add: admin_createBook_def admin_updateBook_def split: prod.split option.split)

section \<open>Properties of the admin books page\<close>

text \<open>
  C39. No book can be saved from the admin books page: every form object the page
  can hold carries the model's camelCase keys (\<open>coverImage\<close> first among those that
  are not columns of \<open>books\<close>), so the backend rejects every create and every edit
  and the tables stay as they were; yet the mutation resolves, and the page closes
  the form and announces success.
\<close>

theorem admin_book_saves_always_fail:
  assumes "admin_books_reachable today st"
  shows "tables (snd (handleSubmit today st d)) = tables d
    \<and> abp_toast (fst (handleSubmit today st d)) \<in> {Some ''Book created successfully'', Some ''Book updated successfully''}"
proof -
  have u: "unknown_column books_columns (abp_formData st) = Some ''coverImage''"
    using admin_books_form_prefix [OF assms] by (rule unknown_column_coverImage)
  have t: "tables (snd (call d)) = tables d" by (rule call_tables_eq [OF prod.collapse [symmetric]])
  show ?thesis
    using admin_write_unknown_column [OF u, where d = d] t
    by (simp add: handleSubmit_def split: option.split prod.split)
qed

section \<open>Witnesses\<close>

theorem admin_book_saves_always_fail_witness:
  "tables (snd (handleSubmit ''2026-11-09''
      (handleChange ''title'' ''Wings of Fire'' (openAddBookModal ''2026-11-09'' (initial_admin_books ''2026-11-09'')))
      catalog_db)) = tables catalog_db
   \<and> abp_toast (fst (handleSubmit ''2026-11-09''
      (handleChange ''title'' ''Wings of Fire'' (openAddBookModal ''2026-11-09'' (initial_admin_books ''2026-11-09'')))
      catalog_db)) \<in> {Some ''Book created successfully'', Some ''Book updated successfully''}"
proof -
  have r: "admin_books_reachable ''2026-11-09''
      (handleChange ''title'' ''Wings of Fire'' (openAddBookModal ''2026-11-09'' (initial_admin_books ''2026-11-09'')))"
    by (intro admin_books_reachable.change admin_books_reachable.add admin_books_reachable.init)
  show ?thesis by (rule admin_book_saves_always_fail [OF r])
qed

end
