(* ===== verification/AdminOrders.thy ===== *)
theory AdminOrders
  imports Query Store
begin

text \<open>
  The order and resell administration of \<open>src/src/services/adminService.ts\<close>
  (\<open>getDashboardStats\<close>, \<open>getOrders\<close>, \<open>updateOrderStatus\<close>, \<open>getResellRequests\<close>,
  \<open>updateResellRequestStatus\<close>) and the status handler of
  \<open>src/src/pages/admin/AdminOrdersPage.tsx\<close>, set against the order lifecycle the
  specification prescribes: \<open>pending \<rightarrow> {processing, cancelled}\<close>,
  \<open>processing \<rightarrow> {shipped, cancelled}\<close>, \<open>shipped \<rightarrow> delivered\<close>, with delivered and
  cancelled terminal.
\<close>

section \<open>The specified lifecycle\<close>

inductive spec_order_step :: "order_status \<Rightarrow> order_status \<Rightarrow> bool" where
  start_processing: "spec_order_step Pending Processing"
| cancel_pending: "spec_order_step Pending Cancelled"
| ship: "spec_order_step Processing Shipped"
| cancel_processing: "spec_order_step Processing Cancelled"
| deliver: "spec_order_step Shipped Delivered"

text \<open>How far along the lifecycle a status is.\<close>

fun status_rank :: "order_status \<Rightarrow> nat" where
  "status_rank Pending = 0"
| "status_rank Processing = 1"
| "status_rank Shipped = 2"
| "status_rank Delivered = 3"
| "status_rank Cancelled = 3"

definition set_status :: "nat \<Rightarrow> order_status \<Rightarrow> order_row list \<Rightarrow> order_row list" where
  "set_status orderId status os = map (\<lambda>x. if o_id x = orderId then x\<lparr>o_status := status\<rparr> else x) os"

text \<open>
  The lifecycle lifted to the orders table (whose ids are distinct): one stored order
  takes one specified step.
\<close>

inductive spec_orders_step :: "order_row list \<Rightarrow> order_row list \<Rightarrow> bool" where
  "distinct (map o_id os) \<Longrightarrow> r \<in> set os \<Longrightarrow> spec_order_step (o_status r) s \<Longrightarrow>
   spec_orders_step os (set_status (o_id r) s os)"

section \<open>adminService\<close>

definition single_error :: string where
  "single_error = ''JSON object requested, multiple (or no) rows returned''"

text \<open>\<open>updateOrderStatus(id, status)\<close>: \<open>update({status}).eq("id", id).select().single()\<close>, no guard.\<close>

definition updateOrderStatus :: "nat \<Rightarrow> order_status \<Rightarrow> db \<Rightarrow> (string + order_row) \<times> db" where
  "updateOrderStatus orderId status d =
     (let (err, d1) = call d in
      case err of
        Some msg \<Rightarrow> (Inl msg, d1)
      | None \<Rightarrow>
          (case filter (\<lambda>r. o_id r = orderId) (orders d1) of
             [r] \<Rightarrow> (Inr (r\<lparr>o_status := status\<rparr>), d1\<lparr>orders := set_status orderId status (orders d1)\<rparr>)
           | _ \<Rightarrow> (Inl single_error, d1)))"

text \<open>
  \<open>getOrders(page, limit, status)\<close>: newest first (orders are appended as they are
  created, so the reverse of the table), filtered by status when one is given, one
  page, each order with its customer's profile (\<open>profiles:user_id(...)\<close>).
\<close>

definition profile_of :: "db \<Rightarrow> string \<Rightarrow> profile_row option" where
  "profile_of d userId = find (\<lambda>p. p_id p = userId) (profiles d)"

definition getOrders :: "int \<Rightarrow> int \<Rightarrow> order_status option \<Rightarrow> db \<Rightarrow> (string + (order_row \<times> profile_row option) list) \<times> db" where
  "getOrders page limit status d =
     (let (err, d1) = call d in
      case err of
        Some msg \<Rightarrow> (Inl msg, d1)
      | None \<Rightarrow>
          (let rows = rev (filter (\<lambda>r. case status of None \<Rightarrow> True | Some s \<Rightarrow> o_status r = s) (orders d1))
           in (Inr (map (\<lambda>r. (r, profile_of d1 (o_user_id r))) (page_rows page limit rows)), d1)))"

definition getResellRequests :: "int \<Rightarrow> int \<Rightarrow> string option \<Rightarrow> db \<Rightarrow> (string + (resell_row \<times> profile_row option) list) \<times> db" where
  "getResellRequests page limit status d =
     (let (err, d1) = call d in
      case err of
        Some msg \<Rightarrow> (Inl msg, d1)
      | None \<Rightarrow>
          (let rows = rev (filter (\<lambda>r. case status of None \<Rightarrow> True | Some s \<Rightarrow> rr_status r = s) (resell_requests d1))
           in (Inr (map (\<lambda>r. (r, profile_of d1 (rr_user_id r))) (page_rows page limit rows)), d1)))"

definition updateResellRequestStatus :: "nat \<Rightarrow> string \<Rightarrow> db \<Rightarrow> (string + resell_row) \<times> db" where
  "updateResellRequestStatus requestId status d =
     (let (err, d1) = call d in
      case err of
        Some msg \<Rightarrow> (Inl msg, d1)
      | None \<Rightarrow>
          (case filter (\<lambda>r. rr_id r = requestId) (resell_requests d1) of
             [r] \<Rightarrow> (Inr (r\<lparr>rr_status := status\<rparr>),
                     d1\<lparr>resell_requests := map (\<lambda>x. if rr_id x = requestId then x\<lparr>rr_status := status\<rparr> else x)
                                               (resell_requests d1)\<rparr>)
           | _ \<Rightarrow> (Inl single_error, d1)))"

text \<open>
  \<open>getDashboardStats\<close>: four round trips whose errors are not inspected; a failed
  one counts as 0 (\<open>count || 0\<close>, \<open>categoriesData?.length || 0\<close>).
\<close>

record dashboard_stats =
  ds_bookCount :: nat
  ds_categoryCount :: nat
  ds_orderCount :: nat
  ds_resellCount :: nat

definition count_or_zero :: "string option \<Rightarrow> nat \<Rightarrow> nat" where
  "count_or_zero err n = (case err of None \<Rightarrow> n | Some _ \<Rightarrow> 0)"

definition getDashboardStats :: "db \<Rightarrow> dashboard_stats \<times> db" where
  "getDashboardStats d =
     (let (e1, d1) = call d;
          (e2, d2) = call d1;
          (e3, d3) = call d2;
          (e4, d4) = call d3
      in (\<lparr>ds_bookCount = count_or_zero e2 (length (books d2)),
           ds_categoryCount = count_or_zero e1 (length (categories d1)),
           ds_orderCount = count_or_zero e3 (length (orders d3)),
           ds_resellCount = count_or_zero e4 (length (resell_requests d4))\<rparr>, d4))"

section \<open>The admin orders page\<close>

text \<open>
  \<open>handleStatusChange\<close> runs the mutation; the service returns its error instead of
  throwing, so \<open>onSuccess\<close> always runs and the page reports success.
\<close>

definition handleStatusChange :: "nat \<Rightarrow> order_status \<Rightarrow> db \<Rightarrow> string \<times> db" where
  "handleStatusChange orderId status d =
     (let (res, d') = updateOrderStatus orderId status d
      in (''Order status updated successfully'', d'))"

section \<open>Examples\<close>

definition delivered_order :: order_row where
  "delivered_order = \<lparr>o_id = 7, o_user_id = ''u1'', o_status = Delivered, o_total_amount = 718,
     o_shipping_address = ''12 MG Road'', o_shipping_city = ''Pune'', o_shipping_state = ''MH'',
     o_shipping_zip = ''411001'', o_shipping_country = ''India'', o_payment_method = ''Cash on Delivery''\<rparr>"

definition admin_db :: db where
  "admin_db = \<lparr>books = [], carts = [], cart_items = [], orders = [delivered_order], order_items = [],
     categories = [], profiles = [], resell_requests = [], reviews = [], testimonials = [],
     storage = [], next_id = 8, sched = []\<rparr>"

definition rank_kept :: "order_row list \<Rightarrow> order_row list \<Rightarrow> bool" where
  "rank_kept os os' \<longleftrightarrow> distinct (map o_id os')
     \<and> (\<forall>x \<in> set os. \<exists>x' \<in> set os'. o_id x' = o_id x \<and> status_rank (o_status x) \<le> status_rank (o_status x'))"

section \<open>Lemmas\<close>

inductive_cases spec_order_step_from: "spec_order_step s t"

lemma spec_order_step_rank: "spec_order_step s t \<Longrightarrow> status_rank s < status_rank t"
  by (induction rule: spec_order_step.induct) simp_all

lemma spec_order_terminal: "\<not> spec_order_step Delivered t" "\<not> spec_order_step Cancelled t"
  by (auto elim: spec_order_step_from)

lemma spec_order_reach_all: "spec_order_step\<^sup>*\<^sup>* Pending s"
proof -
  have p: "spec_order_step\<^sup>*\<^sup>* Pending Processing" by (blast intro: spec_order_step.intros)
  have sh: "spec_order_step\<^sup>*\<^sup>* Pending Shipped"
    using p spec_order_step.ship by (rule rtranclp.rtrancl_into_rtrancl)
  show ?thesis
  proof (cases s)
    case Shipped then show ?thesis using sh by simp
  next
    case Delivered then show ?thesis
      using sh spec_order_step.deliver by (simp add: rtranclp.rtrancl_into_rtrancl)
  qed (use p in \<open>auto intro: spec_order_step.intros\<close>)
qed

lemma spec_order_star_rank: "spec_order_step\<^sup>*\<^sup>* s t \<Longrightarrow> status_rank s \<le> status_rank t"
  by (induction rule: rtranclp_induct) (auto dest: spec_order_step_rank)

lemma spec_order_acyclic: "spec_order_step\<^sup>*\<^sup>* s t \<Longrightarrow> spec_order_step\<^sup>*\<^sup>* t s \<Longrightarrow> s = t"
proof -
  assume st: "spec_order_step\<^sup>*\<^sup>* s t" and ts: "spec_order_step\<^sup>*\<^sup>* t s"
  show "s = t"
  proof (cases "s = t")
    case False
    then obtain u where "spec_order_step s u" "spec_order_step\<^sup>*\<^sup>* u t"
      using st by (metis converse_rtranclpE)
    then have "status_rank s < status_rank t"
      using spec_order_step_rank spec_order_star_rank by (metis order.strict_trans2)
    then show ?thesis using spec_order_star_rank [OF ts] by simp
  qed
qed

lemma set_status_ids [simp]: "map o_id (set_status i s os) = map o_id os"
  by (induction os) (simp_all add: set_status_def)

lemma set_status_mem: "x \<in> set os \<Longrightarrow> (if o_id x = i then x\<lparr>o_status := s\<rparr> else x) \<in> set (set_status i s os)"
  by (force simp: set_status_def)

lemma spec_orders_step_rank: "spec_orders_step os os' \<Longrightarrow> rank_kept os os'"
proof (induction rule: spec_orders_step.induct)
  case (1 os r s)
  have "\<exists>x' \<in> set (set_status (o_id r) s os). o_id x' = o_id x \<and> status_rank (o_status x) \<le> status_rank (o_status x')"
    if x: "x \<in> set os" for x
  proof (cases "o_id x = o_id r")
    case True
    then have "x = r" using 1(1,2) x by (metis distinct_map inj_onD)
    then show ?thesis using set_status_mem [OF x, of "o_id r" s] True spec_order_step_rank [OF 1(3)]
      by (intro bexI [of _ "x\<lparr>o_status := s\<rparr>"]) auto
  next
    case False
    then show ?thesis using set_status_mem [OF x, of "o_id r" s] by (intro bexI [of _ x]) auto
  qed
  then show ?case using 1(1) by (simp add: rank_kept_def)
qed


lemma rank_kept_trans: "rank_kept a b \<Longrightarrow> rank_kept b c \<Longrightarrow> rank_kept a c"
proof -
  assume ab: "rank_kept a b" and bc: "rank_kept b c"
  have AB: "\<forall>x \<in> set a. \<exists>y \<in> set b. o_id y = o_id x \<and> status_rank (o_status x) \<le> status_rank (o_status y)"
    using ab unfolding rank_kept_def by (rule conjunct2)
  have BC: "\<forall>x \<in> set b. \<exists>y \<in> set c. o_id y = o_id x \<and> status_rank (o_status x) \<le> status_rank (o_status y)"
    and dc: "distinct (map o_id c)"
    using bc unfolding rank_kept_def by (rule conjunct2, rule conjunct1)
  have "\<exists>z \<in> set c. o_id z = o_id x \<and> status_rank (o_status x) \<le> status_rank (o_status z)" if x: "x \<in> set a" for x
  proof -
    from AB x obtain y where y: "y \<in> set b" "o_id y = o_id x" "status_rank (o_status x) \<le> status_rank (o_status y)"
      by blast
    from BC y(1) obtain z where z: "z \<in> set c" "o_id z = o_id y" "status_rank (o_status y) \<le> status_rank (o_status z)"
      by blast
    have "o_id z = o_id x" "status_rank (o_status x) \<le> status_rank (o_status z)"
      using y z by simp_all
    then show ?thesis using z(1) by blast
  qed
  then show ?thesis using dc by (simp add: rank_kept_def)
qed


lemma rank_kept_refl: "distinct (map o_id os) \<Longrightarrow> rank_kept os os"
  by (auto simp: rank_kept_def)

lemma spec_orders_star_rank:
  "spec_orders_step\<^sup>*\<^sup>* os os' \<Longrightarrow> distinct (map o_id os) \<Longrightarrow> rank_kept os os'"
proof (induction rule: rtranclp_induct)
  case base
  then show ?case by (rule rank_kept_refl)
next
  case (step y z)
  have "rank_kept y z" using step.hyps(2) by (rule spec_orders_step_rank)
  then show ?case by (rule rank_kept_trans [OF step.IH [OF step.prems]])
qed

lemma set_status_status:
  assumes "x \<in> set (set_status i s os)" and "o_id x = i"
  shows "o_status x = s"
proof -
  obtain y where y: "y \<in> set os" "x = (if o_id y = i then y\<lparr>o_status := s\<rparr> else y)"
    using assms(1) unfolding set_status_def by auto
  show ?thesis
  proof (cases "o_id y = i")
    case True then show ?thesis using y(2) by simp
  next
    case False then show ?thesis using y(2) assms(2) by simp
  qed
qed

lemma updateOrderStatus_ok:
  assumes "distinct (map o_id (orders d))" and "r \<in> set (orders d)" and "fst (call d) = None"
  shows "updateOrderStatus (o_id r) s d =
     (Inr (r\<lparr>o_status := s\<rparr>), (snd (call d))\<lparr>orders := set_status (o_id r) s (orders d)\<rparr>)"
proof -
  obtain d1 where c: "call d = (None, d1)" using assms(3) by (cases "call d") auto
  have o: "orders d1 = orders d" using c by (auto dest: call_tables)
  have "filter (\<lambda>x. o_id x = o_id r) (orders d) = [r]"
    using assms(1,2) by (rule filter_key_single_mem)
  then show ?thesis using c o by (simp add: updateOrderStatus_def)
qed

section \<open>Properties\<close>

text \<open>
  C40. \<open>updateOrderStatus\<close> implements every transition of the specified lifecycle
  (it simulates each step of the lifecycle on the orders table), but it has no
  guard: it performs any change of status, and a change that moves an order back
  (delivered or cancelled to pending, shipped to processing, ...) yields a table
  that no sequence of lifecycle steps can reach.
\<close>

theorem updateOrderStatus_lifecycle:
  assumes "distinct (map o_id (orders d))" and "r \<in> set (orders d)" and "fst (call d) = None"
  shows "fst (updateOrderStatus (o_id r) s d) = Inr (r\<lparr>o_status := s\<rparr>)
    \<and> (spec_order_step (o_status r) s \<longrightarrow>
         spec_orders_step (orders d) (orders (snd (updateOrderStatus (o_id r) s d))))
    \<and> (status_rank s < status_rank (o_status r) \<longrightarrow>
         \<not> spec_orders_step\<^sup>*\<^sup>* (orders d) (orders (snd (updateOrderStatus (o_id r) s d))))"
proof -
  let ?os' = "set_status (o_id r) s (orders d)"
  have u: "updateOrderStatus (o_id r) s d = (Inr (r\<lparr>o_status := s\<rparr>), (snd (call d))\<lparr>orders := ?os'\<rparr>)"
    using assms by (rule updateOrderStatus_ok)
  have sim: "spec_order_step (o_status r) s \<Longrightarrow> spec_orders_step (orders d) ?os'"
    using assms(1,2) by (rule spec_orders_step.intros)
  have no: "\<not> spec_orders_step\<^sup>*\<^sup>* (orders d) ?os'" if lt: "status_rank s < status_rank (o_status r)"
  proof
    assume "spec_orders_step\<^sup>*\<^sup>* (orders d) ?os'"
    then have "rank_kept (orders d) ?os'" using assms(1) by (rule spec_orders_star_rank)
    then have "\<forall>x \<in> set (orders d). \<exists>x' \<in> set ?os'. o_id x' = o_id x \<and> status_rank (o_status x) \<le> status_rank (o_status x')"
      unfolding rank_kept_def by (rule conjunct2)
    then obtain x' where x': "x' \<in> set ?os'" "o_id x' = o_id r" "status_rank (o_status r) \<le> status_rank (o_status x')"
      using assms(2) by blast
    have "o_status x' = s" using x'(1,2) by (rule set_status_status)
    then show False using lt x'(3) by simp
  qed
  show ?thesis using u sim no by simp
qed

section \<open>Witnesses\<close>

theorem updateOrderStatus_lifecycle_witness:
  "fst (updateOrderStatus 7 Pending admin_db) = Inr (delivered_order\<lparr>o_status := Pending\<rparr>)
   \<and> \<not> spec_orders_step\<^sup>*\<^sup>* (orders admin_db) (orders (snd (updateOrderStatus 7 Pending admin_db)))"
proof -
  have h1: "distinct (map o_id (orders admin_db))" by (simp add: admin_db_def)
  have h2: "delivered_order \<in> set (orders admin_db)" by (simp add: admin_db_def)
  have h3: "fst (call admin_db) = None" by (simp add: admin_db_def call_def)
  have i: "o_id delivered_order = 7" "o_status delivered_order = Delivered" by (simp_all add: delivered_order_def)
  show ?thesis using updateOrderStatus_lifecycle [OF h1 h2 h3, of Pending] i by simp
qed

end
