(* ===== verification/UserService.thy ===== *)
theory UserService
  imports JsObject Catalog
begin

text \<open>
  \<open>src/services/userService.ts\<close>: profiles (read, partial update, the admin list),
  resell requests with their image uploads, and reviews with the book rating they
  maintain. Every request is one \<^const>\<open>call\<close>; a thrown or returned error becomes the
  \<open>Inl\<close> message the service returns. The lemmas show that a resell request is
  rejected whatever it holds, that a review keeps the book's rating equal to the
  average of its reviews, and that one failed lookup is enough to create a second
  review of the same book by the same user.
\<close>

section \<open>Profiles\<close>

definition single_row_msg :: string where
  "single_row_msg = ''JSON object requested, multiple (or no) rows returned''"

text \<open>\<open>getUserProfile(userId)\<close>: \<open>select("*").eq("id", userId).single()\<close>.\<close>

definition getUserProfile :: "string \<Rightarrow> db \<Rightarrow> (string + profile_row) \<times> db" where
  "getUserProfile userId d =
     (let (err, d1) = call d in
      case err of
        Some msg \<Rightarrow> (Inl msg, d1)
      | None \<Rightarrow>
          (case filter (\<lambda>p. p_id p = userId) (profiles d1) of
             [p] \<Rightarrow> (Inr p, d1)
           | _ \<Rightarrow> (Inl single_row_msg, d1)))"

text \<open>
  The optional fields of \<open>profileData\<close>; an absent key is \<open>None\<close> and leaves its column
  alone. The parameter's type names four fields, but the object is sent as it is, and
  the profile page's object also carries \<open>email\<close>, a column of \<open>profiles\<close>.
\<close>

record profile_update =
  pu_first_name :: "string option"
  pu_last_name :: "string option"
  pu_phone :: "string option"
  pu_address :: "string option"
  pu_email :: "string option"

definition apply_profile_update :: "profile_update \<Rightarrow> profile_row \<Rightarrow> profile_row" where
  "apply_profile_update u p =
     p\<lparr>p_first_name := (case pu_first_name u of None \<Rightarrow> p_first_name p | Some v \<Rightarrow> Some v),
       p_last_name := (case pu_last_name u of None \<Rightarrow> p_last_name p | Some v \<Rightarrow> Some v),
       p_phone := (case pu_phone u of None \<Rightarrow> p_phone p | Some v \<Rightarrow> Some v),
       p_address := (case pu_address u of None \<Rightarrow> p_address p | Some v \<Rightarrow> Some v),
       p_email := (case pu_email u of None \<Rightarrow> p_email p | Some v \<Rightarrow> Some v)\<rparr>"

text \<open>
  \<open>updateUserProfile(userId, profileData)\<close>: \<open>update(profileData).eq("id", userId)
  .select().single()\<close>. A result that is not exactly one row fails the request and its
  update is rolled back.
\<close>

definition updateUserProfile :: "string \<Rightarrow> profile_update \<Rightarrow> db \<Rightarrow> (string + profile_row) \<times> db" where
  "updateUserProfile userId u d =
     (let (err, d1) = call d in
      case err of
        Some msg \<Rightarrow> (Inl msg, d1)
      | None \<Rightarrow>
          (case filter (\<lambda>p. p_id p = userId) (profiles d1) of
             [p] \<Rightarrow> (Inr (apply_profile_update u p),
                     d1\<lparr>profiles := map (\<lambda>q. if p_id q = userId then apply_profile_update u q else q) (profiles d1)\<rparr>)
           | _ \<Rightarrow> (Inl single_row_msg, d1)))"

text \<open>\<open>getUserProfiles()\<close>: every profile, \<open>order("created_at", {ascending: false})\<close>.\<close>

definition getUserProfiles :: "db \<Rightarrow> (string + profile_row list) \<times> db" where
  "getUserProfiles d =
     (let (err, d1) = call d in
      case err of
        Some msg \<Rightarrow> (Inl msg, d1)
      | None \<Rightarrow> (Inr (order_by (\<lambda>p. nulls_high (p_created_at p)) False (profiles d1)), d1))"

section \<open>Resell requests\<close>

text \<open>
  The file a page hands to the upload: its name, MIME type, size in bytes and its
  content in the base64 text \<open>FileReader\<close> produces (the encoding is not modelled).
\<close>

record upload_file =
  f_name :: string
  f_type :: string
  f_size :: nat
  f_content :: string

text \<open>\<open>fileExt = file.name.split('.').pop()\<close>, \<open>`${id}/${id}_${index}.${fileExt}`\<close>.\<close>

definition resell_image_path :: "string \<Rightarrow> upload_file \<Rightarrow> nat \<Rightarrow> string" where
  "resell_image_path rid file index =
     (let ext = last (js_split CHR ''.'' (f_name file)) in
      rid @ ''/'' @ rid @ ''_'' @ string_of_nat index @ ''.'' @ ext)"

text \<open>
  \<open>uploadResellImage(id, file, index)\<close>: an upload with \<open>upsert: false\<close>, which fails
  when the path is taken, then the public URL of the path under the client's base URL.
\<close>

definition uploadResellImage :: "string \<Rightarrow> string \<Rightarrow> upload_file \<Rightarrow> nat \<Rightarrow> db \<Rightarrow> string option \<times> db" where
  "uploadResellImage base rid file index d =
     (let path = resell_image_path rid file index; (err, d1) = call d in
      case err of
        Some _ \<Rightarrow> (None, d1)
      | None \<Rightarrow>
          if path \<in> set (storage d1) then (None, d1)
          else (Some (base @ ''/storage/v1/object/public/resell-images/'' @ path),
                d1\<lparr>storage := storage d1 @ [path]\<rparr>))"

definition demo_user_id :: string where
  "demo_user_id = ''00000000-0000-0000-0000-000000000000''"

text \<open>The columns of \<open>resell_requests\<close> in the generated types.\<close>

definition resell_columns :: "string list" where
  "resell_columns = [''asking_price'', ''book_author'', ''book_condition'', ''book_isbn'', ''book_title'',
                     ''contact_phone'', ''created_at'', ''description'', ''id'', ''status'',
                     ''updated_at'', ''user_id'']"

definition resell_column_error :: "string \<Rightarrow> string" where
  "resell_column_error k = ''Could not find the '' @ k @ '' column of resell_requests in the schema cache''"

text \<open>The argument of \<open>submitResellRequest\<close>; an optional field left \<open>undefined\<close> is \<open>None\<close>.\<close>

record resell_params =
  sr_userId :: string
  sr_bookTitle :: string
  sr_bookAuthor :: string
  sr_bookIsbn :: "string option"
  sr_bookCondition :: string
  sr_askingPrice :: "js_value option"
  sr_description :: "string option"
  sr_contactPhone :: string
  sr_imageUrls :: "string list"

definition resell_user :: "resell_params \<Rightarrow> string" where
  "resell_user p = (if sr_userId p = [] then demo_user_id else sr_userId p)"

text \<open>The object passed to \<open>insert\<close>, as \<open>JSON.stringify\<close> sends it.\<close>

definition resell_object :: "resell_params \<Rightarrow> js_object" where
  "resell_object p =
     js_defined [(''status'', Some (JStr ''pending'')), (''book_title'', Some (JStr (sr_bookTitle p))),
                 (''book_author'', Some (JStr (sr_bookAuthor p))), (''book_isbn'', map_option JStr (sr_bookIsbn p)),
                 (''book_condition'', Some (JStr (sr_bookCondition p))), (''asking_price'', sr_askingPrice p),
                 (''description'', map_option JStr (sr_description p)),
                 (''contact_phone'', Some (JStr (sr_contactPhone p))), (''user_id'', Some (JStr (resell_user p))),
                 (''image_urls'', Some (if sr_imageUrls p = [] then JNull else JArr (map JStr (sr_imageUrls p))))]"

definition resell_row_of :: "nat \<Rightarrow> resell_params \<Rightarrow> resell_row" where
  "resell_row_of i p =
     \<lparr>rr_id = i, rr_user_id = resell_user p, rr_status = ''pending'', rr_book_title = sr_bookTitle p,
      rr_book_author = sr_bookAuthor p, rr_book_isbn = sr_bookIsbn p, rr_book_condition = sr_bookCondition p,
      rr_asking_price = js_num (sr_askingPrice p), rr_description = sr_description p,
      rr_contact_phone = sr_contactPhone p\<rparr>"

text \<open>\<open>submitResellRequest(params)\<close>: \<open>insert([object]).select().single()\<close>.\<close>

definition submitResellRequest :: "resell_params \<Rightarrow> db \<Rightarrow> (string + resell_row) \<times> db" where
  "submitResellRequest p d =
     (let (err, d1) = call d in
      case err of
        Some msg \<Rightarrow> (Inl msg, d1)
      | None \<Rightarrow>
          (case unknown_column resell_columns (resell_object p) of
             Some k \<Rightarrow> (Inl (resell_column_error k), d1)
           | None \<Rightarrow>
               (let (i, d2) = fresh_id d1; r = resell_row_of i p in
                (Inr r, d2\<lparr>resell_requests := resell_requests d2 @ [r]\<rparr>))))"

section \<open>Reviews\<close>

text \<open>
  \<open>updateBookRating(bookId)\<close>: the ratings of the book's reviews, their average and count
  written to the book. A failed read leaves the book alone, as does an empty result;
  the error of the update is ignored.
\<close>

definition rating_avg :: "review_row list \<Rightarrow> rat" where
  "rating_avg rs = of_int (sum_list (map rv_rating rs)) / of_nat (length rs)"

definition set_book_rating :: "string \<Rightarrow> review_row list \<Rightarrow> book_row list \<Rightarrow> book_row list" where
  "set_book_rating bookId rs bs =
     map (\<lambda>b. if b_id b = bookId then b\<lparr>b_rating := Some (rating_avg rs), b_reviews := Some (int (length rs))\<rparr> else b) bs"

definition updateBookRating :: "string \<Rightarrow> db \<Rightarrow> db" where
  "updateBookRating bookId d =
     (let (err, d1) = call d in
      case err of
        Some _ \<Rightarrow> d1
      | None \<Rightarrow>
          (let rs = filter (\<lambda>r. rv_book_id r = bookId) (reviews d1) in
           if rs = [] then d1
           else (let (err2, d2) = call d1 in
                 case err2 of
                   Some _ \<Rightarrow> d2
                 | None \<Rightarrow> d2\<lparr>books := set_book_rating bookId rs (books d2)\<rparr>)))"

text \<open>
  The lookup \<open>eq("user_id", u).eq("book_id", bookId).maybeSingle()\<close>: its error is not
  read, so a failed request, like two matching rows, yields \<open>null\<close>.
\<close>

definition existing_review :: "string \<Rightarrow> string \<Rightarrow> db \<Rightarrow> review_row option \<times> db" where
  "existing_review u bookId d =
     (let (err, d1) = call d in
      case err of
        Some _ \<Rightarrow> (None, d1)
      | None \<Rightarrow> (single (filter (\<lambda>r. rv_user_id r = u \<and> rv_book_id r = bookId) (reviews d1)), d1))"

definition review_update :: "int \<Rightarrow> string \<Rightarrow> review_row \<Rightarrow> review_row" where
  "review_update rating comment r = r\<lparr>rv_rating := rating, rv_comment := Some comment\<rparr>"

text \<open>
  \<open>submitReview({userId, bookId, rating, comment})\<close>: update the review found, or insert
  one (the foreign key \<open>reviews_book_id_fkey\<close> requires the book), then recompute the
  book's rating.
\<close>

definition submitReview :: "string \<Rightarrow> string \<Rightarrow> int \<Rightarrow> string \<Rightarrow> db \<Rightarrow> (string + review_row) \<times> db" where
  "submitReview userId bookId rating comment d =
     (let u = (if userId = [] then demo_user_id else userId);
          (ex, d0) = existing_review u bookId d in
      case ex of
        Some e \<Rightarrow>
          (let (err, d1) = call d0 in
           case err of
             Some msg \<Rightarrow> (Inl msg, d1)
           | None \<Rightarrow>
               (case filter (\<lambda>r. rv_id r = rv_id e) (reviews d1) of
                  [r] \<Rightarrow>
                    (Inr (review_update rating comment r),
                     updateBookRating bookId
                       (d1\<lparr>reviews := map (\<lambda>x. if rv_id x = rv_id e then review_update rating comment x else x) (reviews d1)\<rparr>))
                | _ \<Rightarrow> (Inl single_row_msg, d1)))
      | None \<Rightarrow>
          (let (err, d1) = call d0 in
           case err of
             Some msg \<Rightarrow> (Inl msg, d1)
           | None \<Rightarrow>
               if bookId \<notin> b_id ` set (books d1)
               then (Inl ''insert or update on table reviews violates foreign key constraint reviews_book_id_fkey'', d1)
               else
                 (let (i, d2) = fresh_id d1;
                      r = \<lparr>rv_id = i, rv_user_id = u, rv_book_id = bookId, rv_rating = rating, rv_comment = Some comment\<rparr> in
                  (Inr r, updateBookRating bookId (d2\<lparr>reviews := reviews d2 @ [r]\<rparr>)))))"

section \<open>Invariants of the reviews\<close>

text \<open>
  The code looks a review up by user and book before it writes, so it means to keep
  at most one review per pair; and \<open>updateBookRating\<close> means the book's rating and
  count to be the average and number of its reviews.
\<close>

definition review_key :: "review_row \<Rightarrow> string \<times> string" where
  "review_key r = (rv_user_id r, rv_book_id r)"

definition reviews_unique :: "db \<Rightarrow> bool" where
  "reviews_unique d \<longleftrightarrow> distinct (map review_key (reviews d))"

definition book_reviews :: "string \<Rightarrow> db \<Rightarrow> review_row list" where
  "book_reviews bookId d = filter (\<lambda>r. rv_book_id r = bookId) (reviews d)"

definition rating_consistent :: "string \<Rightarrow> db \<Rightarrow> bool" where
  "rating_consistent bookId d \<longleftrightarrow>
     (\<forall>b \<in> set (books d). b_id b = bookId \<longrightarrow>
        b_rating b = Some (rating_avg (book_reviews bookId d))
        \<and> b_reviews b = Some (int (length (book_reviews bookId d))))"

section \<open>Lemmas\<close>

lemma updateBookRating_reviews [simp]: "reviews (updateBookRating b d) = reviews d"
  by (auto simp: updateBookRating_def call_def Let_def split: prod.splits option.splits)

lemma updateBookRating_no_faults:
  "sched d = [] \<Longrightarrow>
   updateBookRating bookId d =
     (let rs = filter (\<lambda>r. rv_book_id r = bookId) (reviews d) in
      if rs = [] then d else d\<lparr>books := set_book_rating bookId rs (books d)\<rparr>)"
  by (simp add: updateBookRating_def call_Nil Let_def)

lemma review_key_filter: "(\<lambda>r. rv_user_id r = u \<and> rv_book_id r = b) = (\<lambda>r. review_key r = (u, b))"
  by (auto simp: review_key_def)

lemma review_key_update [simp]: "review_key (review_update rating comment r) = review_key r"
  by (simp add: review_key_def review_update_def)

lemma call_None_reviews: "call d = (None, d') \<Longrightarrow> reviews d' = reviews d"
  using call_tables by blast

lemma submitReview_unique:
  assumes un: "reviews_unique d" and ok: "fst (call d) = None"
  shows "reviews_unique (snd (submitReview userId bookId rating comment d))"
proof -
  define u where "u = (if userId = [] then demo_user_id else userId)"
  obtain d0 where c0: "call d = (None, d0)" using ok by (cases "call d") auto
  have r0: "reviews d0 = reviews d" using call_tables [OF c0] by simp
  define hits where "hits = filter (\<lambda>r. review_key r = (u, bookId)) (reviews d)"
  have ex: "existing_review u bookId d = (single hits, d0)"
    using c0 r0 by (simp add: existing_review_def hits_def review_key_filter)
  obtain err d1 where c1: "call d0 = (err, d1)" by (cases "call d0")
  have r1: "reviews d1 = reviews d" using call_tables [OF c1] r0 by simp
  show ?thesis
  proof (cases "single hits")
    case (Some e)
    then show ?thesis
      using un ex c1 r1 
      by (auto simp: submitReview_def u_def [symmetric] reviews_unique_def comp_if_keep_key
               split: option.splits list.splits)
  next
    case None
    have "length hits \<le> 1"
      using filter_key_at_most_one [of review_key "reviews d" "(u, bookId)"] un
      by (simp add: hits_def reviews_unique_def)
    with None have "hits = []" by (cases hits rule: single.cases) auto
    then have "(u, bookId) \<notin> set (map review_key (reviews d))"
      by (auto simp: hits_def filter_empty_conv)
    then show ?thesis
      using un ex c1 r1 None
      by (auto simp: submitReview_def u_def [symmetric] reviews_unique_def review_key_def fresh_id_def Let_def
               split: option.splits prod.splits)
  qed
qed

lemma set_book_rating_consistent:
  "rating_consistent bookId (d\<lparr>books := set_book_rating bookId (book_reviews bookId d) (books d)\<rparr>)"
  unfolding rating_consistent_def
proof (intro ballI impI)
  fix b assume b: "b \<in> set (books (d\<lparr>books := set_book_rating bookId (book_reviews bookId d) (books d)\<rparr>))"
    and i: "b_id b = bookId"
  then obtain x where "x \<in> set (books d)"
    and bx: "b = (if b_id x = bookId then x\<lparr>b_rating := Some (rating_avg (book_reviews bookId d)),
                       b_reviews := Some (int (length (book_reviews bookId d)))\<rparr> else x)"
    by (auto simp: set_book_rating_def)
  moreover have "b_id x = bookId" using i bx by (simp split: if_splits)
  ultimately show "b_rating b = Some (rating_avg (book_reviews bookId (d\<lparr>books := set_book_rating bookId (book_reviews bookId d) (books d)\<rparr>)))
        \<and> b_reviews b = Some (int (length (book_reviews bookId (d\<lparr>books := set_book_rating bookId (book_reviews bookId d) (books d)\<rparr>))))"
    by (simp add: book_reviews_def)
qed

lemma updateBookRating_consistent:
  assumes "sched d = []" and "book_reviews bookId d \<noteq> []"
  shows "rating_consistent bookId (updateBookRating bookId d)"
  using assms set_book_rating_consistent [of bookId d]
  by (simp add: updateBookRating_no_faults book_reviews_def [symmetric])

lemma updateBookRating_sched: "sched d = [] \<Longrightarrow> sched (updateBookRating bookId d) = []"
  by (simp add: updateBookRating_no_faults Let_def)

text \<open>
  C25. Over a backend that does not fail, a successful review submission leaves the
  reviewed book's rating and review count equal to the average and the number of all
  its reviews, whether the review was new or replaced the user's earlier one.
\<close>

theorem submitReview_rating:
  assumes s: "sched d = []" and ok: "fst (submitReview userId bookId rating comment d) = Inr r"
  shows "rating_consistent bookId (snd (submitReview userId bookId rating comment d))"
proof -
  define u where "u = (if userId = [] then demo_user_id else userId)"
  have ex: "existing_review u bookId d = (single (filter (\<lambda>r. rv_user_id r = u \<and> rv_book_id r = bookId) (reviews d)), d)"
    using s by (simp add: existing_review_def call_Nil)
  show ?thesis
  proof (cases "single (filter (\<lambda>r. rv_user_id r = u \<and> rv_book_id r = bookId) (reviews d))")
    case (Some e)
    then have e: "e \<in> set (reviews d)" "rv_book_id e = bookId" using filter_eq_single_mem by fastforce+
    obtain x where x: "filter (\<lambda>r. rv_id r = rv_id e) (reviews d) = [x]"
      using ok s ex Some by (auto simp: submitReview_def u_def [symmetric] call_Nil split: list.splits)
    let ?d1 = "d\<lparr>reviews := map (\<lambda>y. if rv_id y = rv_id e then review_update rating comment y else y) (reviews d)\<rparr>"
    have m: "review_update rating comment e \<in> set (reviews ?d1)" using e by auto
    have "rv_book_id (review_update rating comment e) = bookId" using e(2) by (simp add: review_update_def)
    with m have "book_reviews bookId ?d1 \<noteq> []"
      unfolding book_reviews_def filter_empty_conv by blast
    then have "rating_consistent bookId (updateBookRating bookId ?d1)"
      using s by (simp add: updateBookRating_consistent)
    then show ?thesis using s ex Some x by (simp add: submitReview_def u_def [symmetric] call_Nil)
  next
    case None
    let ?r = "\<lparr>rv_id = next_id d, rv_user_id = u, rv_book_id = bookId, rv_rating = rating, rv_comment = Some comment\<rparr>"
    let ?d2 = "d\<lparr>next_id := Suc (next_id d), reviews := reviews d @ [?r]\<rparr>"
    have b: "bookId \<in> b_id ` set (books d)"
      using ok s ex None by (auto simp: submitReview_def u_def [symmetric] call_Nil split: if_splits)
    have "book_reviews bookId ?d2 \<noteq> []" by (simp add: book_reviews_def)
    then have "rating_consistent bookId (updateBookRating bookId ?d2)"
      using s by (simp add: updateBookRating_consistent)
    then show ?thesis using s ex None b by (simp add: submitReview_def u_def [symmetric] call_Nil fresh_id_def Let_def)
  qed
qed

lemma resell_object_unknown: "unknown_column resell_columns (resell_object p) = Some ''image_urls''"
  by (simp add: resell_object_def js_defined_def unknown_column_def resell_columns_def split: option.splits)

lemma submitResellRequest_eq:
  "submitResellRequest p d =
     (Inl (case fst (call d) of Some msg \<Rightarrow> msg | None \<Rightarrow> resell_column_error ''image_urls''), snd (call d))"
  by (simp add: submitResellRequest_def resell_object_unknown split: prod.splits option.splits)

lemma submitReview_lookup_failed:
  assumes s: "sched d = Some e # None # rest" and b: "bookId \<in> b_id ` set (books d)"
    and u: "userId \<noteq> []"
  shows "reviews (snd (submitReview userId bookId rating comment d)) =
           reviews d @ [\<lparr>rv_id = next_id d, rv_user_id = userId, rv_book_id = bookId, rv_rating = rating,
                        rv_comment = Some comment\<rparr>]"
  using s b u by (simp add: submitReview_def existing_review_def call_def fresh_id_def Let_def)

lemma updateUserProfile_roundtrip:
  assumes dist: "distinct (map p_id (profiles d))" and p: "p \<in> set (profiles d)"
    and s: "sched d = []"
  shows "updateUserProfile (p_id p) u d = (Inr (apply_profile_update u p), snd (updateUserProfile (p_id p) u d))
         \<and> fst (getUserProfile (p_id p) (snd (updateUserProfile (p_id p) u d))) = Inr (apply_profile_update u p)"
proof -
  have f: "filter (\<lambda>q. p_id q = p_id p) (profiles d) = [p]" using filter_key_single_mem [OF dist p] .
  let ?ps = "map (\<lambda>q. if p_id q = p_id p then apply_profile_update u q else q) (profiles d)"
  have k: "p_id \<circ> (\<lambda>q. if p_id q = p_id p then apply_profile_update u q else q) = p_id"
    by (rule comp_if_keep_key) (simp add: apply_profile_update_def)
  have dist': "distinct (map p_id ?ps)" using dist by (simp add: k)
  have mem: "apply_profile_update u p \<in> set ?ps" using p by auto
  have "p_id (apply_profile_update u p) = p_id p" by (simp add: apply_profile_update_def)
  then have f': "filter (\<lambda>q. p_id q = p_id p) ?ps = [apply_profile_update u p]"
    using filter_key_single_mem [OF dist' mem] by simp
  show ?thesis using s f f' by (simp add: updateUserProfile_def getUserProfile_def call_Nil)
qed

lemma uploadResellImage_tables: "tables (snd (uploadResellImage base rid f i d)) = tables d"
  by (auto simp: uploadResellImage_def call_def tables_def Let_def split: prod.splits option.splits)

lemma submitReview_rating_witness:
  "sched catalog_db = []
   \<and> fst (submitReview ''u1'' ''b2'' 4 ''Clear'' catalog_db)
       = Inr \<lparr>rv_id = 0, rv_user_id = ''u1'', rv_book_id = ''b2'', rv_rating = 4, rv_comment = Some ''Clear''\<rparr>
   \<and> rating_consistent ''b2'' (snd (submitReview ''u1'' ''b2'' 4 ''Clear'' catalog_db))"
proof -
  have s: "sched catalog_db = []" by (simp add: catalog_db_def)
  have r: "fst (submitReview ''u1'' ''b2'' 4 ''Clear'' catalog_db)
       = Inr \<lparr>rv_id = 0, rv_user_id = ''u1'', rv_book_id = ''b2'', rv_rating = 4, rv_comment = Some ''Clear''\<rparr>"
    by (simp add: submitReview_def existing_review_def catalog_db_def sample_book_def call_Nil fresh_id_def Let_def)
  show ?thesis using submitReview_rating [OF s r] s r by simp
qed

end
