(* ===== verification/ResellPage.thy ===== *)
theory ResellPage
  imports UserService
begin

text \<open>
  \<open>src/pages/ResellPage.tsx\<close>: the three-step wizard in which a user describes a book,
  attaches up to five photos and submits a resell request. The page state is a record;
  every handler is a function on it, and the reads the \<open>FileReader\<close> completes
  asynchronously are a separate event, so that a second selection may come before the
  previews of the first have loaded. The reachable states are an inductive predicate.
\<close>

datatype toast_msg = ToastSuccess string | ToastError string

text \<open>\<open>bookInfo\<close>; every key the page reads is one of these nine strings.\<close>

record resell_info =
  ri_title :: string
  ri_author :: string
  ri_publisher :: string
  ri_isbn :: string
  ri_condition :: string
  ri_category :: string
  ri_description :: string
  ri_askingPrice :: string
  ri_contactPhone :: string

definition empty_resell_info :: resell_info where
  "empty_resell_info =
     \<lparr>ri_title = [], ri_author = [], ri_publisher = [], ri_isbn = [], ri_condition = [], ri_category = [],
      ri_description = [], ri_askingPrice = [], ri_contactPhone = []\<rparr>"

text \<open>
  \<open>setBookInfo(prev => ({...prev, [name]: value}))\<close>. A name that is not one of the nine
  adds a key no code reads, so it leaves the modelled fields alone.
\<close>

definition set_resell_info :: "string \<Rightarrow> string \<Rightarrow> resell_info \<Rightarrow> resell_info" where
  "set_resell_info name value info =
     (if name = ''title'' then info\<lparr>ri_title := value\<rparr>
      else if name = ''author'' then info\<lparr>ri_author := value\<rparr>
      else if name = ''publisher'' then info\<lparr>ri_publisher := value\<rparr>
      else if name = ''isbn'' then info\<lparr>ri_isbn := value\<rparr>
      else if name = ''condition'' then info\<lparr>ri_condition := value\<rparr>
      else if name = ''category'' then info\<lparr>ri_category := value\<rparr>
      else if name = ''description'' then info\<lparr>ri_description := value\<rparr>
      else if name = ''askingPrice'' then info\<lparr>ri_askingPrice := value\<rparr>
      else if name = ''contactPhone'' then info\<lparr>ri_contactPhone := value\<rparr>
      else info)"

text \<open>
  The page state: \<open>step\<close>, \<open>bookInfo\<close>, the previews \<open>images\<close> (data URLs), the files
  \<open>imageFiles\<close>, the reads started and not yet loaded, \<open>imgLoading\<close>, \<open>uploadError\<close> and
  the last toast.
\<close>

record resell_page =
  rs_step :: int
  rs_bookInfo :: resell_info
  rs_images :: "string list"
  rs_imageFiles :: "upload_file list"
  rs_reading :: "upload_file list"
  rs_imgLoading :: bool
  rs_uploadError :: "string option"
  rs_toast :: "toast_msg option"

definition initial_resell_page :: resell_page where
  "initial_resell_page =
     \<lparr>rs_step = 1, rs_bookInfo = empty_resell_info, rs_images = [], rs_imageFiles = [], rs_reading = [],
      rs_imgLoading = False, rs_uploadError = None, rs_toast = None\<rparr>"

text \<open>\<open>handleChange\<close> and \<open>handleSelectChange\<close>: the same update of \<open>bookInfo\<close>.\<close>

definition resell_handleChange :: "string \<Rightarrow> string \<Rightarrow> resell_page \<Rightarrow> resell_page" where
  "resell_handleChange name value st = st\<lparr>rs_bookInfo := set_resell_info name value (rs_bookInfo st)\<rparr>"

text \<open>What \<open>readAsDataURL\<close> yields for a file.\<close>

definition data_url :: "upload_file \<Rightarrow> string" where
  "data_url f = ''data:'' @ f_type f @ '';base64,'' @ f_content f"

definition file_ok :: "upload_file \<Rightarrow> bool" where
  "file_ok f \<longleftrightarrow> prefix ''image/'' (f_type f) \<and> f_size f \<le> 5 * 1024 * 1024"

text \<open>
  \<open>handleFileChange\<close>: nothing for an empty selection; a toast when the previews and the
  selection together pass five; otherwise a read is started for each file up to the
  first one that is not an image or is over 5 MB, whose error ends the loop.
\<close>

definition handleFileChange :: "upload_file list \<Rightarrow> resell_page \<Rightarrow> resell_page" where
  "handleFileChange files st =
     (if files = [] then st
      else if 5 < length (rs_images st) + length files
      then st\<lparr>rs_toast := Some (ToastError ''Maximum 5 images allowed'')\<rparr>
      else
        (let st1 = st\<lparr>rs_reading := rs_reading st @ takeWhile file_ok files, rs_imgLoading := False\<rparr> in
         case dropWhile file_ok files of
           [] \<Rightarrow> st1\<lparr>rs_uploadError := None\<rparr>
         | f # _ \<Rightarrow>
             st1\<lparr>rs_uploadError :=
                   Some (if prefix ''image/'' (f_type f) then ''Image size must be less than 5MB''
                         else ''Only image files are allowed'')\<rparr>))"

text \<open>\<open>reader.onload\<close> of the \<open>i\<close>-th pending read: the preview and the file are appended.\<close>

definition fileLoaded :: "nat \<Rightarrow> resell_page \<Rightarrow> resell_page" where
  "fileLoaded i st =
     (if i < length (rs_reading st)
      then (let f = rs_reading st ! i in
            st\<lparr>rs_images := rs_images st @ [data_url f], rs_imageFiles := rs_imageFiles st @ [f],
               rs_reading := take i (rs_reading st) @ drop (Suc i) (rs_reading st)\<rparr>)
      else st)"

text \<open>\<open>prev.filter((_, i) => i !== index)\<close>.\<close>

definition remove_index :: "nat \<Rightarrow> 'a list \<Rightarrow> 'a list" where
  "remove_index k xs = map fst (filter (\<lambda>(_, j). j \<noteq> k) (zip xs [0..<length xs]))"

definition removeImage :: "nat \<Rightarrow> resell_page \<Rightarrow> resell_page" where
  "removeImage k st =
     st\<lparr>rs_images := remove_index k (rs_images st), rs_imageFiles := remove_index k (rs_imageFiles st)\<rparr>"

definition nextStep :: "resell_page \<Rightarrow> resell_page" where
  "nextStep st = st\<lparr>rs_step := rs_step st + 1\<rparr>"

definition prevStep :: "resell_page \<Rightarrow> resell_page" where
  "prevStep st = st\<lparr>rs_step := rs_step st - 1\<rparr>"

definition isFormValid :: "resell_page \<Rightarrow> bool" where
  "isFormValid st =
     (let b = rs_bookInfo st in
      if rs_step st = 1 then ri_title b \<noteq> [] \<and> ri_author b \<noteq> [] \<and> ri_condition b \<noteq> [] \<and> ri_category b \<noteq> []
                             \<and> ri_contactPhone b \<noteq> []
      else if rs_step st = 2 then rs_images st \<noteq> []
      else if rs_step st = 3 then ri_askingPrice b \<noteq> []
      else True)"

text \<open>\<open>Promise.all(imageFiles.map((file, index) => uploadResellImage(id, file, index)))\<close>, one upload after the other.\<close>

fun upload_all :: "string \<Rightarrow> string \<Rightarrow> nat \<Rightarrow> upload_file list \<Rightarrow> db \<Rightarrow> string option list \<times> db" where
  "upload_all base rid i [] d = ([], d)"
| "upload_all base rid i (f # fs) d =
     (let (u, d1) = uploadResellImage base rid f i d; (us, d2) = upload_all base rid (Suc i) fs d1 in (u # us, d2))"

text \<open>The argument the page passes to \<open>submitResellRequest\<close>.\<close>

definition resell_params_of :: "string \<Rightarrow> string list \<Rightarrow> resell_info \<Rightarrow> resell_params" where
  "resell_params_of uid urls b =
     \<lparr>sr_userId = uid, sr_bookTitle = ri_title b, sr_bookAuthor = ri_author b, sr_bookIsbn = Some (ri_isbn b),
      sr_bookCondition = ri_condition b,
      sr_askingPrice = (if ri_askingPrice b \<noteq> [] then Some (js_opt JNum (parseFloat (ri_askingPrice b))) else None),
      sr_description = Some (ri_description b),
      sr_contactPhone = (if ri_contactPhone b \<noteq> [] then ri_contactPhone b else ''Not provided''),
      sr_imageUrls = urls\<rparr>"

text \<open>
  \<open>submitResellRequestWithImages\<close>: the signed-in user (\<open>None\<close> when signed out), the
  fresh \<open>uuidv4()\<close> and the client's base URL are its inputs. The uploads come first;
  a failed one is dropped from the URLs. On success the form is reset.
\<close>

definition submitResellRequestWithImages ::
  "string option \<Rightarrow> string \<Rightarrow> string \<Rightarrow> resell_page \<Rightarrow> db \<Rightarrow> resell_page \<times> db" where
  "submitResellRequestWithImages user rid base st d =
     (case user of
        None \<Rightarrow> (st\<lparr>rs_toast := Some (ToastError ''Please log in to submit a resell request'')\<rparr>, d)
      | Some uid \<Rightarrow>
          (let (us, d1) = (if rs_imageFiles st = [] then ([], d) else upload_all base rid 0 (rs_imageFiles st) d);
               (r, d2) = submitResellRequest (resell_params_of uid [u. Some u \<leftarrow> us] (rs_bookInfo st)) d1 in
           case r of
             Inl e \<Rightarrow> (st\<lparr>rs_toast := Some (ToastError (''Failed to submit: '' @ e))\<rparr>, d2)
           | Inr _ \<Rightarrow>
               (st\<lparr>rs_toast := Some (ToastSuccess ''Resell request submitted successfully!''), rs_step := 1,
                   rs_bookInfo := empty_resell_info, rs_images := [], rs_imageFiles := []\<rparr>, d2)))"

text \<open>The states the page can reach, one rule per handler.\<close>

inductive resell_reachable :: "resell_page \<Rightarrow> bool" where
  init: "resell_reachable initial_resell_page"
| change: "resell_reachable st \<Longrightarrow> resell_reachable (resell_handleChange name value st)"
| files: "resell_reachable st \<Longrightarrow> resell_reachable (handleFileChange fs st)"
| loaded: "resell_reachable st \<Longrightarrow> resell_reachable (fileLoaded i st)"
| remove: "resell_reachable st \<Longrightarrow> resell_reachable (removeImage k st)"
| next_step: "resell_reachable st \<Longrightarrow> resell_reachable (nextStep st)"
| prev_step: "resell_reachable st \<Longrightarrow> resell_reachable (prevStep st)"
| submit: "resell_reachable st \<Longrightarrow> resell_reachable (fst (submitResellRequestWithImages user rid base st d))"

section \<open>A run with six photos\<close>

text \<open>
  Two selections of three photos, the second made before the previews of the first
  have loaded: the check of \<open>handleFileChange\<close> counts only the loaded previews.
\<close>

definition sample_photo :: upload_file where
  "sample_photo = \<lparr>f_name = ''cover.jpg'', f_type = ''image/jpeg'', f_size = 1024, f_content = ''AAAA''\<rparr>"

definition six_photo_run :: resell_page where
  "six_photo_run = fileLoaded 0 (fileLoaded 0 (fileLoaded 0 (fileLoaded 0 (fileLoaded 0 (fileLoaded 0
     (handleFileChange [sample_photo, sample_photo, sample_photo]
       (handleFileChange [sample_photo, sample_photo, sample_photo] initial_resell_page)))))))"

definition resell_db :: db where
  "resell_db =
     \<lparr>books = [], carts = [], cart_items = [], orders = [], order_items = [], categories = [], profiles = [],
      resell_requests = [], reviews = [], testimonials = [], storage = [], next_id = 0, sched = []\<rparr>"

section \<open>Lemmas\<close>

lemma remove_index_map: "remove_index k (map f xs) = map f (remove_index k xs)"
  by (simp add: remove_index_def zip_map1 filter_map comp_def split_def)

lemma resell_previews_match:
  "resell_reachable st \<Longrightarrow> rs_images st = map data_url (rs_imageFiles st)"
proof (induction rule: resell_reachable.induct)
  case init
  then show ?case by (simp add: initial_resell_page_def)
next
  case (loaded st i)
  then show ?case by (simp add: fileLoaded_def Let_def)
next
  case (remove st k)
  then show ?case by (simp add: removeImage_def remove_index_map)
next
  case (submit st user rid base d)
  then show ?case
    by (auto simp: submitResellRequestWithImages_def split: option.splits prod.splits sum.splits)
qed (simp_all add: resell_handleChange_def handleFileChange_def nextStep_def prevStep_def Let_def
                split: list.splits)

lemma handleFileChange_bound:
  assumes "rs_reading st = []" and "length (rs_images st) \<le> 5"
  shows "length (rs_images (handleFileChange fs st)) + length (rs_reading (handleFileChange fs st)) \<le> 5"
proof -
  have "length (takeWhile file_ok fs) \<le> length fs" by (rule length_takeWhile_le)
  then show ?thesis using assms by (auto simp: handleFileChange_def Let_def split: list.splits)
qed

lemma fileLoaded_count:
  "length (rs_images (fileLoaded i st)) + length (rs_reading (fileLoaded i st))
   = length (rs_images st) + length (rs_reading st)"
  by (auto simp: fileLoaded_def Let_def)

lemma upload_all_Cons_eq:
  "uploadResellImage base rid f i d = (u, d1) \<Longrightarrow> upload_all base rid (Suc i) fs d1 = (us, d2) \<Longrightarrow>
   upload_all base rid i (f # fs) d = (u # us, d2)"
  by simp

lemma upload_all_tables: "tables (snd (upload_all base rid i fs d)) = tables d"
proof (induction fs arbitrary: i d)
  case Nil
  then show ?case by simp
next
  case (Cons f fs)
  obtain u d1 where u: "uploadResellImage base rid f i d = (u, d1)" by (cases "uploadResellImage base rid f i d")
  obtain us d2 where r: "upload_all base rid (Suc i) fs d1 = (us, d2)" by (cases "upload_all base rid (Suc i) fs d1")
  have "tables d1 = tables d" using uploadResellImage_tables [of base rid f i d] u by simp
  then show ?case using Cons.IH [of "Suc i" d1] upload_all_Cons_eq [OF u r] r by simp
qed

lemma upload_all_storage:
  "sched d = [] \<Longrightarrow>
   set (storage (snd (upload_all base rid i fs d))) = set (storage d) \<union> set (map2 (resell_image_path rid) fs [i..<i + length fs])
   \<and> sched (snd (upload_all base rid i fs d)) = []"
proof (induction fs arbitrary: i d)
  case Nil
  then show ?case by simp
next
  case (Cons f fs)
  let ?p = "resell_image_path rid f i"
  obtain u d1 where u: "uploadResellImage base rid f i d = (u, d1)" by (cases "uploadResellImage base rid f i d")
  obtain us d2 where r: "upload_all base rid (Suc i) fs d1 = (us, d2)" by (cases "upload_all base rid (Suc i) fs d1")
  have d1: "set (storage d1) = insert ?p (set (storage d)) \<and> sched d1 = []"
    using u Cons.prems by (auto simp: uploadResellImage_def call_Nil Let_def split: if_splits)
  have d2: "set (storage d2) = set (storage d1) \<union> set (map2 (resell_image_path rid) fs [Suc i..<Suc i + length fs])
            \<and> sched d2 = []"
    using Cons.IH [of d1 "Suc i"] d1 r by (simp del: upt_Suc)
  show ?case using upload_all_Cons_eq [OF u r] d1 d2 by (simp add: upt_conv_Cons del: upt_Suc upload_all.simps)
qed

lemma fileLoaded_first:
  "rs_reading st = f # fs \<Longrightarrow>
   fileLoaded 0 st = st\<lparr>rs_images := rs_images st @ [data_url f], rs_imageFiles := rs_imageFiles st @ [f], rs_reading := fs\<rparr>"
  by (simp add: fileLoaded_def)

lemma sample_photo_ok: "file_ok sample_photo"
  by (simp add: file_ok_def sample_photo_def)

lemma six_photo_run_reachable: "resell_reachable six_photo_run"
  unfolding six_photo_run_def by (intro resell_reachable.intros)

lemma six_photo_run_images: "length (rs_images six_photo_run) = 6"
proof -
  let ?p = sample_photo
  have a: "rs_images (handleFileChange [?p, ?p, ?p] initial_resell_page) = []
           \<and> rs_reading (handleFileChange [?p, ?p, ?p] initial_resell_page) = [?p, ?p, ?p]"
    by (simp add: handleFileChange_def initial_resell_page_def sample_photo_ok)
  then have b: "rs_images (handleFileChange [?p, ?p, ?p] (handleFileChange [?p, ?p, ?p] initial_resell_page)) = []
           \<and> rs_reading (handleFileChange [?p, ?p, ?p] (handleFileChange [?p, ?p, ?p] initial_resell_page)) = [?p, ?p, ?p, ?p, ?p, ?p]"
    by (simp add: handleFileChange_def Let_def sample_photo_ok)
  then show ?thesis by (simp add: six_photo_run_def fileLoaded_first)
qed

text \<open>
  C6. A signed-in user's resell submission never succeeds: over a backend that does not
  fail, the request is refused for its \<open>image_urls\<close> key, the page shows
  "Failed to submit" and keeps the form, and no table changes, yet every attached photo
  has been uploaded to the storage bucket.
\<close>

theorem resell_submission_rejected:
  assumes s: "sched d = []"
  shows "submitResellRequestWithImages (Some uid) rid base st d =
           (st\<lparr>rs_toast := Some (ToastError (''Failed to submit: '' @ resell_column_error ''image_urls''))\<rparr>,
            snd (upload_all base rid 0 (rs_imageFiles st) d))
         \<and> tables (snd (upload_all base rid 0 (rs_imageFiles st) d)) = tables d
         \<and> set (storage (snd (upload_all base rid 0 (rs_imageFiles st) d)))
             = set (storage d) \<union> set (map2 (resell_image_path rid) (rs_imageFiles st) [0..<length (rs_imageFiles st)])"
proof -
  obtain us d1 where u: "upload_all base rid 0 (rs_imageFiles st) d = (us, d1)"
    by (cases "upload_all base rid 0 (rs_imageFiles st) d")
  have d1: "sched d1 = []" using upload_all_storage [OF s, of base rid 0 "rs_imageFiles st"] u by simp
  have "submitResellRequestWithImages (Some uid) rid base st d =
          (st\<lparr>rs_toast := Some (ToastError (''Failed to submit: '' @ resell_column_error ''image_urls''))\<rparr>, d1)"
    using u d1 s by (cases "rs_imageFiles st = []") (simp_all add: submitResellRequestWithImages_def submitResellRequest_eq call_Nil)
  then show ?thesis using u upload_all_tables [of base rid 0 "rs_imageFiles st" d]
      upload_all_storage [OF s, of base rid 0 "rs_imageFiles st"] by simp
qed

lemma resell_submission_rejected_witness:
  "sched resell_db = []
   \<and> fst (submitResellRequestWithImages (Some ''u1'') ''r1'' ''https://abookwallah.supabase.co'' six_photo_run resell_db)
       = six_photo_run\<lparr>rs_toast := Some (ToastError (''Failed to submit: '' @ resell_column_error ''image_urls''))\<rparr>"
proof -
  have s: "sched resell_db = []" by (simp add: resell_db_def)
  show ?thesis
    using resell_submission_rejected [OF s, of "''u1''" "''r1''" "''https://abookwallah.supabase.co''" six_photo_run] s by simp
qed

lemma fileLoaded_all:
  "rs_reading st = xs \<Longrightarrow>
   (fileLoaded 0 ^^ length xs) st
     = st\<lparr>rs_images := rs_images st @ map data_url xs, rs_imageFiles := rs_imageFiles st @ xs, rs_reading := []\<rparr>"
proof (induction xs arbitrary: st)
  case Nil
  then show ?case by simp
next
  case (Cons f fs)
  let ?st1 = "fileLoaded 0 st"
  have s1: "?st1 = st\<lparr>rs_images := rs_images st @ [data_url f], rs_imageFiles := rs_imageFiles st @ [f], rs_reading := fs\<rparr>"
    using Cons.prems by (rule fileLoaded_first)
  then have "rs_reading ?st1 = fs" by simp
  then have "(fileLoaded 0 ^^ length fs) ?st1
     = ?st1\<lparr>rs_images := rs_images ?st1 @ map data_url fs, rs_imageFiles := rs_imageFiles ?st1 @ fs, rs_reading := []\<rparr>"
    by (rule Cons.IH)
  then show ?case using s1 by (simp add: funpow_Suc_right del: funpow.simps)
qed

lemma resell_reachable_funpow: "resell_reachable st \<Longrightarrow> resell_reachable ((fileLoaded i ^^ n) st)"
  by (induction n) (auto intro: resell_reachable.loaded)

text \<open>
  C27. Every photo whose read has started eventually becomes a preview: from any state
  the page can reach, loading the pending reads one by one is a run of the page that
  ends with none pending, every pending file appended to \<open>imageFiles\<close> in order, and
  each preview the data URL of its file.
\<close>

theorem resell_reads_complete:
  assumes r: "resell_reachable st"
  shows "resell_reachable ((fileLoaded 0 ^^ length (rs_reading st)) st)
       \<and> rs_reading ((fileLoaded 0 ^^ length (rs_reading st)) st) = []
       \<and> rs_imageFiles ((fileLoaded 0 ^^ length (rs_reading st)) st) = rs_imageFiles st @ rs_reading st
       \<and> rs_images ((fileLoaded 0 ^^ length (rs_reading st)) st) = map data_url (rs_imageFiles st @ rs_reading st)"
proof -
  let ?t = "(fileLoaded 0 ^^ length (rs_reading st)) st"
  have a: "resell_reachable ?t" by (rule resell_reachable_funpow [OF r])
  have e: "?t = st\<lparr>rs_images := rs_images st @ map data_url (rs_reading st),
                     rs_imageFiles := rs_imageFiles st @ rs_reading st, rs_reading := []\<rparr>"
    by (rule fileLoaded_all) simp
  show ?thesis using a e resell_previews_match [OF r] by simp
qed

lemma resell_reads_complete_witness:
  "resell_reachable (handleFileChange [sample_photo, sample_photo] initial_resell_page)
   \<and> rs_reading ((fileLoaded 0 ^^ length (rs_reading (handleFileChange [sample_photo, sample_photo] initial_resell_page)))
                   (handleFileChange [sample_photo, sample_photo] initial_resell_page)) = []
   \<and> length (rs_imageFiles ((fileLoaded 0 ^^ length (rs_reading (handleFileChange [sample_photo, sample_photo] initial_resell_page)))
                   (handleFileChange [sample_photo, sample_photo] initial_resell_page))) = 2"
proof -
  have r: "resell_reachable (handleFileChange [sample_photo, sample_photo] initial_resell_page)"
    by (intro resell_reachable.intros)
  have l: "rs_reading (handleFileChange [sample_photo, sample_photo] initial_resell_page) = [sample_photo, sample_photo]
         \<and> rs_imageFiles (handleFileChange [sample_photo, sample_photo] initial_resell_page) = []"
    by (simp add: handleFileChange_def initial_resell_page_def sample_photo_ok)
  show ?thesis using resell_reads_complete [OF r] r l by simp
qed

end
