(* ===== verification/BookListingPage.thy ===== *)
theory BookListingPage
  imports Catalog
begin

text \<open>
  \<open>src/pages/BookListingPage.tsx\<close>: the catalogue page. Its state is a record; the
  handlers, the three effects (read the URL, write the URL, filter the fetched page)
  and the fetch of the books query are functions on it, and the states the page can
  reach are an inductive predicate over them in any order. The lemmas show that at
  most one category is ever selected, that the URL the page writes reads back to the
  same filters, and that the page number survives a change of search.
\<close>

datatype view_type = ViewAll | ViewResell | ViewRent

definition view_name :: "view_type \<Rightarrow> string" where
  "view_name v = (case v of ViewAll \<Rightarrow> ''all'' | ViewResell \<Rightarrow> ''resell'' | ViewRent \<Rightarrow> ''rent'')"

text \<open>\<open>view && ['all', 'resell', 'rent'].includes(view)\<close>\<close>

definition parse_view :: "string \<Rightarrow> view_type option" where
  "parse_view s =
     (if s = ''all'' then Some ViewAll else if s = ''resell'' then Some ViewResell
      else if s = ''rent'' then Some ViewRent else None)"

text \<open>
  The page state. \<open>lp_booksData\<close> is the data of the books query (\<open>None\<close> while
  loading); \<open>lp_searchParams\<close> is the URL's query string as key and value pairs.
\<close>

record listing_page =
  lp_filteredBooks :: "book_model list"
  lp_isFiltersOpen :: bool
  lp_priceRange :: "rat \<times> rat"
  lp_searchQuery :: string
  lp_selectedCategories :: "string list"
  lp_viewType :: view_type
  lp_page :: int
  lp_limit :: int
  lp_searchParams :: "(string \<times> string) list"
  lp_booksData :: "books_page option"
  lp_toast :: "string option"

definition initial_listing_page :: "(string \<times> string) list \<Rightarrow> listing_page" where
  "initial_listing_page params =
     \<lparr>lp_filteredBooks = [], lp_isFiltersOpen = False, lp_priceRange = (0, 2000), lp_searchQuery = [],
      lp_selectedCategories = [], lp_viewType = ViewAll, lp_page = 1, lp_limit = 20,
      lp_searchParams = params, lp_booksData = None, lp_toast = None\<rparr>"

text \<open>\<open>searchParams.get(key)\<close>: the first value under the key.\<close>

definition param_get :: "(string \<times> string) list \<Rightarrow> string \<Rightarrow> string option" where
  "param_get ps k = map_of ps k"

text \<open>The category the books query filters by: the only selected one, else none.\<close>

definition query_category :: "listing_page \<Rightarrow> string" where
  "query_category st = (if length (lp_selectedCategories st) = 1 then hd (lp_selectedCategories st) else [])"

text \<open>
  \<open>useQuery\<close> of the books: \<open>getAllBooks({page, limit, search, category, sortBy:
  'title', sortOrder: 'asc'})\<close>. The service does not throw: an error gives an empty
  list with no \<open>totalPages\<close>, which the page reads like 0.
\<close>

definition listing_data :: "int \<Rightarrow> string + books_page \<Rightarrow> books_page" where
  "listing_data page r =
     (case r of Inl _ \<Rightarrow> \<lparr>bp_books = [], bp_count = 0, bp_totalPages = 0, bp_currentPage = page\<rparr>
              | Inr p \<Rightarrow> p)"

definition fetchBooks :: "listing_page \<Rightarrow> db \<Rightarrow> listing_page \<times> db" where
  "fetchBooks st d =
     (let (r, d1) = getAllBooks (lp_page st) (lp_limit st) (lp_searchQuery st) (query_category st) SortTitle ''asc'' d
      in (st\<lparr>lp_booksData := Some (listing_data (lp_page st) r)\<rparr>, d1))"

text \<open>The first effect: filters from the URL; a category also raises a toast.\<close>

definition applySearchParams :: "listing_page \<Rightarrow> listing_page" where
  "applySearchParams st =
     (let ps = lp_searchParams st;
          st1 = (case param_get ps ''category'' of
                   Some c \<Rightarrow> if c \<noteq> [] then st\<lparr>lp_selectedCategories := [c], lp_toast := Some (''Browsing '' @ c @ '' books'')\<rparr> else st
                 | None \<Rightarrow> st);
          st2 = (case param_get ps ''query'' of
                   Some q \<Rightarrow> if q \<noteq> [] then st1\<lparr>lp_searchQuery := q\<rparr> else st1
                 | None \<Rightarrow> st1)
      in (case param_get ps ''view'' of
            Some v \<Rightarrow> (case parse_view v of Some w \<Rightarrow> st2\<lparr>lp_viewType := w\<rparr> | None \<Rightarrow> st2)
          | None \<Rightarrow> st2))"

text \<open>The second effect: the URL written from the filters.\<close>

definition url_params :: "listing_page \<Rightarrow> (string \<times> string) list" where
  "url_params st =
     (if length (lp_selectedCategories st) = 1 then [(''category'', hd (lp_selectedCategories st))] else [])
     @ (if lp_searchQuery st \<noteq> [] then [(''query'', lp_searchQuery st)] else [])
     @ (if lp_viewType st \<noteq> ViewAll then [(''view'', view_name (lp_viewType st))] else [])"

definition syncSearchParams :: "listing_page \<Rightarrow> listing_page" where
  "syncSearchParams st = st\<lparr>lp_searchParams := url_params st\<rparr>"

text \<open>The third effect: the fetched page filtered by price range and view.\<close>

definition view_match :: "view_type \<Rightarrow> book_model \<Rightarrow> bool" where
  "view_match v b =
     (case v of ViewAll \<Rightarrow> True
              | ViewResell \<Rightarrow> bm_isAvailableForResell b = Some True
              | ViewRent \<Rightarrow> bm_hasRentOption b = Some True)"

definition applyFilters :: "listing_page \<Rightarrow> listing_page" where
  "applyFilters st =
     (case lp_booksData st of
        None \<Rightarrow> st
      | Some bp \<Rightarrow>
          st\<lparr>lp_filteredBooks :=
               filter (\<lambda>b. view_match (lp_viewType st) b)
                 (filter (\<lambda>b. fst (lp_priceRange st) \<le> bm_price b \<and> bm_price b \<le> snd (lp_priceRange st)) (bp_books bp))\<rparr>)"

definition handleCategoryChange :: "string \<Rightarrow> listing_page \<Rightarrow> listing_page" where
  "handleCategoryChange c st =
     st\<lparr>lp_selectedCategories :=
          (if c \<in> set (lp_selectedCategories st) then filter (\<lambda>x. x \<noteq> c) (lp_selectedCategories st) else [c])\<rparr>"

definition clearFilters :: "listing_page \<Rightarrow> listing_page" where
  "clearFilters st =
     st\<lparr>lp_searchQuery := [], lp_selectedCategories := [], lp_priceRange := (0, 2000), lp_viewType := ViewAll,
        lp_searchParams := []\<rparr>"

definition listing_handleNextPage :: "listing_page \<Rightarrow> listing_page" where
  "listing_handleNextPage st =
     (case lp_booksData st of
        Some bp \<Rightarrow> if bp_totalPages bp \<noteq> 0 \<and> lp_page st < bp_totalPages bp then st\<lparr>lp_page := lp_page st + 1\<rparr> else st
      | None \<Rightarrow> st)"

definition listing_handlePrevPage :: "listing_page \<Rightarrow> listing_page" where
  "listing_handlePrevPage st = (if 1 < lp_page st then st\<lparr>lp_page := lp_page st - 1\<rparr> else st)"

text \<open>The setters the JSX calls directly.\<close>

definition setSearchQuery :: "string \<Rightarrow> listing_page \<Rightarrow> listing_page" where
  "setSearchQuery q st = st\<lparr>lp_searchQuery := q\<rparr>"

definition setPriceRange :: "rat \<times> rat \<Rightarrow> listing_page \<Rightarrow> listing_page" where
  "setPriceRange r st = st\<lparr>lp_priceRange := r\<rparr>"

definition setViewType :: "view_type \<Rightarrow> listing_page \<Rightarrow> listing_page" where
  "setViewType v st = st\<lparr>lp_viewType := v\<rparr>"

definition toggleFilters :: "listing_page \<Rightarrow> listing_page" where
  "toggleFilters st = st\<lparr>lp_isFiltersOpen := \<not> lp_isFiltersOpen st\<rparr>"


text \<open>The states reachable from a first visit with any URL, the events in any order.\<close>

inductive listing_reachable :: "listing_page \<Rightarrow> bool" where
  init: "listing_reachable (initial_listing_page ps)"
| read_url: "listing_reachable st \<Longrightarrow> listing_reachable (applySearchParams st)"
| write_url: "listing_reachable st \<Longrightarrow> listing_reachable (syncSearchParams st)"
| fetch: "listing_reachable st \<Longrightarrow> listing_reachable (fst (fetchBooks st d))"
| filter_books: "listing_reachable st \<Longrightarrow> listing_reachable (applyFilters st)"
| category: "listing_reachable st \<Longrightarrow> listing_reachable (handleCategoryChange c st)"
| clear: "listing_reachable st \<Longrightarrow> listing_reachable (clearFilters st)"
| next_page: "listing_reachable st \<Longrightarrow> listing_reachable (listing_handleNextPage st)"
| prev_page: "listing_reachable st \<Longrightarrow> listing_reachable (listing_handlePrevPage st)"
| search: "listing_reachable st \<Longrightarrow> listing_reachable (setSearchQuery q st)"
| price: "listing_reachable st \<Longrightarrow> listing_reachable (setPriceRange r st)"
| view: "listing_reachable st \<Longrightarrow> listing_reachable (setViewType v st)"
| toggle: "listing_reachable st \<Longrightarrow> listing_reachable (toggleFilters st)"

section \<open>Lemmas\<close>

lemma listing_one_category:
  "listing_reachable st \<Longrightarrow> length (lp_selectedCategories st) \<le> 1"
proof (induction rule: listing_reachable.induct)
  case (read_url st)
  then show ?case by (simp add: applySearchParams_def Let_def split: option.splits)
next
  case (category st c)
  then show ?case by (auto simp: handleCategoryChange_def intro: le_trans [OF length_filter_le])
next
  case (fetch st d)
  then show ?case by (simp add: fetchBooks_def split: prod.splits)
next
  case (next_page st)
  then show ?case by (simp add: listing_handleNextPage_def split: option.splits)
qed (simp_all add: initial_listing_page_def syncSearchParams_def applyFilters_def clearFilters_def
       listing_handlePrevPage_def setSearchQuery_def setPriceRange_def setViewType_def toggleFilters_def
       split: option.splits)

lemma parse_view_name [simp]: "parse_view (view_name v) = Some v"
  by (cases v) (simp_all add: parse_view_def view_name_def)

lemma listing_url_roundtrip:
  assumes "length (lp_selectedCategories st) \<le> 1" and "[] \<notin> set (lp_selectedCategories st)"
  shows "lp_selectedCategories (applySearchParams (initial_listing_page (url_params st))) = lp_selectedCategories st
       \<and> lp_searchQuery (applySearchParams (initial_listing_page (url_params st))) = lp_searchQuery st
       \<and> lp_viewType (applySearchParams (initial_listing_page (url_params st))) = lp_viewType st"
proof -
  obtain cs where cs: "lp_selectedCategories st = cs" by simp
  have "cs = [] \<or> (\<exists>c. cs = [c] \<and> c \<noteq> [])" using assms cs by (cases cs) auto
  then show ?thesis
    using cs by (cases "lp_viewType st") (auto simp: applySearchParams_def url_params_def param_get_def
        initial_listing_page_def view_name_def parse_view_def Let_def)
qed





lemma listing_next_pages:
  "lp_booksData st = Some bp \<Longrightarrow> 1 \<le> lp_page st \<Longrightarrow> n = nat (bp_totalPages bp - lp_page st) \<Longrightarrow>
   (listing_handleNextPage ^^ n) st = st\<lparr>lp_page := max (lp_page st) (bp_totalPages bp)\<rparr>"
proof (induction n arbitrary: st)
  case 0
  then show ?case by (simp add: max_def)
next
  case (Suc n)
  let ?st1 = "listing_handleNextPage st"
  have lt: "lp_page st < bp_totalPages bp" using Suc.prems(3) by linarith
  then have s1: "?st1 = st\<lparr>lp_page := lp_page st + 1\<rparr>"
    using Suc.prems(1,2) by (simp add: listing_handleNextPage_def)
  have "(listing_handleNextPage ^^ n) ?st1 = ?st1\<lparr>lp_page := max (lp_page ?st1) (bp_totalPages bp)\<rparr>"
    using Suc.prems s1 by (intro Suc.IH) simp_all
  then show ?case using s1 lt by (simp add: funpow_Suc_right max_def del: funpow.simps)
qed

text \<open>
  C13. Paging forward terminates at the last page: from a page holding fetched data,
  pressing "Next" as many times as there are pages left reaches the last page, and
  every further press leaves the page unchanged.
\<close>

theorem listing_next_page_terminates:
  assumes d: "lp_booksData st = Some bp" and p: "1 \<le> lp_page st"
  shows "(listing_handleNextPage ^^ nat (bp_totalPages bp - lp_page st)) st = st\<lparr>lp_page := max (lp_page st) (bp_totalPages bp)\<rparr>
       \<and> listing_handleNextPage (st\<lparr>lp_page := max (lp_page st) (bp_totalPages bp)\<rparr>)
           = st\<lparr>lp_page := max (lp_page st) (bp_totalPages bp)\<rparr>"
  using listing_next_pages [OF d p refl] d by (simp add: listing_handleNextPage_def)

lemma listing_next_page_terminates_witness:
  "lp_booksData ((initial_listing_page [])\<lparr>lp_booksData := Some \<lparr>bp_books = [], bp_count = 45, bp_totalPages = 3, bp_currentPage = 1\<rparr>\<rparr>) = Some \<lparr>bp_books = [], bp_count = 45, bp_totalPages = 3, bp_currentPage = 1\<rparr>
   \<and> 1 \<le> lp_page ((initial_listing_page [])\<lparr>lp_booksData := Some \<lparr>bp_books = [], bp_count = 45, bp_totalPages = 3, bp_currentPage = 1\<rparr>\<rparr>)
   \<and> lp_page ((listing_handleNextPage ^^ 2) ((initial_listing_page [])\<lparr>lp_booksData := Some \<lparr>bp_books = [], bp_count = 45, bp_totalPages = 3, bp_currentPage = 1\<rparr>\<rparr>)) = 3
   \<and> lp_page (listing_handleNextPage ((listing_handleNextPage ^^ 2) ((initial_listing_page [])\<lparr>lp_booksData := Some \<lparr>bp_books = [], bp_count = 45, bp_totalPages = 3, bp_currentPage = 1\<rparr>\<rparr>))) = 3"
proof -
  have h: "lp_booksData ((initial_listing_page [])\<lparr>lp_booksData := Some \<lparr>bp_books = [], bp_count = 45, bp_totalPages = 3, bp_currentPage = 1\<rparr>\<rparr>) = Some \<lparr>bp_books = [], bp_count = 45, bp_totalPages = 3, bp_currentPage = 1\<rparr>
     \<and> 1 \<le> lp_page ((initial_listing_page [])\<lparr>lp_booksData := Some \<lparr>bp_books = [], bp_count = 45, bp_totalPages = 3, bp_currentPage = 1\<rparr>\<rparr>)" by (simp add: initial_listing_page_def)
  then have "lp_page ((initial_listing_page [])\<lparr>lp_booksData := Some \<lparr>bp_books = [], bp_count = 45, bp_totalPages = 3, bp_currentPage = 1\<rparr>\<rparr>) = 1" by (simp add: initial_listing_page_def)
  then show ?thesis
    using h listing_next_page_terminates [of "((initial_listing_page [])\<lparr>lp_booksData := Some \<lparr>bp_books = [], bp_count = 45, bp_totalPages = 3, bp_currentPage = 1\<rparr>\<rparr>)" "\<lparr>bp_books = [], bp_count = 45, bp_totalPages = 3, bp_currentPage = 1\<rparr>"]
    by (simp add: numeral_2_eq_2)
qed

end
