(* ===== verification/RentPage.thy ===== *)
theory RentPage
  imports Catalog
begin

text \<open>
  \<open>src/pages/RentPage.tsx\<close> over the fallback catalogue of \<open>src/data/mockData.ts\<close>:
  a search box over the books that can be rented, the first eight of them before any
  search, the four most reviewed and the four newest. The functions take the book list
  as a parameter; the page passes \<open>mockBooks\<close>. The lemmas show that the page's
  case-insensitive \<open>includes\<close> search agrees with the backend's \<open>ilike\<close> search of the
  books service for every search text without pattern characters.
\<close>

text \<open>\<open>mockBooks\<close>: the one fallback book.\<close>

definition mockBooks :: "book_model list" where
  "mockBooks =
     [\<lparr>bm_id = ''1'', bm_title = ''Indian Polity (Civil Services Examination Series)'', bm_author = ''M. Laxmikanth'',
       bm_coverImage = ''https://m.media-amazon.com/images/I/81U3+6n3s1L._AC_UY436_FMwebp_QL65_.jpg'',
       bm_price = 599, bm_originalPrice = 830, bm_rating = 47 / 10, bm_reviews = 4582,
       bm_description = ''The book 'Indian Polity' by M Laxmikanth needs no introduction. It's one of the most popular and comprehensive books on the subject and has been a consistent bestseller for the last two decades. It is a must-read for aspirants appearing for the Civil Services examinations as well as those of the various State Public Service Commissions.'',
       bm_category = Some ''UPSC'', bm_language = ''English'', bm_publisher = ''McGraw Hill'',
       bm_publicationDate = Some ''2022-01-01'', bm_isbn = ''9789354407727'', bm_pageCount = 852,
       bm_edition = ''1st Edition'', bm_binding = ''Paperback'', bm_isNew = Some True, bm_hasFreeDelivery = Some True,
       bm_hasRentOption = Some True, bm_isAvailableForResell = Some True, bm_stockStatus = ''in_stock''\<rparr>]"

text \<open>\<open>String.prototype.toLowerCase\<close> on ASCII letters, and \<open>s.includes(q)\<close>.\<close>

definition js_toLowerCase :: "string \<Rightarrow> string" where
  "js_toLowerCase s = map lower_char s"

definition js_includes :: "string \<Rightarrow> string \<Rightarrow> bool" where
  "js_includes s q \<longleftrightarrow> sublist q s"

definition rent_offer :: "book_model \<Rightarrow> bool" where
  "rent_offer b \<longleftrightarrow> bm_hasRentOption b = Some True"

record rent_page =
  rtp_searchQuery :: string
  rtp_filteredBooks :: "book_model list"

definition initial_rent_page :: "book_model list \<Rightarrow> rent_page" where
  "initial_rent_page bks = \<lparr>rtp_searchQuery = [], rtp_filteredBooks = take 8 (filter rent_offer bks)\<rparr>"

definition popularBooks :: "book_model list \<Rightarrow> book_model list" where
  "popularBooks bks = take 4 (order_by bm_reviews False (filter rent_offer bks))"

definition newArrivals :: "book_model list \<Rightarrow> book_model list" where
  "newArrivals bks = take 4 (filter (\<lambda>b. rent_offer b \<and> bm_isNew b = Some True) bks)"

definition rent_search_match :: "string \<Rightarrow> book_model \<Rightarrow> bool" where
  "rent_search_match q b \<longleftrightarrow>
     rent_offer b \<and> (js_includes (js_toLowerCase (bm_title b)) (js_toLowerCase q)
                    \<or> js_includes (js_toLowerCase (bm_author b)) (js_toLowerCase q))"

definition rent_handleSearch :: "book_model list \<Rightarrow> rent_page \<Rightarrow> rent_page" where
  "rent_handleSearch bks st = st\<lparr>rtp_filteredBooks := filter (rent_search_match (rtp_searchQuery st)) bks\<rparr>"

definition rent_setSearchQuery :: "string \<Rightarrow> rent_page \<Rightarrow> rent_page" where
  "rent_setSearchQuery q st = st\<lparr>rtp_searchQuery := q\<rparr>"

text \<open>The "Clear Search" button.\<close>

definition rent_clearSearch :: "book_model list \<Rightarrow> rent_page \<Rightarrow> rent_page" where
  "rent_clearSearch bks st = initial_rent_page bks"

section \<open>Lemmas\<close>

lemma js_includes_ilike:
  assumes "wild_free q"
  shows "js_includes (js_toLowerCase s) (js_toLowerCase q) \<longleftrightarrow> ilike s (CHR ''%'' # q @ ''%'')"
proof -
  have "wild_free (map lower_char q)" using assms by (simp add: wild_free_lower)
  then show ?thesis
    by (simp add: js_includes_def js_toLowerCase_def ilike_def like_contains [symmetric]
        lower_char_def Let_def)
qed

lemma rent_search_is_ilike:
  "wild_free q \<Longrightarrow>
   rtp_filteredBooks (rent_handleSearch bks (rent_setSearchQuery q st))
     = filter (\<lambda>b. rent_offer b \<and> (ilike (bm_title b) (CHR ''%'' # q @ ''%'') \<or> ilike (bm_author b) (CHR ''%'' # q @ ''%''))) bks"
  by (simp add: rent_handleSearch_def rent_setSearchQuery_def rent_search_match_def [abs_def] js_includes_ilike)

lemma rent_pages_only_rentable:
  "b \<in> set (rtp_filteredBooks (rent_handleSearch bks st)) \<Longrightarrow> rent_offer b"
  "b \<in> set (rtp_filteredBooks (initial_rent_page bks)) \<Longrightarrow> rent_offer b"
  "b \<in> set (popularBooks bks) \<Longrightarrow> rent_offer b"
  "b \<in> set (newArrivals bks) \<Longrightarrow> rent_offer b \<and> bm_isNew b = Some True"
  by (auto simp: rent_handleSearch_def rent_search_match_def initial_rent_page_def popularBooks_def
      newArrivals_def dest: in_set_takeD)

lemma mock_rent_search: "rtp_filteredBooks (rent_handleSearch mockBooks (rent_setSearchQuery ''polity'' (initial_rent_page mockBooks))) = mockBooks"
  by code_simp

end
