(* ===== verification/BookWrites.thy ===== *)
theory BookWrites
  imports AdminBooks
begin

text \<open>
  The write functions of \<open>src/services/booksService.ts\<close> (\<open>createBook\<close>,
  \<open>updateBook\<close>, \<open>deleteBook\<close>) and \<open>mapModelBookToDatabase\<close> of \<open>types/book.ts\<close>.
  No page calls them (the admin pages use \<open>adminService\<close>); they are modelled because
  they are the catalogue's own write path. A \<open>Partial<Book>\<close> is a JavaScript object
  with the model's camelCase keys. The request \<open>insert(obj).select().single()\<close> (and
  \<open>update\<close>) is the same as \<open>adminService\<close>'s, so its model is reused. The lemmas
  show that the objects these functions send use only real columns, and that an
  update which names no category clears the book's category.
\<close>

text \<open>JavaScript truthiness of a value.\<close>

fun js_value_truthy :: "js_value \<Rightarrow> bool" where
  "js_value_truthy JNull = False"
| "js_value_truthy (JBool b) = b"
| "js_value_truthy (JNum n) = (n \<noteq> 0)"
| "js_value_truthy (JStr s) = (s \<noteq> [])"
| "js_value_truthy (JArr _) = True"

text \<open>
  \<open>if (bookData.category) { ... .from("categories").select("id").eq("name", ...).single() }\<close>:
  the id of the one category with that name; the error of the lookup is not read, so a
  failed lookup, like an unknown name, gives \<open>null\<close>.
\<close>

definition book_category_lookup :: "js_object \<Rightarrow> db \<Rightarrow> int option \<times> db" where
  "book_category_lookup bookData d =
     (case map_of bookData ''category'' of
        Some c \<Rightarrow>
          if js_value_truthy c then
            (let (err, d1) = call d in
             case err of
               Some _ \<Rightarrow> (None, d1)
             | None \<Rightarrow> (map_option cat_id (single (filter (\<lambda>r. JStr (cat_name r) = c) (categories d1))), d1))
          else (None, d)
      | None \<Rightarrow> (None, d))"

text \<open>
  The object of the insert and of the update: each column from its camelCase field
  (\<open>undefined\<close> fields are dropped when it is sent), \<open>category_id\<close> always present.
  A \<open>publicationDate\<close> that is a \<open>Date\<close> is not a JSON value and is not modelled.
\<close>

definition book_write_object :: "js_object \<Rightarrow> int option \<Rightarrow> js_object" where
  "book_write_object bookData cid =
     (let v = map_of bookData in
      js_defined [(''title'', v ''title''), (''author'', v ''author''), (''cover_image'', v ''coverImage''),
                  (''price'', v ''price''), (''original_price'', v ''originalPrice''),
                  (''description'', v ''description''), (''category_id'', Some (js_opt (JNum \<circ> of_int) cid)),
                  (''language'', v ''language''), (''publisher'', v ''publisher''),
                  (''publication_date'', v ''publicationDate''), (''isbn'', v ''isbn''),
                  (''page_count'', v ''pageCount''), (''edition'', v ''edition''), (''binding'', v ''binding''),
                  (''is_new'', v ''isNew''), (''has_free_delivery'', v ''hasFreeDelivery''),
                  (''has_rent_option'', v ''hasRentOption''), (''is_available_for_resell'', v ''isAvailableForResell''),
                  (''stock_status'', v ''stockStatus'')])"

definition books_createBook :: "js_object \<Rightarrow> db \<Rightarrow> (string + book_model) \<times> db" where
  "books_createBook bookData d =
     (let (cid, d1) = book_category_lookup bookData d;
          (r, d2) = admin_createBook (book_write_object bookData cid) d1 in
      (case r of Inl e \<Rightarrow> Inl e | Inr row \<Rightarrow> Inr (mapDatabaseBookToModel row), d2))"

definition books_updateBook :: "string \<Rightarrow> js_object \<Rightarrow> db \<Rightarrow> (string + book_model) \<times> db" where
  "books_updateBook bookId bookData d =
     (let (cid, d1) = book_category_lookup bookData d;
          (r, d2) = admin_updateBook bookId (book_write_object bookData cid) d1 in
      (case r of Inl e \<Rightarrow> Inl e | Inr row \<Rightarrow> Inr (mapDatabaseBookToModel row), d2))"

definition books_deleteBook :: "string \<Rightarrow> db \<Rightarrow> (string + unit) \<times> db" where
  "books_deleteBook bookId d =
     (let (err, d1) = call d in
      case err of
        Some msg \<Rightarrow> (Inl msg, d1)
      | None \<Rightarrow> (Inr (), d1\<lparr>books := filter (\<lambda>b. b_id b \<noteq> bookId) (books d1)\<rparr>))"

text \<open>
  \<open>mapModelBookToDatabase(book)\<close>: each defined field under its column name, in this
  order; \<open>category\<close> is copied as it is, and a \<open>publicationDate\<close> only when it is a string.
\<close>

definition model_to_db_keys :: "(string \<times> string) list" where
  "model_to_db_keys =
     [(''id'', ''id''), (''title'', ''title''), (''author'', ''author''), (''coverImage'', ''cover_image''),
      (''price'', ''price''), (''originalPrice'', ''original_price''), (''rating'', ''rating''),
      (''reviews'', ''reviews''), (''description'', ''description''), (''category'', ''category''),
      (''language'', ''language''), (''publisher'', ''publisher'')]"

definition model_to_db_keys2 :: "(string \<times> string) list" where
  "model_to_db_keys2 =
     [(''isbn'', ''isbn''), (''pageCount'', ''page_count''), (''edition'', ''edition''), (''binding'', ''binding''),
      (''isNew'', ''is_new''), (''hasFreeDelivery'', ''has_free_delivery''), (''hasRentOption'', ''has_rent_option''),
      (''isAvailableForResell'', ''is_available_for_resell''), (''stockStatus'', ''stock_status'')]"

definition mapModelBookToDatabase :: "js_object \<Rightarrow> js_object" where
  "mapModelBookToDatabase book =
     (let v = map_of book in
      js_defined (map (\<lambda>(m, c). (c, v m)) model_to_db_keys
                  @ [(''publication_date'', (case v ''publicationDate'' of Some (JStr s) \<Rightarrow> Some (JStr s) | _ \<Rightarrow> None))]
                  @ map (\<lambda>(m, c). (c, v m)) model_to_db_keys2))"

text \<open>A \<open>Book\<close> value as the JavaScript object a caller passes (optional fields left out when absent).\<close>

definition object_of_book_model :: "book_model \<Rightarrow> js_object" where
  "object_of_book_model m =
     js_defined [(''id'', Some (JStr (bm_id m))), (''title'', Some (JStr (bm_title m))), (''author'', Some (JStr (bm_author m))),
                 (''coverImage'', Some (JStr (bm_coverImage m))), (''price'', Some (JNum (bm_price m))),
                 (''originalPrice'', Some (JNum (bm_originalPrice m))), (''rating'', Some (JNum (bm_rating m))),
                 (''reviews'', Some (JNum (of_int (bm_reviews m)))), (''description'', Some (JStr (bm_description m))),
                 (''category'', map_option JStr (bm_category m)), (''language'', Some (JStr (bm_language m))),
                 (''publisher'', Some (JStr (bm_publisher m))), (''publicationDate'', map_option JStr (bm_publicationDate m)),
                 (''isbn'', Some (JStr (bm_isbn m))), (''pageCount'', Some (JNum (of_int (bm_pageCount m)))),
                 (''edition'', Some (JStr (bm_edition m))), (''binding'', Some (JStr (bm_binding m))),
                 (''isNew'', map_option JBool (bm_isNew m)), (''hasFreeDelivery'', map_option JBool (bm_hasFreeDelivery m)),
                 (''hasRentOption'', map_option JBool (bm_hasRentOption m)),
                 (''isAvailableForResell'', map_option JBool (bm_isAvailableForResell m)),
                 (''stockStatus'', Some (JStr (bm_stockStatus m)))]"

section \<open>Lemmas\<close>

lemma book_write_object_columns: "unknown_column books_columns (book_write_object bookData cid) = None"
  unfolding unknown_column_None_iff book_write_object_def Let_def
  by (rule subset_trans [OF js_defined_keys]) (simp add: books_columns_def)

lemma map_model_category_unknown:
  "map_of book ''category'' = Some c \<Longrightarrow> ''category'' \<in> fst ` set (mapModelBookToDatabase book)
   \<and> ''category'' \<notin> set books_columns"
  by (force simp: mapModelBookToDatabase_def js_defined_def model_to_db_keys_def books_columns_def Let_def)

lemma book_row_of_object_category:
  "book_row_of_object i obj = Some r \<Longrightarrow> js_nullable js_int (map_of obj ''category_id'') = Some (b_category_id r)"
  by (auto simp: book_row_of_object_def Let_def bind_eq_Some_conv)

lemma book_write_object_category: "map_of (book_write_object bookData cid) ''category_id'' = Some (js_opt (JNum \<circ> of_int) cid)"
  by (simp add: book_write_object_def map_of_js_defined_Cons Let_def)

lemma books_updateBook_clears_category:
  assumes ok: "fst (books_updateBook i bookData d) = Inr m" and nc: "map_of bookData ''category'' = None"
    and b: "b \<in> set (books (snd (books_updateBook i bookData d)))" and bi: "b_id b = i"
  shows "b_category_id b = None"
proof -
  let ?obj = "book_write_object bookData None"
  have l: "book_category_lookup bookData d = (None, d)" using nc by (simp add: book_category_lookup_def)
  obtain err d1 where c: "call d = (err, d1)" by (cases "call d")
  have e: "err = None" using ok l c
    by (auto simp: books_updateBook_def admin_updateBook_def split: option.splits sum.splits prod.splits)
  obtain r where f: "filter (\<lambda>x. b_id x = i) (books d1) = [r]"
    using ok l c e book_write_object_columns [of bookData None]
    by (auto simp: books_updateBook_def admin_updateBook_def split: list.splits sum.splits prod.splits)
  obtain r' where r': "book_row_of_object (b_id r) (?obj @ object_of_book_row r) = Some r'"
    using ok l c e f book_write_object_columns [of bookData None]
    by (auto simp: books_updateBook_def admin_updateBook_def split: option.splits sum.splits prod.splits)
  have "js_nullable js_int (map_of (?obj @ object_of_book_row r) ''category_id'') = Some (b_category_id r')"
    by (rule book_row_of_object_category [OF r'])
  then have cat: "b_category_id r' = None"
    by (simp add: map_add_def book_write_object_category js_opt_def js_nullable_def)
  have "books (snd (books_updateBook i bookData d)) = map (\<lambda>x. if b_id x = i then r' else x) (books d1)"
    using l c e f r' book_write_object_columns [of bookData None]
    by (simp add: books_updateBook_def admin_updateBook_def split: prod.splits sum.splits)
  then show ?thesis using b bi cat by auto
qed

lemma book_write_model_keys:
  "map_of (book_write_object (object_of_book_model m) cid) ''id'' = None"
  "map_of (book_write_object (object_of_book_model m) cid) ''title'' = Some (JStr (bm_title m))"
  "map_of (book_write_object (object_of_book_model m) cid) ''author'' = Some (JStr (bm_author m))"
  "map_of (book_write_object (object_of_book_model m) cid) ''price'' = Some (JNum (bm_price m))"
  "map_of (book_write_object (object_of_book_model m) cid) ''original_price'' = Some (JNum (bm_originalPrice m))"
  "map_of (book_write_object (object_of_book_model m) cid) ''binding'' = Some (JStr (bm_binding m))"
  "map_of (book_write_object (object_of_book_model m) cid) ''cover_image'' = Some (JStr (bm_coverImage m))"
  "map_of (book_write_object (object_of_book_model m) cid) ''description'' = Some (JStr (bm_description m))"
  "map_of (book_write_object (object_of_book_model m) cid) ''isbn'' = Some (JStr (bm_isbn m))"
  "map_of (book_write_object (object_of_book_model m) cid) ''language'' = Some (JStr (bm_language m))"
  "map_of (book_write_object (object_of_book_model m) cid) ''page_count'' = Some (JNum (of_int (bm_pageCount m)))"
  "map_of (book_write_object (object_of_book_model m) cid) ''publisher'' = Some (JStr (bm_publisher m))"
  "map_of (book_write_object (object_of_book_model m) cid) ''stock_status'' = Some (JStr (bm_stockStatus m))"
  "map_of (book_write_object (object_of_book_model m) cid) ''has_rent_option'' = map_option JBool (bm_hasRentOption m)"
  "map_of (book_write_object (object_of_book_model m) cid) ''is_available_for_resell'' = map_option JBool (bm_isAvailableForResell m)"
  "map_of (book_write_object (object_of_book_model m) cid) ''rating'' = None"
  "map_of (book_write_object (object_of_book_model m) cid) ''reviews'' = None"
  "map_of (book_write_object (object_of_book_model m) cid) ''category_id'' = Some (js_opt (JNum \<circ> of_int) cid)"
  "map_of (book_write_object (object_of_book_model m) cid) ''edition'' = Some (JStr (bm_edition m))"
  "map_of (book_write_object (object_of_book_model m) cid) ''has_free_delivery'' = map_option JBool (bm_hasFreeDelivery m)"
  "map_of (book_write_object (object_of_book_model m) cid) ''is_new'' = map_option JBool (bm_isNew m)"
  "map_of (book_write_object (object_of_book_model m) cid) ''publication_date'' = map_option JStr (bm_publicationDate m)"
  by (simp_all add: book_write_object_def object_of_book_model_def Let_def map_of_js_defined_Cons)

lemma book_row_of_model:
  "book_row_of_object i (book_write_object (object_of_book_model m) cid) =
     Some \<lparr>b_id = i, b_title = bm_title m, b_author = bm_author m, b_price = bm_price m,
           b_original_price = bm_originalPrice m, b_has_rent_option = bm_hasRentOption m,
           b_is_available_for_resell = bm_isAvailableForResell m, b_rating = None, b_reviews = None,
           b_binding = bm_binding m, b_category_id = cid, b_cover_image = bm_coverImage m,
           b_description = bm_description m, b_edition = Some (bm_edition m),
           b_has_free_delivery = bm_hasFreeDelivery m, b_is_new = bm_isNew m, b_isbn = bm_isbn m,
           b_language = bm_language m, b_page_count = bm_pageCount m, b_publication_date = bm_publicationDate m,
           b_publisher = bm_publisher m, b_stock_status = bm_stockStatus m\<rparr>"
  unfolding book_row_of_object_def Let_def book_write_model_keys
  by (simp add: js_str_def js_num_def js_int_def)


lemma book_category_lookup_no_faults: "sched d = [] \<Longrightarrow> snd (book_category_lookup bookData d) = d"
  by (simp add: book_category_lookup_def call_Nil split: option.splits)

text \<open>
  C5. A complete \<open>Book\<close> always type-checks as a row of \<open>books\<close>: over a backend that
  does not fail, \<open>createBook\<close> stores it and returns the same book except for the
  generated id, the rating and review count the backend starts at \<open>NULL\<close> (read back
  as 0), and the category, which \<open>mapDatabaseBookToModel\<close> never reads.
\<close>

theorem createBook_model_type_safe:
  assumes s: "sched d = []" and fresh: "uuid_of (next_id d) \<notin> b_id ` set (books d)"
  shows "fst (books_createBook (object_of_book_model m) d)
           = Inr (m\<lparr>bm_id := uuid_of (next_id d), bm_rating := 0, bm_reviews := 0, bm_category := None\<rparr>)"
proof -
  obtain cid where l: "book_category_lookup (object_of_book_model m) d = (cid, d)"
    using book_category_lookup_no_faults [OF s, of "object_of_book_model m"] by (metis prod.collapse)
  show ?thesis
    using s fresh l book_write_object_columns [of "object_of_book_model m" cid]
    by (simp add: books_createBook_def admin_createBook_def call_Nil fresh_id_def book_row_of_model
        mapDatabaseBookToModel_def)
qed

lemma createBook_model_type_safe_witness:
  "sched catalog_db = [] \<and> uuid_of (next_id catalog_db) \<notin> b_id ` set (books catalog_db)
   \<and> fst (books_createBook (object_of_book_model (mapDatabaseBookToModel (sample_book ''b9'' ''Gitanjali'' ''Tagore'' 250 None None))) catalog_db)
       = Inr ((mapDatabaseBookToModel (sample_book ''b9'' ''Gitanjali'' ''Tagore'' 250 None None))
                \<lparr>bm_id := uuid_of (next_id catalog_db), bm_rating := 0, bm_reviews := 0, bm_category := None\<rparr>)"
proof -
  have h: "sched catalog_db = [] \<and> uuid_of (next_id catalog_db) \<notin> b_id ` set (books catalog_db)"
    by (simp add: catalog_db_def sample_book_def uuid_of_def)
  then show ?thesis
    using createBook_model_type_safe [of catalog_db "mapDatabaseBookToModel (sample_book ''b9'' ''Gitanjali'' ''Tagore'' 250 None None)"]
    by simp
qed

end
