(* ===== verification/OrderReads.thy ===== *)
theory OrderReads
  imports Checkout
begin

text \<open>
  The reads of \<open>src/services/orderService.ts\<close> (\<open>getUserOrders\<close>,
  \<open>getOrderDetails\<close>) and \<open>src/pages/OrderConfirmationPage.tsx\<close>. The tables have
  no modelled timestamps; \<open>created_at\<close> defaults to the time of the insert, so
  "newest first" is the reverse of the order of insertion. The lemmas show that a user
  is only ever given orders of the user id the service queried with, and that an order
  placed with \<open>createOrder\<close> reads back with exactly the lines written for it.
\<close>

text \<open>\<open>getUserOrders(userId)\<close>: \<open>eq("user_id", userToUse).order("created_at", {ascending: false})\<close>.\<close>

definition getUserOrders :: "string \<Rightarrow> db \<Rightarrow> (string + order_row list) \<times> db" where
  "getUserOrders userId d =
     (let u = (if js_truthy userId then userId else default_user_id); (err, d1) = call d in
      case err of
        Some msg \<Rightarrow> (Inl msg, d1)
      | None \<Rightarrow> (Inr (rev (filter (\<lambda>o'. o_user_id o' = u) (orders d1))), d1))"

text \<open>\<open>select("*, books:book_id(*)")\<close>: each line with its book.\<close>

definition order_lines_with_books :: "nat \<Rightarrow> db \<Rightarrow> (order_item_row \<times> book_row option) list" where
  "order_lines_with_books orderId d =
     map (\<lambda>i. (i, find (\<lambda>b. b_id b = oi_book_id i) (books d))) (filter (\<lambda>i. oi_order_id i = orderId) (order_items d))"

text \<open>The result \<open>{order, items, error}\<close> of \<open>getOrderDetails\<close>.\<close>

record order_details =
  od_order :: "order_row option"
  od_items :: "(order_item_row \<times> book_row option) list"
  od_error :: "string option"

text \<open>
  \<open>getOrderDetails(orderId, userId)\<close>: the order, looked up with the user's id as a
  second filter, then its lines; a failure of the second query keeps the order.
\<close>

definition getOrderDetails :: "nat \<Rightarrow> string \<Rightarrow> db \<Rightarrow> order_details \<times> db" where
  "getOrderDetails orderId userId d =
     (let u = (if js_truthy userId then userId else default_user_id); (err, d1) = call d in
      case err of
        Some msg \<Rightarrow> (\<lparr>od_order = None, od_items = [], od_error = Some msg\<rparr>, d1)
      | None \<Rightarrow>
          (case filter (\<lambda>o'. o_id o' = orderId \<and> o_user_id o' = u) (orders d1) of
             [order] \<Rightarrow>
               (let (err2, d2) = call d1 in
                case err2 of
                  Some msg \<Rightarrow> (\<lparr>od_order = Some order, od_items = [], od_error = Some msg\<rparr>, d2)
                | None \<Rightarrow> (\<lparr>od_order = Some order, od_items = order_lines_with_books orderId d2, od_error = None\<rparr>, d2))
           | _ \<Rightarrow> (\<lparr>od_order = None, od_items = [], od_error = Some ''JSON object requested, multiple (or no) rows returned''\<rparr>, d1)))"

text \<open>\<open>formatOrderId(id)\<close>: the first eight characters in upper case, \<open>Unknown\<close> for none.\<close>

definition upper_char :: "char \<Rightarrow> char" where
  "upper_char c = (let n = (of_char c :: nat) in if 97 \<le> n \<and> n \<le> 122 then char_of (n - 32) else c)"

definition formatOrderId :: "string \<Rightarrow> string" where
  "formatOrderId i = (if i = [] then ''Unknown'' else map upper_char (take 8 i))"

text \<open>
  The confirmation page: the order handed over in the navigation state; without one
  the page redirects home. The issue dialog is its only state.
\<close>

record confirmation_page =
  cf_order :: "order_row option"
  cf_showIssueDialog :: bool
  cf_redirect :: "string option"

definition confirmation_mount :: "order_row option \<Rightarrow> confirmation_page" where
  "confirmation_mount order =
     \<lparr>cf_order = order, cf_showIssueDialog = False, cf_redirect = (if order = None then Some ''/'' else None)\<rparr>"

definition setShowIssueDialog :: "bool \<Rightarrow> confirmation_page \<Rightarrow> confirmation_page" where
  "setShowIssueDialog b st = st\<lparr>cf_showIssueDialog := b\<rparr>"

section \<open>Lemmas\<close>

lemma getOrderDetails_owner:
  "od_order (fst (getOrderDetails orderId userId d)) = Some o'
   \<Longrightarrow> o_id o' = orderId \<and> o_user_id o' = (if js_truthy userId then userId else default_user_id)"
  by (auto simp: getOrderDetails_def Let_def dest!: filter_eq_single_mem
           split: prod.splits option.splits list.splits)

lemma getUserOrders_owner:
  "fst (getUserOrders userId d) = Inr os \<Longrightarrow> o' \<in> set os
   \<Longrightarrow> o_user_id o' = (if js_truthy userId then userId else default_user_id)"
  by (auto simp: getUserOrders_def Let_def split: prod.splits option.splits)

lemma createOrder_orders_no_faults:
  assumes "sched d = []"
  shows "orders (snd (createOrder u (Some cid) items sh pm tot now d))
           = orders d @ [order_header (if js_truthy u then u else default_user_id) tot sh pm (next_id d)]
       \<and> books (snd (createOrder u (Some cid) items sh pm tot now d)) = books d
       \<and> sched (snd (createOrder u (Some cid) items sh pm tot now d)) = []"
proof -
  let ?order = "order_header (if js_truthy u then u else default_user_id) tot sh pm (next_id d)"
  let ?d3 = "d\<lparr>next_id := Suc (next_id d), orders := orders d @ [?order]\<rparr>"
  have c1: "call d = (None, d)" using assms by (rule call_Nil)
  have s3: "sched ?d3 = []" using assms by simp
  have i: "sched (insert_order_items (next_id d) now items ?d3) = []"
    using insert_order_items_no_faults [OF s3] s3 by simp
  have "sched (clear_cart_after_order (Some cid) (insert_order_items (next_id d) now items ?d3)) = []"
    using i by (simp add: clear_cart_after_order_def call_Nil)
  then show ?thesis
    using createOrder_success_eq [OF c1, of u "Some cid" items sh pm tot now] insert_order_items_frame
      clear_cart_after_order_frame
    by (simp add: call_Nil Let_def)
qed


lemma order_items_of_order: "x \<in> set (map2 (\<lambda>k item. order_item_of k oid now item) ks items) \<Longrightarrow> oi_order_id x = oid"
  by (auto simp: order_item_of_def set_zip)

lemma placed_order_reads_back:
  assumes s: "sched d = []" and ok: "ids_ok d" and fk: "\<forall>r \<in> set (order_items d). oi_order_id r < next_id d"
    and u: "js_truthy u"
  shows "fst (getOrderDetails (next_id d) u (snd (createOrder u (Some cid) items sh pm tot now d)))
         = \<lparr>od_order = Some (order_header u tot sh pm (next_id d)),
            od_items = map (\<lambda>i. (i, find (\<lambda>b. b_id b = oi_book_id i) (books d)))
                         (map2 (\<lambda>k item. order_item_of k (next_id d) now item)
                               [Suc (next_id d)..<Suc (next_id d) + length items] items),
            od_error = None\<rparr>"
proof -
  let ?d' = "snd (createOrder u (Some cid) items sh pm tot now d)"
  let ?new = "map2 (\<lambda>k item. order_item_of k (next_id d) now item) [Suc (next_id d)..<Suc (next_id d) + length items] items"
  have f: "orders ?d' = orders d @ [order_header u tot sh pm (next_id d)] \<and> books ?d' = books d \<and> sched ?d' = []"
    using createOrder_orders_no_faults [OF s] u by simp
  have li: "order_items ?d' = order_items d @ ?new"
    using createOrder_no_faults_eq [OF s] by simp
  have old_o: "\<forall>o' \<in> set (orders d). o_id o' \<noteq> next_id d" using ok by (auto simp: ids_ok_def)
  have fo: "filter (\<lambda>o'. o_id o' = next_id d \<and> o_user_id o' = u) (orders ?d') = [order_header u tot sh pm (next_id d)]"
    using f old_o by (simp add: order_header_def filter_empty_conv)
  have fi: "filter (\<lambda>i. oi_order_id i = next_id d) (order_items ?d') = ?new"
    using li fk order_items_of_order [of _ "next_id d" now] by (auto simp: filter_empty_conv intro!: filter_True)
  show ?thesis
    using f fo fi u by (simp add: getOrderDetails_def order_lines_with_books_def call_Nil)
qed

end
