(* ===== verification/ProfilePage.thy ===== *)
theory ProfilePage
  imports UserService
begin

text \<open>
  \<open>src/pages/UserProfilePage.tsx\<close>: the account form of a signed-in user. The profile
  query, the effect that copies the loaded profile into the form, the field handler and
  the update mutation (which refetches on success) are functions on the page state.
  The lemmas show that a submitted form reads back unchanged after the refetch when the
  backend does not fail, and that the page announces success whatever the update did.
\<close>

record profile_form =
  pf_first_name :: string
  pf_last_name :: string
  pf_phone :: string
  pf_address :: string
  pf_email :: string

definition empty_profile_form :: profile_form where
  "empty_profile_form = \<lparr>pf_first_name = [], pf_last_name = [], pf_phone = [], pf_address = [], pf_email = []\<rparr>"

text \<open>The page state: the form, the data of the profile query, the last toast.\<close>

record profile_page =
  pp_formData :: profile_form
  pp_profileData :: "(string + profile_row) option"
  pp_toast :: "string option"

definition initial_profile_page :: profile_page where
  "initial_profile_page = \<lparr>pp_formData = empty_profile_form, pp_profileData = None, pp_toast = None\<rparr>"

text \<open>\<open>useQuery\<close> of the profile, \<open>enabled: !!user?.id\<close>.\<close>

definition fetchProfile :: "string \<Rightarrow> profile_page \<Rightarrow> db \<Rightarrow> profile_page \<times> db" where
  "fetchProfile uid st d =
     (if js_truthy uid then (let (r, d1) = getUserProfile uid d in (st\<lparr>pp_profileData := Some r\<rparr>, d1))
      else (st, d))"

text \<open>\<open>x || ''\<close> for a nullable column.\<close>

definition or_empty :: "string option \<Rightarrow> string" where
  "or_empty v = (case v of Some s \<Rightarrow> s | None \<Rightarrow> [])"

text \<open>The effect on \<open>[profileData, user]\<close>: the loaded profile copied into the form.\<close>

definition profile_effect :: "string \<Rightarrow> profile_page \<Rightarrow> profile_page" where
  "profile_effect userEmail st =
     (case pp_profileData st of
        Some (Inr p) \<Rightarrow>
          st\<lparr>pp_formData := \<lparr>pf_first_name = or_empty (p_first_name p), pf_last_name = or_empty (p_last_name p),
                             pf_phone = or_empty (p_phone p), pf_address = or_empty (p_address p),
                             pf_email = (if js_truthy userEmail then userEmail else or_empty (p_email p))\<rparr>\<rparr>
      | _ \<Rightarrow> st)"

definition set_profile_field :: "string \<Rightarrow> string \<Rightarrow> profile_form \<Rightarrow> profile_form" where
  "set_profile_field name value f =
     (if name = ''first_name'' then f\<lparr>pf_first_name := value\<rparr>
      else if name = ''last_name'' then f\<lparr>pf_last_name := value\<rparr>
      else if name = ''phone'' then f\<lparr>pf_phone := value\<rparr>
      else if name = ''address'' then f\<lparr>pf_address := value\<rparr>
      else if name = ''email'' then f\<lparr>pf_email := value\<rparr>
      else f)"

definition profile_handleChange :: "string \<Rightarrow> string \<Rightarrow> profile_page \<Rightarrow> profile_page" where
  "profile_handleChange name value st = st\<lparr>pp_formData := set_profile_field name value (pp_formData st)\<rparr>"

text \<open>The whole form is the update's object: every field is present.\<close>

definition update_of_form :: "profile_form \<Rightarrow> profile_update" where
  "update_of_form f =
     \<lparr>pu_first_name = Some (pf_first_name f), pu_last_name = Some (pf_last_name f), pu_phone = Some (pf_phone f),
      pu_address = Some (pf_address f), pu_email = Some (pf_email f)\<rparr>"

text \<open>
  \<open>handleSubmit\<close>: the mutation. \<open>updateUserProfile\<close> returns its error instead of
  throwing, so \<open>onSuccess\<close> always runs: the success toast, then \<open>refetch()\<close>.
\<close>

definition profile_handleSubmit :: "string \<Rightarrow> profile_page \<Rightarrow> db \<Rightarrow> profile_page \<times> db" where
  "profile_handleSubmit uid st d =
     (let (r, d1) = updateUserProfile uid (update_of_form (pp_formData st)) d
      in fetchProfile uid (st\<lparr>pp_toast := Some ''Profile updated successfully''\<rparr>) d1)"

section \<open>Lemmas\<close>

lemma profile_submit_always_success:
  "pp_toast (fst (profile_handleSubmit uid st d)) = Some ''Profile updated successfully''"
  by (simp add: profile_handleSubmit_def fetchProfile_def split: prod.splits)

lemma profile_submit_roundtrip:
  assumes dist: "distinct (map p_id (profiles d))" and p: "p \<in> set (profiles d)" and s: "sched d = []"
    and u: "js_truthy (p_id p)" and e: "\<not> js_truthy userEmail"
  shows "pp_formData (profile_effect userEmail (fst (profile_handleSubmit (p_id p) st d))) = pp_formData st"
proof -
  let ?u = "update_of_form (pp_formData st)"
  have r: "updateUserProfile (p_id p) ?u d = (Inr (apply_profile_update ?u p), snd (updateUserProfile (p_id p) ?u d))
         \<and> fst (getUserProfile (p_id p) (snd (updateUserProfile (p_id p) ?u d))) = Inr (apply_profile_update ?u p)"
    using dist p s by (rule updateUserProfile_roundtrip)
  then obtain d1 d2 where u1: "updateUserProfile (p_id p) ?u d = (Inr (apply_profile_update ?u p), d1)"
    and g: "getUserProfile (p_id p) d1 = (Inr (apply_profile_update ?u p), d2)"
    by (metis prod.collapse)
  show ?thesis using u e u1 g
    by (simp add: profile_handleSubmit_def fetchProfile_def profile_effect_def update_of_form_def
        apply_profile_update_def or_empty_def)
qed

end
