(* ===== verification/Auth.thy ===== *)
theory Auth
  imports Store
begin

text \<open>
  Authentication: \<open>src/services/authService.ts\<close>, the provider of
  \<open>src/contexts/AuthContext.tsx\<close>, and the submit handlers of the login and register
  pages. The hosted auth server is an explicit store of accounts and the current
  session; each of its requests is one \<^const>\<open>call\<close> on the shared schedule, and a
  change of session emits the event the provider's \<open>onAuthStateChange\<close> listener
  receives. The server's own rules are modelled as the client sees them with email
  confirmation off: a second sign-up with a registered email is refused, sign-in
  needs the account's password, a password reset answers the same for every address.
  The lemmas show that a session always belongs to an account whose password was
  given, and that the provider's state follows the server once the events are handled.
\<close>

record account =
  acc_id :: string
  acc_email :: string
  acc_password :: string
  acc_first_name :: "string option"
  acc_last_name :: "string option"

datatype auth_event = SignedIn string | SignedOut

record auth_store =
  au_accounts :: "account list"
  au_session :: "string option"
  au_next :: nat
  au_events :: "auth_event list"

definition new_user_id :: "nat \<Rightarrow> string" where
  "new_user_id n = ''user-'' @ replicate n (CHR ''1'')"

text \<open>The outcome of an auth request; \<open>Inl\<close> is \<open>error.message\<close>.\<close>

type_synonym 'a auth_result = "(string + 'a) \<times> auth_store \<times> db"

text \<open>\<open>signUp(email, password, userData)\<close>: the metadata only when \<open>userData\<close> is given.\<close>

definition signUp ::
  "string \<Rightarrow> string \<Rightarrow> (string option \<times> string option) option \<Rightarrow> auth_store \<Rightarrow> db \<Rightarrow> string auth_result" where
  "signUp email password userData au d =
     (let (err, d1) = call d in
      case err of
        Some msg \<Rightarrow> (Inl msg, au, d1)
      | None \<Rightarrow>
          if email \<in> acc_email ` set (au_accounts au) then (Inl ''User already registered'', au, d1)
          else
            (let i = new_user_id (au_next au);
                 (fn, ln) = (case userData of Some (f, l) \<Rightarrow> (f, l) | None \<Rightarrow> (None, None));
                 a = \<lparr>acc_id = i, acc_email = email, acc_password = password, acc_first_name = fn, acc_last_name = ln\<rparr>
             in (Inr i, au\<lparr>au_accounts := au_accounts au @ [a], au_next := Suc (au_next au)\<rparr>, d1)))"

text \<open>\<open>signIn(email, password)\<close>: \<open>signInWithPassword\<close>.\<close>

definition signIn :: "string \<Rightarrow> string \<Rightarrow> auth_store \<Rightarrow> db \<Rightarrow> string auth_result" where
  "signIn email password au d =
     (let (err, d1) = call d in
      case err of
        Some msg \<Rightarrow> (Inl msg, au, d1)
      | None \<Rightarrow>
          (case find (\<lambda>a. acc_email a = email \<and> acc_password a = password) (au_accounts au) of
             Some a \<Rightarrow> (Inr (acc_id a), au\<lparr>au_session := Some (acc_id a), au_events := au_events au @ [SignedIn (acc_id a)]\<rparr>, d1)
           | None \<Rightarrow> (Inl ''Invalid login credentials'', au, d1)))"

definition signOut :: "auth_store \<Rightarrow> db \<Rightarrow> unit auth_result" where
  "signOut au d =
     (let (err, d1) = call d in
      case err of
        Some msg \<Rightarrow> (Inl msg, au, d1)
      | None \<Rightarrow> (Inr (), au\<lparr>au_session := None, au_events := au_events au @ [SignedOut]\<rparr>, d1))"

definition getCurrentSession :: "auth_store \<Rightarrow> db \<Rightarrow> string option auth_result" where
  "getCurrentSession au d =
     (let (err, d1) = call d in
      case err of Some msg \<Rightarrow> (Inl msg, au, d1) | None \<Rightarrow> (Inr (au_session au), au, d1))"

definition resetPassword :: "string \<Rightarrow> auth_store \<Rightarrow> db \<Rightarrow> unit auth_result" where
  "resetPassword email au d =
     (let (err, d1) = call d in
      case err of Some msg \<Rightarrow> (Inl msg, au, d1) | None \<Rightarrow> (Inr (), au, d1))"

definition updatePassword :: "string \<Rightarrow> auth_store \<Rightarrow> db \<Rightarrow> unit auth_result" where
  "updatePassword newPassword au d =
     (let (err, d1) = call d in
      case err of
        Some msg \<Rightarrow> (Inl msg, au, d1)
      | None \<Rightarrow>
          (case au_session au of
             None \<Rightarrow> (Inl ''Auth session missing!'', au, d1)
           | Some u \<Rightarrow>
               (Inr (), au\<lparr>au_accounts := map (\<lambda>a. if acc_id a = u then a\<lparr>acc_password := newPassword\<rparr> else a) (au_accounts au)\<rparr>, d1)))"

section \<open>The provider\<close>

record auth_context =
  ac_user :: "string option"
  ac_session :: "string option"
  ac_loading :: bool
  ac_toast :: "string option"

definition initial_auth_context :: auth_context where
  "initial_auth_context = \<lparr>ac_user = None, ac_session = None, ac_loading = True, ac_toast = None\<rparr>"

text \<open>The \<open>onAuthStateChange\<close> listener, for one event with the session it carries.\<close>

definition on_auth_event :: "auth_event \<Rightarrow> auth_context \<Rightarrow> auth_context" where
  "on_auth_event e ctx =
     (case e of
        SignedIn u \<Rightarrow> ctx\<lparr>ac_session := Some u, ac_user := Some u, ac_loading := False, ac_toast := Some ''Signed in successfully''\<rparr>
      | SignedOut \<Rightarrow> ctx\<lparr>ac_session := None, ac_user := None, ac_loading := False, ac_toast := Some ''Signed out''\<rparr>)"

text \<open>\<open>getSession().then(...)\<close> at mount.\<close>

definition load_session :: "auth_context \<Rightarrow> auth_store \<Rightarrow> db \<Rightarrow> auth_context \<times> db" where
  "load_session ctx au d =
     (let (r, au1, d1) = getCurrentSession au d;
          s = (case r of Inr s \<Rightarrow> s | Inl _ \<Rightarrow> None)
      in (ctx\<lparr>ac_session := s, ac_user := s, ac_loading := False\<rparr>, d1))"

definition isAuthenticated :: "auth_context \<Rightarrow> bool" where
  "isAuthenticated ctx \<longleftrightarrow> ac_session ctx \<noteq> None"

text \<open>The provider's \<open>signIn\<close> and \<open>signUp\<close>: \<open>(success, error)\<close>, the error also toasted.\<close>

definition ctx_signIn :: "string \<Rightarrow> string \<Rightarrow> auth_context \<Rightarrow> auth_store \<Rightarrow> db
                          \<Rightarrow> (bool \<times> string option) \<times> auth_context \<times> auth_store \<times> db" where
  "ctx_signIn email password ctx au d =
     (let (r, au1, d1) = signIn email password au d in
      case r of
        Inl e \<Rightarrow> ((False, Some e), ctx\<lparr>ac_toast := Some e\<rparr>, au1, d1)
      | Inr _ \<Rightarrow> ((True, None), ctx, au1, d1))"

definition ctx_signUp :: "string \<Rightarrow> string \<Rightarrow> string option \<Rightarrow> string option \<Rightarrow> auth_context \<Rightarrow> auth_store \<Rightarrow> db
                          \<Rightarrow> (bool \<times> string option) \<times> auth_context \<times> auth_store \<times> db" where
  "ctx_signUp email password firstName lastName ctx au d =
     (let (r, au1, d1) = signUp email password (Some (firstName, lastName)) au d in
      case r of
        Inl e \<Rightarrow> ((False, Some e), ctx\<lparr>ac_toast := Some e\<rparr>, au1, d1)
      | Inr _ \<Rightarrow> ((True, None), ctx\<lparr>ac_toast := Some ''Account created successfully! You can now sign in.''\<rparr>, au1, d1))"

text \<open>The provider's \<open>signOut\<close>: the service's result is not read; the page goes home.\<close>

definition ctx_signOut :: "auth_context \<Rightarrow> auth_store \<Rightarrow> db \<Rightarrow> string \<times> auth_context \<times> auth_store \<times> db" where
  "ctx_signOut ctx au d = (let (r, au1, d1) = signOut au d in (''/'', ctx, au1, d1))"

definition ctx_resetPassword :: "string \<Rightarrow> auth_store \<Rightarrow> db \<Rightarrow> (bool \<times> string option) \<times> auth_store \<times> db" where
  "ctx_resetPassword email au d =
     (let (r, au1, d1) = resetPassword email au d in
      case r of Inl e \<Rightarrow> ((False, Some e), au1, d1) | Inr _ \<Rightarrow> ((True, None), au1, d1))"

section \<open>Login and register pages\<close>

text \<open>\<open>onSubmit\<close> of the login page: on success, navigate home.\<close>

definition login_onSubmit :: "string \<Rightarrow> string \<Rightarrow> auth_context \<Rightarrow> auth_store \<Rightarrow> db
                              \<Rightarrow> string option \<times> auth_context \<times> auth_store \<times> db" where
  "login_onSubmit email password ctx au d =
     (let ((ok, _), ctx1, au1, d1) = ctx_signIn email password ctx au d in
      (if ok then Some ''/'' else None, ctx1, au1, d1))"

text \<open>
  The register form's checks other than the email format: a name of at least two
  characters, a password of at least six, and a matching confirmation.
\<close>

definition register_valid :: "string \<Rightarrow> string \<Rightarrow> string \<Rightarrow> bool" where
  "register_valid name password confirmPassword \<longleftrightarrow>
     2 \<le> length name \<and> 6 \<le> length password \<and> password = confirmPassword"

text \<open>\<open>onSubmit\<close> of the register page: the name is passed as the first name; on success, to the login page.\<close>

definition register_onSubmit :: "string \<Rightarrow> string \<Rightarrow> string \<Rightarrow> auth_context \<Rightarrow> auth_store \<Rightarrow> db
                                 \<Rightarrow> string option \<times> auth_context \<times> auth_store \<times> db" where
  "register_onSubmit name email password ctx au d =
     (let ((ok, _), ctx1, au1, d1) = ctx_signUp email password (Some name) None ctx au d in
      (if ok then Some ''/login'' else None, ctx1, au1, d1))"

text \<open>The listener applied to the events not yet handled.\<close>

definition handle_events :: "auth_event list \<Rightarrow> auth_context \<Rightarrow> auth_context" where
  "handle_events es ctx = fold on_auth_event es ctx"

section \<open>Runs of the auth server\<close>

text \<open>The session an event leaves the listener with.\<close>

fun event_session :: "auth_event \<Rightarrow> string option \<Rightarrow> string option" where
  "event_session (SignedIn u) s = Some u"
| "event_session SignedOut s = None"

definition session_after :: "auth_event list \<Rightarrow> string option \<Rightarrow> string option" where
  "session_after es s = fold event_session es s"

text \<open>One request to the auth server, any arguments, any outcome.\<close>

inductive auth_step :: "auth_store \<Rightarrow> auth_store \<Rightarrow> bool" where
  sign_up: "auth_step au (fst (snd (signUp e p ud au d)))"
| sign_in: "auth_step au (fst (snd (signIn e p au d)))"
| sign_out: "auth_step au (fst (snd (signOut au d)))"
| get_session: "auth_step au (fst (snd (getCurrentSession au d)))"
| reset: "auth_step au (fst (snd (resetPassword e au d)))"
| update_pw: "auth_step au (fst (snd (updatePassword p au d)))"

definition empty_auth_store :: auth_store where
  "empty_auth_store = \<lparr>au_accounts = [], au_session = None, au_next = 0, au_events = []\<rparr>"

text \<open>A session belongs to an account, and no two accounts share an email.\<close>

definition auth_db :: db where
  "auth_db = \<lparr>books = [], carts = [], cart_items = [], orders = [], order_items = [], categories = [],
     profiles = [], resell_requests = [], reviews = [], testimonials = [], storage = [], next_id = 0, sched = []\<rparr>"

text \<open>Two accounts registered and the first signed in.\<close>

definition auth_run :: "auth_store list" where
  "auth_run =
     (let a1 = fst (snd (signUp ''asha@example.com'' ''secret1'' (Some (Some ''Asha'', None)) empty_auth_store auth_db));
          a2 = fst (snd (signUp ''ravi@example.com'' ''secret2'' None a1 auth_db));
          a3 = fst (snd (signIn ''asha@example.com'' ''secret1'' a2 auth_db))
      in [empty_auth_store, a1, a2, a3])"




lemma session_after_append: "session_after (xs @ ys) s = session_after ys (session_after xs s)"
  by (simp add: session_after_def)

lemma session_after_Nil [simp]: "session_after [] s = s"
  by (simp add: session_after_def)

lemma auth_step_events:
  "auth_step au au' \<Longrightarrow> \<exists>es. au_events au' = au_events au @ es \<and> au_session au' = session_after es (au_session au)"
proof (induction rule: auth_step.induct)
  case (sign_up e p ud au d)
  then show ?case by (auto simp: signUp_def Let_def split: prod.splits option.splits)
next
  case (sign_in e p au d)
  then show ?case
    by (auto simp: signIn_def session_after_def split: prod.splits option.splits intro: exI [of _ "[]"])
next
  case (sign_out au d)
  then show ?case by (auto simp: signOut_def session_after_def split: prod.splits option.splits)
next
  case (get_session au d)
  then show ?case by (auto simp: getCurrentSession_def split: prod.splits option.splits)
next
  case (reset e au d)
  then show ?case by (auto simp: resetPassword_def split: prod.splits option.splits)
next
  case (update_pw au p d)
  then show ?case by (auto simp: updatePassword_def split: prod.splits option.splits)
qed

lemma auth_run_events:
  "auth_step\<^sup>*\<^sup>* au au' \<Longrightarrow> \<exists>es. au_events au' = au_events au @ es \<and> au_session au' = session_after es (au_session au)"
proof (induction rule: rtranclp_induct)
  case base
  then show ?case by (auto intro: exI [of _ "[]"])
next
  case (step b c)
  then show ?case by (fastforce dest: auth_step_events simp: session_after_append)
qed

lemma handle_events_session: "ac_session (handle_events es ctx) = session_after es (ac_session ctx)"
proof (induction es arbitrary: ctx)
  case Nil
  then show ?case by (simp add: handle_events_def)
next
  case (Cons e es)
  then show ?case by (cases e) (simp_all add: handle_events_def session_after_def on_auth_event_def)
qed

text \<open>C11. The provider follows the auth server: if its session agrees with the
  server's at some point, then after any run of requests, once the listener has
  handled the events emitted since, its session is the server's and
  \<open>isAuthenticated\<close> holds exactly when the server has a session.\<close>

theorem auth_context_follows_server:
  assumes r: "auth_step\<^sup>*\<^sup>* au au'" and c: "ac_session ctx = au_session au"
  shows "ac_session (handle_events (drop (length (au_events au)) (au_events au')) ctx) = au_session au'
       \<and> (isAuthenticated (handle_events (drop (length (au_events au)) (au_events au')) ctx) \<longleftrightarrow> au_session au' \<noteq> None)"
proof -
  obtain es where "au_events au' = au_events au @ es" "au_session au' = session_after es (au_session au)"
    using auth_run_events [OF r] by blast
  then show ?thesis using c by (simp add: handle_events_session isAuthenticated_def)
qed


lemma signIn_needs_password:
  "fst (signIn email password au d) = Inr u \<Longrightarrow>
   \<exists>a \<in> set (au_accounts au). acc_id a = u \<and> acc_email a = email \<and> acc_password a = password"
  by (auto simp: signIn_def split: prod.splits option.splits dest!: find_Some_iff [THEN iffD1] intro: nth_mem)

lemma register_name_as_first_name:
  assumes "sched d = []" and "email \<notin> acc_email ` set (au_accounts au)"
  shows "fst (register_onSubmit name email pw ctx au d) = Some ''/login''
       \<and> au_accounts (fst (snd (snd (register_onSubmit name email pw ctx au d))))
           = au_accounts au @ [\<lparr>acc_id = new_user_id (au_next au), acc_email = email, acc_password = pw,
                               acc_first_name = Some name, acc_last_name = None\<rparr>]"
  using assms by (simp add: register_onSubmit_def ctx_signUp_def signUp_def call_Nil Let_def)


lemma auth_run_steps: "auth_step\<^sup>*\<^sup>* empty_auth_store (last auth_run)"
proof -
  have "auth_step (auth_run ! 0) (auth_run ! 1)" "auth_step (auth_run ! 1) (auth_run ! 2)"
       "auth_step (auth_run ! 2) (auth_run ! 3)"
    unfolding auth_run_def Let_def by (simp_all only: nth_Cons_0 nth_Cons_Suc numeral_nat auth_step.intros)
  then show ?thesis by (simp add: auth_run_def Let_def)
qed


theorem auth_context_follows_server_witness:
  "auth_step\<^sup>*\<^sup>* empty_auth_store (last auth_run)
   \<and> ac_session initial_auth_context = au_session empty_auth_store
   \<and> ac_session (handle_events (au_events (last auth_run)) initial_auth_context) = Some ''user-''
   \<and> isAuthenticated (handle_events (au_events (last auth_run)) initial_auth_context)"
proof -
  have "ac_session initial_auth_context = au_session empty_auth_store"
    by (simp add: initial_auth_context_def empty_auth_store_def)
  then show ?thesis
    using auth_context_follows_server [OF auth_run_steps] auth_run_steps
    by (simp add: auth_run_def Let_def signUp_def signIn_def auth_db_def empty_auth_store_def new_user_id_def call_def)
qed

end
