(* ===== verification/Navbar.thy ===== *)
theory Navbar
  imports Auth CartService OrderReads JsObject
begin

text \<open>
  The navigation bar, \<open>src/components/Navbar.tsx\<close>: its \<open>useState\<close> variables as a
  record, the scroll and location effects, the two menu toggles, the cart-count
  effect \<open>fetchCartItems\<close> (which composes \<open>getOrCreateCart\<close> and \<open>getCartItems\<close> of the
  cart service), and the user's display name and avatar initial read from the
  account's metadata. The lemmas show that over a reliable backend the badge counts
  the copies in the user's cart, that an \<open>addToCart\<close> raises it by the quantity added,
  that a failed refresh leaves the previous count, and that the initial is one character.
\<close>

record navbar =
  nv_isScrolled :: bool
  nv_isMenuOpen :: bool
  nv_isSearchOpen :: bool
  nv_cartItemsCount :: int

definition initial_navbar :: navbar where
  "initial_navbar = \<lparr>nv_isScrolled = False, nv_isMenuOpen = False, nv_isSearchOpen = False, nv_cartItemsCount = 0\<rparr>"

text \<open>\<open>isActive(path)\<close>: the link of the current location.\<close>

definition isActive :: "string \<Rightarrow> string \<Rightarrow> bool" where
  "isActive pathname path \<longleftrightarrow> pathname = path"

text \<open>\<open>handleScroll\<close>, the window's scroll listener.\<close>

definition handleScroll :: "int \<Rightarrow> navbar \<Rightarrow> navbar" where
  "handleScroll scrollY nv = nv\<lparr>nv_isScrolled := scrollY > 10\<rparr>"

text \<open>The effect on \<open>[location]\<close>: a navigation closes the mobile menu.\<close>

definition location_changed :: "navbar \<Rightarrow> navbar" where
  "location_changed nv = nv\<lparr>nv_isMenuOpen := False\<rparr>"

definition toggleSearch :: "navbar \<Rightarrow> navbar" where
  "toggleSearch nv = nv\<lparr>nv_isSearchOpen := \<not> nv_isSearchOpen nv\<rparr>"

definition toggleMenu :: "navbar \<Rightarrow> navbar" where
  "toggleMenu nv = nv\<lparr>nv_isMenuOpen := \<not> nv_isMenuOpen nv\<rparr>"

text \<open>
  \<open>fetchCartItems\<close>, run on mount, on every change of user or path, and every 30
  seconds: no user gives 0; a failed cart or items request only logs, leaving the
  count; otherwise the quantities of the cart's lines are summed.
\<close>

definition fetchCartItems :: "string option \<Rightarrow> navbar \<Rightarrow> db \<Rightarrow> navbar \<times> db" where
  "fetchCartItems user nv d =
     (case user of
        None \<Rightarrow> (nv\<lparr>nv_cartItemsCount := 0\<rparr>, d)
      | Some u \<Rightarrow>
          (case getOrCreateCart u d of
             (Inl _, d1) \<Rightarrow> (nv, d1)
           | (Inr cart, d1) \<Rightarrow>
               (case getCartItems (cart_id cart) d1 of
                  (Inl _, d2) \<Rightarrow> (nv, d2)
                | (Inr items, d2) \<Rightarrow>
                    (nv\<lparr>nv_cartItemsCount := foldl (\<lambda>total item. total + ci_quantity (fst item)) 0 items\<rparr>, d2))))"

text \<open>\<open>x || ''\<close> on an optional metadata string.\<close>

definition or_blank :: "string option \<Rightarrow> string" where
  "or_blank x = (case x of Some s \<Rightarrow> s | None \<Rightarrow> [])"

definition getUserDisplayName :: "account option \<Rightarrow> string" where
  "getUserDisplayName user =
     (case user of
        None \<Rightarrow> ''User''
      | Some a \<Rightarrow>
          if js_truthy (or_blank (acc_first_name a)) \<or> js_truthy (or_blank (acc_last_name a))
          then js_trim (or_blank (acc_first_name a) @ '' '' @ or_blank (acc_last_name a))
          else (let p = takeWhile (\<lambda>c. c \<noteq> CHR ''@'') (acc_email a) in if p = [] then ''User'' else p))"

definition getUserInitial :: "account option \<Rightarrow> string" where
  "getUserInitial user =
     (case user of
        None \<Rightarrow> ''U''
      | Some a \<Rightarrow>
          if js_truthy (or_blank (acc_first_name a)) then [upper_char (hd (or_blank (acc_first_name a)))]
          else (case acc_email a of [] \<Rightarrow> ''U'' | c # _ \<Rightarrow> [upper_char c]))"

definition navItems :: "(string \<times> string) list" where
  "navItems = [(''Home'', ''/''), (''Books'', ''/books''), (''About us'', ''/About''),
               (''Contact us'', ''/Contact''), (''Policies'', ''/policies'')]"

text \<open>The copies in a cart, as the badge should show them.\<close>

definition cart_copies :: "nat \<Rightarrow> db \<Rightarrow> int" where
  "cart_copies c d = sum_list (map ci_quantity (filter (\<lambda>r. ci_cart_id r = c) (cart_items d)))"

lemma foldl_quantity_sum:
  "foldl (\<lambda>total item. total + ci_quantity (fst item)) t items = t + sum_list (map (ci_quantity \<circ> fst) items)"
  by (induction items arbitrary: t) (simp_all add: algebra_simps)

lemma fetchCartItems_one_cart:
  assumes s: "sched d = []" and c: "filter (\<lambda>c. cart_user_id c = u) (carts d) = [c]"
  shows "fetchCartItems (Some u) nv d = (nv\<lparr>nv_cartItemsCount := cart_copies (cart_id c) d\<rparr>, d)"
  using s c by (simp add: fetchCartItems_def getOrCreateCart_def getCartItems_def call_Nil
                          foldl_quantity_sum cart_copies_def comp_def)

lemma fetchCartItems_no_user: "fetchCartItems None nv d = (nv\<lparr>nv_cartItemsCount := 0\<rparr>, d)"
  by (simp add: fetchCartItems_def)

lemma fetchCartItems_cart_error:
  assumes "sched d = Some e # rs"
  shows "fetchCartItems (Some u) nv d = (nv, d\<lparr>sched := rs\<rparr>)"
  using assms by (simp add: fetchCartItems_def getOrCreateCart_def call_Cons)

lemma sum_filter_update_one:
  assumes "distinct (map ci_id xs)" "ex \<in> set xs" "ci_cart_id ex = c"
  shows "sum_list (map ci_quantity (filter (\<lambda>r. ci_cart_id r = c) (map (\<lambda>x. if ci_id x = ci_id ex then x\<lparr>ci_quantity := ci_quantity ex + q\<rparr> else x) xs)))
       = sum_list (map ci_quantity (filter (\<lambda>r. ci_cart_id r = c) xs)) + q"
  using assms
proof (induction xs)
  case Nil
  then show ?case by simp
next
  case (Cons x xs)
  show ?case
  proof (cases "x = ex")
    case True
    then have "ci_id y \<noteq> ci_id ex" if "y \<in> set xs" for y using Cons.prems(1) that by (metis distinct.simps(2) image_eqI list.set_map list.simps(9))
    then have "map (\<lambda>x. if ci_id x = ci_id ex then x\<lparr>ci_quantity := ci_quantity ex + q\<rparr> else x) xs = xs"
      by (simp add: map_idI)
    then show ?thesis using True Cons.prems by simp
  next
    case False
    then have "ci_id x \<noteq> ci_id ex" using Cons.prems(1,2) by (auto simp: image_iff)
    then show ?thesis using Cons False by auto
  qed
qed

lemma addToCart_copies:
  assumes s: "sched d = []" and ids: "ids_ok d"
  shows "cart_copies c (snd (addToCart c b q k p d)) = cart_copies c d + q
       \<and> carts (snd (addToCart c b q k p d)) = carts d \<and> sched (snd (addToCart c b q k p d)) = []"
proof (cases "single (filter (cart_key_match c b k) (cart_items d))")
  case None
  then show ?thesis using s
    by (simp add: addToCart_def call_Nil fresh_id_eq cart_copies_def Let_def)
next
  case (Some ex)
  then have f: "filter (cart_key_match c b k) (cart_items d) = [ex]" by simp
  then have ex: "ex \<in> set (cart_items d)" "ci_cart_id ex = c"
    using filter_eq_single_mem [OF f] by (auto simp: cart_key_match_def)
  have dist: "distinct (map ci_id (cart_items d))" using ids by (simp add: ids_ok_def)
  have u: "filter (\<lambda>r. ci_id r = ci_id ex) (cart_items d) = [ex]"
    by (rule filter_key_single_mem [OF dist ex(1)])
  show ?thesis using s Some u sum_filter_update_one [OF dist ex]
    by (simp add: addToCart_def update_item_quantity_def call_Nil cart_copies_def)
qed

text \<open>C18. The cart badge follows the cart service: over a reliable backend, for a
  user with one cart, after \<open>addToCart\<close> of q copies (a new line or merged into an
  existing one) the navigation bar's refresh shows the cart's previous copies plus q.\<close>

theorem navbar_count_after_addToCart:
  assumes s: "sched d = []" and ids: "ids_ok d" and c: "filter (\<lambda>c. cart_user_id c = u) (carts d) = [c]"
  shows "fst (fetchCartItems (Some u) nv (snd (addToCart (cart_id c) b q k p d)))
       = nv\<lparr>nv_cartItemsCount := cart_copies (cart_id c) d + q\<rparr>"
proof -
  let ?d' = "snd (addToCart (cart_id c) b q k p d)"
  have "cart_copies (cart_id c) ?d' = cart_copies (cart_id c) d + q" "carts ?d' = carts d" "sched ?d' = []"
    using addToCart_copies [OF s ids] by blast+
  then show ?thesis using fetchCartItems_one_cart [of ?d' u c nv] c by simp
qed

lemma getUserInitial_one_char: "length (getUserInitial user) = 1"
  by (simp add: getUserInitial_def split: option.splits list.splits)

lemma registered_display_name:
  assumes "name \<noteq> []"
  shows "getUserDisplayName (Some \<lparr>acc_id = i, acc_email = e, acc_password = pw, acc_first_name = Some name, acc_last_name = None\<rparr>)
           = js_trim (name @ '' '')
       \<and> getUserInitial (Some \<lparr>acc_id = i, acc_email = e, acc_password = pw, acc_first_name = Some name, acc_last_name = None\<rparr>)
           = [upper_char (hd name)]"
  using assms by (simp add: getUserDisplayName_def getUserInitial_def or_blank_def js_truthy_def)

theorem navbar_count_after_addToCart_witness:
  "sched example_db = [] \<and> ids_ok example_db
   \<and> filter (\<lambda>c. cart_user_id c = ''u1'') (carts example_db) = [\<lparr>cart_id = 0, cart_user_id = ''u1''\<rparr>]
   \<and> nv_cartItemsCount (fst (fetchCartItems (Some ''u1'') initial_navbar (snd (addToCart 0 ''b1'' 2 False None example_db)))) = 13"
proof -
  have h: "sched example_db = []" "ids_ok example_db"
          "filter (\<lambda>c. cart_user_id c = ''u1'') (carts example_db) = [\<lparr>cart_id = 0, cart_user_id = ''u1''\<rparr>]"
    by (simp_all add: example_db_def ids_ok_def)
  have "cart_copies 0 example_db = 11" by (simp add: cart_copies_def example_db_def)
  then show ?thesis using h navbar_count_after_addToCart [OF h]
    by simp
qed

end
