(* ===== verification/AdminDashboard.thy ===== *)
theory AdminDashboard
  imports BookWrites
begin

text \<open>
  The admin dashboard, \<open>src/pages/admin/AdminDashboardPage.tsx\<close>: the category chart
  \<open>categoryData\<close>, which counts the books of the admin book query per
  \<open>book.category\<close> in a plain object and lists its entries, and the four summary
  counts. The object's key order is the one \<open>Object.entries\<close> gives: array-index keys
  first in ascending order, then the other keys in insertion order. The lemmas show
  that the chart counts every book once, and that on the rows the admin query returns
  it has the single bar \<open>Uncategorized\<close>.
\<close>

text \<open>A canonical array index: the decimal form of a number below \<open>2^32 - 1\<close>.\<close>

definition js_array_index :: "string \<Rightarrow> bool" where
  "js_array_index s \<longleftrightarrow> s \<noteq> [] \<and> list_all is_digit s \<and> (hd s = CHR ''0'' \<longrightarrow> s = ''0'')
     \<and> nat_of_digits s < 4294967295"

text \<open>\<open>Object.entries\<close> of an object built by assignments, as an association list in insertion order.\<close>

definition js_entries :: "(string \<times> 'a) list \<Rightarrow> (string \<times> 'a) list" where
  "js_entries kvs =
     sort_key (\<lambda>kv. nat_of_digits (fst kv)) (filter (\<lambda>kv. js_array_index (fst kv)) kvs)
     @ filter (\<lambda>kv. \<not> js_array_index (fst kv)) kvs"

text \<open>\<open>categories[k] = (categories[k] || 0) + 1\<close>.\<close>

fun js_incr :: "string \<Rightarrow> (string \<times> nat) list \<Rightarrow> (string \<times> nat) list" where
  "js_incr k [] = [(k, 1)]"
| "js_incr k ((k', n) # kvs) = (if k' = k then (k', n + 1) # kvs else (k', n) # js_incr k kvs)"

text \<open>
  \<open>book.category || "Uncategorized"\<close> followed by \<open>.trim()\<close>: a truthy value that is
  not a string has no \<open>trim\<close> and throws (\<open>None\<close>).
\<close>

definition category_key :: "js_value option \<Rightarrow> string option" where
  "category_key v =
     (case v of
        Some (JStr s) \<Rightarrow> Some (if s \<noteq> [] then s else ''Uncategorized'')
      | Some x \<Rightarrow> if js_value_truthy x then None else Some ''Uncategorized''
      | None \<Rightarrow> Some ''Uncategorized'')"

text \<open>The \<open>forEach\<close> over the rows; \<open>None\<close> when it throws.\<close>

fun category_counts :: "js_object list \<Rightarrow> (string \<times> nat) list \<Rightarrow> (string \<times> nat) list option" where
  "category_counts [] acc = Some acc"
| "category_counts (r # rs) acc =
     (case category_key (map_of r ''category'') of
        None \<Rightarrow> None
      | Some c \<Rightarrow> category_counts rs (js_incr (if js_trim c \<noteq> [] then c else ''Uncategorized'') acc))"

text \<open>\<open>categoryData\<close>: no rows yet gives no bars; \<open>None\<close> when the memo throws.\<close>

definition categoryData :: "js_object list option \<Rightarrow> (string \<times> nat) list option" where
  "categoryData booksData =
     (case booksData of
        None \<Rightarrow> Some []
      | Some rows \<Rightarrow> map_option (\<lambda>acc. filter (\<lambda>kv. js_trim (fst kv) \<noteq> []) (js_entries acc))
                                (category_counts rows []))"

text \<open>\<open>xs?.length || 0\<close> for the four summary cards, and the page's loading flag.\<close>

definition dashboard_count :: "'a list option \<Rightarrow> nat" where
  "dashboard_count xs = (case xs of None \<Rightarrow> 0 | Some ys \<Rightarrow> length ys)"

definition dashboard_loading :: "bool \<Rightarrow> bool \<Rightarrow> bool \<Rightarrow> bool \<Rightarrow> bool" where
  "dashboard_loading booksLoading ordersLoading resellLoading usersLoading \<longleftrightarrow>
     booksLoading \<or> ordersLoading \<or> resellLoading \<or> usersLoading"

text \<open>
  A row of the admin book query (\<open>select("*, categories:category_id(name)")\<close>): the
  book's columns; the joined \<open>categories\<close> key, an object, is not a \<open>category\<close> key and
  is left out.
\<close>

definition admin_book_object :: "book_row \<times> string option \<Rightarrow> js_object" where
  "admin_book_object bc = object_of_book_row (fst bc)"

text \<open>The cells of a row of the users table, \<open>AdminUsersPage.tsx\<close>.\<close>

definition or_not_provided :: "string option \<Rightarrow> string" where
  "or_not_provided x = (case x of Some s \<Rightarrow> if s \<noteq> [] then s else ''Not provided'' | None \<Rightarrow> ''Not provided'')"

definition profile_cells :: "profile_row \<Rightarrow> string list" where
  "profile_cells p =
     [take 8 (p_id p),
      (let f = (case p_first_name p of Some s \<Rightarrow> s | None \<Rightarrow> []);
           l = (case p_last_name p of Some s \<Rightarrow> s | None \<Rightarrow> [])
       in if f \<noteq> [] \<or> l \<noteq> [] then js_trim (f @ '' '' @ l) else ''Not provided''),
      or_not_provided (p_email p), or_not_provided (p_phone p), or_not_provided (p_address p)]"

lemma js_incr_sum: "sum_list (map snd (js_incr k acc)) = Suc (sum_list (map snd acc))"
  by (induction k acc rule: js_incr.induct) auto

lemma js_incr_keys: "set (map fst (js_incr k acc)) = insert k (set (map fst acc))"
  by (induction k acc rule: js_incr.induct) auto

lemma js_incr_distinct: "distinct (map fst acc) \<Longrightarrow> distinct (map fst (js_incr k acc))"
  by (induction k acc rule: js_incr.induct) (auto simp: js_incr_keys [simplified])

lemma js_trim_Uncategorized [simp]: "js_trim ''Uncategorized'' = ''Uncategorized''"
  by (simp add: js_trim_def js_space_def)

lemma category_counts_sum:
  "category_counts rs acc = Some acc' \<Longrightarrow> distinct (map fst acc) \<Longrightarrow> (\<forall>k \<in> set (map fst acc). js_trim k \<noteq> []) \<Longrightarrow>
   sum_list (map snd acc') = sum_list (map snd acc) + length rs \<and> distinct (map fst acc')
   \<and> (\<forall>k \<in> set (map fst acc'). js_trim k \<noteq> [])"
proof (induction rs acc rule: category_counts.induct)
  case (1 acc)
  then show ?case by simp
next
  case (2 r rs acc)
  from "2.prems"(1) obtain c where c: "category_key (map_of r ''category'') = Some c"
    and rec: "category_counts rs (js_incr (if js_trim c \<noteq> [] then c else ''Uncategorized'') acc) = Some acc'"
    by (simp split: option.splits)
  let ?k = "if js_trim c \<noteq> [] then c else ''Uncategorized''"
  have "js_trim ?k \<noteq> []" by (cases "js_trim c = []") simp_all
  then have "\<forall>k \<in> set (map fst (js_incr ?k acc)). js_trim k \<noteq> []"
    using "2.prems"(3) by (simp only: js_incr_keys) blast
  moreover have "distinct (map fst (js_incr ?k acc))" using "2.prems"(2) by (rule js_incr_distinct)
  ultimately have "sum_list (map snd acc') = sum_list (map snd (js_incr ?k acc)) + length rs
     \<and> distinct (map fst acc') \<and> (\<forall>k \<in> set (map fst acc'). js_trim k \<noteq> [])"
    using "2.IH" [OF c rec] by blast
  then show ?case by (simp add: js_incr_sum)
qed

lemma mset_js_entries: "mset (js_entries kvs) = mset kvs"
  by (simp add: js_entries_def)

theorem categoryData_counts_every_book:
  assumes "categoryData (Some rows) = Some bars"
  shows "sum_list (map snd bars) = length rows \<and> distinct (map fst bars)"
proof -
  obtain acc where acc: "category_counts rows [] = Some acc"
    and bars: "bars = filter (\<lambda>kv. js_trim (fst kv) \<noteq> []) (js_entries acc)"
    using assms unfolding categoryData_def by (cases "category_counts rows []") auto
  have inv: "sum_list (map snd acc) = length rows" "distinct (map fst acc)" "\<forall>k \<in> set (map fst acc). js_trim k \<noteq> []"
    using category_counts_sum [OF acc] by simp_all
  have m: "mset (js_entries acc) = mset acc" by (rule mset_js_entries)
  then have "set (js_entries acc) = set acc" by (metis set_mset_mset)
  moreover have "\<forall>kv \<in> set acc. js_trim (fst kv) \<noteq> []" using inv(3) by simp
  ultimately have "\<forall>kv \<in> set (js_entries acc). js_trim (fst kv) \<noteq> []" by simp
  then have f: "bars = js_entries acc" using bars by (simp only: filter_True)
  have "mset (map snd bars) = mset (map snd acc)" "mset (map fst bars) = mset (map fst acc)"
    by (simp_all only: f mset_map m)
  then have "sum_list (map snd bars) = sum_list (map snd acc)" "distinct (map fst bars)"
    using inv(2) by (metis sum_mset_sum_list, metis mset_eq_imp_distinct_iff)
  then show ?thesis using inv(1) by simp
qed

lemma object_of_book_row_no_category [simp]: "map_of (object_of_book_row b) ''category'' = None"
  by (simp add: object_of_book_row_def)

lemma category_counts_admin:
  "category_counts (map admin_book_object rows) [(''Uncategorized'', n)] = Some [(''Uncategorized'', n + length rows)]"
  by (induction rows arbitrary: n) (simp_all add: admin_book_object_def category_key_def)

lemma js_entries_Uncategorized: "js_entries [(''Uncategorized'', m)] = [(''Uncategorized'', m)]"
  by (simp add: js_entries_def js_array_index_def is_digit_def)

theorem dashboard_chart_all_uncategorized:
  "categoryData (Some (map admin_book_object rows))
     = Some (if rows = [] then [] else [(''Uncategorized'', length rows)])"
proof (cases rows)
  case Nil
  then show ?thesis by (simp add: categoryData_def js_entries_def)
next
  case (Cons r rs)
  have "category_counts (map admin_book_object rows) [] = Some [(''Uncategorized'', length rows)]"
    using category_counts_admin [of rs 1] Cons by (simp add: admin_book_object_def category_key_def)
  then show ?thesis using Cons by (simp add: categoryData_def js_entries_Uncategorized)
qed

lemma js_entries_index_keys_first:
  "js_entries [(''x'', 1::nat), (''15'', 1), (''2'', 2), (''02'', 1)] = [(''2'', 2), (''15'', 1), (''x'', 1), (''02'', 1)]"
  by (simp add: js_entries_def js_array_index_def is_digit_def nat_of_digits_def)

end
