(* ===== verification/HomePage.thy ===== *)
theory HomePage
  imports Catalog Pricing
begin

text \<open>
  The home page, \<open>src/pages/HomePage.tsx\<close>, and the book card it renders,
  \<open>src/components/BookCard.tsx\<close>. The page's effect \<open>fetchData\<close> runs the three reads of
  the books service (\<open>getFeaturedBooks\<close>, \<open>getTestimonials\<close>, \<open>getCategories\<close>); they are
  started together by \<open>Promise.all\<close> and each makes one request, so running them in
  order on the shared schedule reaches the same outcomes. The three sections share one
  \<open>error\<close> variable. The card's figures are its discount badge, its star row and its
  rental teaser. The lemmas show that a single failed read hides all three sections
  behind the last failure's message, that the discount lies in \<open>[0, 100]\<close> for a
  price not above the list price, and that the rental teaser is the cart's one-month
  rate.
\<close>

section \<open>Book card\<close>

record book_card =
  bc_isHovered :: bool
  bc_isWishlisted :: bool
  bc_imageError :: bool

definition initial_book_card :: book_card where
  "initial_book_card = \<lparr>bc_isHovered = False, bc_isWishlisted = False, bc_imageError = False\<rparr>"

definition handleImageError :: "book_card \<Rightarrow> book_card" where
  "handleImageError bc = bc\<lparr>bc_imageError := True\<rparr>"

definition setHovered :: "bool \<Rightarrow> book_card \<Rightarrow> book_card" where
  "setHovered h bc = bc\<lparr>bc_isHovered := h\<rparr>"

definition toggleWishlist :: "book_card \<Rightarrow> book_card" where
  "toggleWishlist bc = bc\<lparr>bc_isWishlisted := \<not> bc_isWishlisted bc\<rparr>"

text \<open>
  \<open>Math.round((originalPrice - price) / originalPrice * 100)\<close>; with a list price of 0
  the quotient is \<open>NaN\<close> or infinite (\<open>None\<close>).
\<close>

definition discount :: "book_model \<Rightarrow> int option" where
  "discount b =
     (if bm_originalPrice b = 0 then None
      else Some (js_round ((bm_originalPrice b - bm_price b) / bm_originalPrice b * 100)))"

text \<open>\<open>discount > 0\<close>: the badge; a comparison with \<open>NaN\<close> or \<open>-Infinity\<close> is false, with \<open>Infinity\<close> true.\<close>

definition discount_badge :: "book_model \<Rightarrow> bool" where
  "discount_badge b =
     (case discount b of
        Some n \<Rightarrow> 0 < n
      | None \<Rightarrow> bm_price b < 0)"

definition shows_list_price :: "book_model \<Rightarrow> bool" where
  "shows_list_price b \<longleftrightarrow> bm_price b < bm_originalPrice b"

text \<open>The five stars, the \<open>i\<close>-th filled when \<open>i < Math.floor(rating)\<close>.\<close>

definition star_fills :: "book_model \<Rightarrow> bool list" where
  "star_fills b = map (\<lambda>i. int i < \<lfloor>bm_rating b\<rfloor>) [0..<5]"

text \<open>\<open>Rent from \<open>Math.round(price * 0.4)\<close>/month\<close>, shown when \<open>hasRentOption\<close>.\<close>

definition rent_teaser :: "book_model \<Rightarrow> int option" where
  "rent_teaser b = (if bm_hasRentOption b = Some True then Some (js_round (bm_price b * 2/5)) else None)"

section \<open>Home page\<close>

record home_page =
  hp_featuredBooks :: "book_model list"
  hp_testimonials :: "testimonial list"
  hp_categories :: "(nat \<times> string) list"
  hp_loading :: bool
  hp_error :: "string option"

definition initial_home_page :: home_page where
  "initial_home_page = \<lparr>hp_featuredBooks = [], hp_testimonials = [], hp_categories = [],
                        hp_loading = True, hp_error = None\<rparr>"

text \<open>
  \<open>if (result.error) setError(result.error) else setX(result.x)\<close>: the services return
  an empty list beside their error, so an empty error message (falsy) sets the list to
  empty.
\<close>

definition take_result :: "(string + 'a list) \<Rightarrow> string option \<Rightarrow> 'a list \<Rightarrow> string option \<times> 'a list" where
  "take_result r err xs =
     (case r of
        Inl e \<Rightarrow> if js_truthy e then (Some e, xs) else (err, [])
      | Inr ys \<Rightarrow> (err, ys))"

definition fetchData :: "home_page \<Rightarrow> db \<Rightarrow> home_page \<times> db" where
  "fetchData hp d =
     (let (rb, d1) = getFeaturedBooks d;
          (rt, d2) = getTestimonials d1;
          (rc, d3) = getCategories d2;
          (e1, fb) = take_result (map_sum id bp_books rb) None (hp_featuredBooks hp);
          (e2, ts) = take_result rt e1 (hp_testimonials hp);
          (e3, cs) = take_result (map_sum id (\<lambda>r. zip [1..<Suc (length (fst r))] (fst r)) rc) e2 (hp_categories hp)
      in (hp\<lparr>hp_featuredBooks := fb, hp_testimonials := ts, hp_categories := cs,
              hp_loading := False, hp_error := e3\<rparr>, d3))"

text \<open>What a section shows: the skeleton, the error, or its items.\<close>

datatype 'a section_view = Skeleton | ErrorText string | Items "'a list"

definition section_view :: "home_page \<Rightarrow> 'a list \<Rightarrow> 'a section_view" where
  "section_view hp xs =
     (if hp_loading hp then Skeleton
      else case hp_error hp of Some e \<Rightarrow> ErrorText e | None \<Rightarrow> Items xs)"

definition categories_view :: "home_page \<Rightarrow> (nat \<times> string) section_view" where
  "categories_view hp =
     (case section_view hp (take 10 (hp_categories hp)) of
        ErrorText e \<Rightarrow> ErrorText (''Error loading categories: '' @ e)
      | v \<Rightarrow> v)"

lemma home_reads_outcome:
  assumes "sched d = r # rs"
  shows "snd (getFeaturedBooks d) = d\<lparr>sched := rs\<rparr> \<and> snd (getTestimonials d) = d\<lparr>sched := rs\<rparr>
       \<and> snd (getCategories d) = d\<lparr>sched := rs\<rparr>
       \<and> (case r of
            Some e \<Rightarrow> fst (getFeaturedBooks d) = Inl e \<and> fst (getTestimonials d) = Inl e \<and> fst (getCategories d) = Inl e
          | None \<Rightarrow> (\<exists>p. fst (getFeaturedBooks d) = Inr p) \<and> (\<exists>ts. fst (getTestimonials d) = Inr ts)
                  \<and> (\<exists>cs. fst (getCategories d) = Inr cs))"
  using assms
  by (cases r) (simp_all add: getFeaturedBooks_def getAllBooks_def run_books_query_def getTestimonials_def
                              getCategories_def call_Cons Let_def js_truthy_def)

lemma home_read_eq:
  assumes "sched d = r # rs"
  obtains pb ts cs where
    "getFeaturedBooks d = (case r of Some e \<Rightarrow> Inl e | None \<Rightarrow> Inr pb, d\<lparr>sched := rs\<rparr>)"
    "getTestimonials d = (case r of Some e \<Rightarrow> Inl e | None \<Rightarrow> Inr ts, d\<lparr>sched := rs\<rparr>)"
    "getCategories d = (case r of Some e \<Rightarrow> Inl e | None \<Rightarrow> Inr cs, d\<lparr>sched := rs\<rparr>)"
proof -
  have h: "snd (getFeaturedBooks d) = d\<lparr>sched := rs\<rparr>" "snd (getTestimonials d) = d\<lparr>sched := rs\<rparr>"
          "snd (getCategories d) = d\<lparr>sched := rs\<rparr>"
    using home_reads_outcome [OF assms] by simp_all
  show ?thesis
  proof (cases r)
    case None
    then obtain pb ts cs where "fst (getFeaturedBooks d) = Inr pb" "fst (getTestimonials d) = Inr ts"
      "fst (getCategories d) = Inr cs"
      using home_reads_outcome [OF assms] by auto
    then show ?thesis using that [of pb ts cs] h None by (metis option.simps(4) prod.collapse)
  next
    case (Some e)
    then have "fst (getFeaturedBooks d) = Inl e" "fst (getTestimonials d) = Inl e" "fst (getCategories d) = Inl e"
      using home_reads_outcome [OF assms] by auto
    then show ?thesis using that h Some by (metis option.simps(5) prod.collapse)
  qed
qed

text \<open>C20. The home page's three sections share one error: when any of its three
  reads fails with a message, every section (featured books, testimonials and
  categories) shows the message of the last failed read instead of its items, and
  the categories section presents it as an error loading categories.\<close>

theorem home_one_failure_hides_all:
  assumes s: "sched d = o1 # o2 # o3 # rs"
    and ne: "\<forall>e. Some e \<in> {o1, o2, o3} \<longrightarrow> e \<noteq> []"
    and f: "o1 \<noteq> None \<or> o2 \<noteq> None \<or> o3 \<noteq> None"
  shows "let hp' = fst (fetchData hp d);
             e = the (if o3 \<noteq> None then o3 else if o2 \<noteq> None then o2 else o1)
         in section_view hp' (hp_featuredBooks hp') = ErrorText e
          \<and> section_view hp' (hp_testimonials hp') = ErrorText e
          \<and> categories_view hp' = ErrorText (''Error loading categories: '' @ e)"
proof -
  let ?d1 = "d\<lparr>sched := o2 # o3 # rs\<rparr>" and ?d2 = "d\<lparr>sched := o3 # rs\<rparr>"
  obtain pb ts1 cs1 where b: "getFeaturedBooks d = (case o1 of Some e \<Rightarrow> Inl e | None \<Rightarrow> Inr pb, ?d1)"
    and "getTestimonials d = (case o1 of Some e \<Rightarrow> Inl e | None \<Rightarrow> Inr ts1, ?d1)"
    and "getCategories d = (case o1 of Some e \<Rightarrow> Inl e | None \<Rightarrow> Inr cs1, ?d1)"
    by (rule home_read_eq [OF s])
  have s1: "sched ?d1 = o2 # (o3 # rs)" by simp
  obtain pb2 ts cs2 where "getFeaturedBooks ?d1 = (case o2 of Some e \<Rightarrow> Inl e | None \<Rightarrow> Inr pb2, ?d1\<lparr>sched := o3 # rs\<rparr>)"
    and t: "getTestimonials ?d1 = (case o2 of Some e \<Rightarrow> Inl e | None \<Rightarrow> Inr ts, ?d1\<lparr>sched := o3 # rs\<rparr>)"
    and "getCategories ?d1 = (case o2 of Some e \<Rightarrow> Inl e | None \<Rightarrow> Inr cs2, ?d1\<lparr>sched := o3 # rs\<rparr>)"
    by (rule home_read_eq [OF s1])
  have s2: "sched ?d2 = o3 # rs" by simp
  obtain pb3 ts3 cs where "getFeaturedBooks ?d2 = (case o3 of Some e \<Rightarrow> Inl e | None \<Rightarrow> Inr pb3, ?d2\<lparr>sched := rs\<rparr>)"
    and "getTestimonials ?d2 = (case o3 of Some e \<Rightarrow> Inl e | None \<Rightarrow> Inr ts3, ?d2\<lparr>sched := rs\<rparr>)"
    and c: "getCategories ?d2 = (case o3 of Some e \<Rightarrow> Inl e | None \<Rightarrow> Inr cs, ?d2\<lparr>sched := rs\<rparr>)"
    by (rule home_read_eq [OF s2])
  have t': "getTestimonials ?d1 = (case o2 of Some e \<Rightarrow> Inl e | None \<Rightarrow> Inr ts, ?d2)" using t by simp
  show ?thesis
    using f ne b t' c
    by (cases o1; cases o2; cases o3)
       (simp_all add: fetchData_def take_result_def section_view_def categories_view_def js_truthy_def)
qed

lemma discount_bounds:
  assumes "0 < bm_originalPrice b" "0 \<le> bm_price b" "bm_price b \<le> bm_originalPrice b"
  shows "\<exists>n. discount b = Some n \<and> 0 \<le> n \<and> n \<le> 100"
proof -
  let ?x = "(bm_originalPrice b - bm_price b) / bm_originalPrice b * 100"
  have "0 \<le> ?x" using assms by simp
  moreover have "(bm_originalPrice b - bm_price b) / bm_originalPrice b \<le> 1"
    using assms by (simp add: divide_le_eq_1)
  then have "?x \<le> 1 * 100" by (rule mult_right_mono) simp
  then have "?x \<le> 100" by (simp only: mult_1)
  ultimately have "js_round 0 \<le> js_round ?x" "js_round ?x \<le> js_round 100"
    by (simp_all add: js_round_mono)
  moreover have "js_round 0 = 0" "js_round 100 = 100" by (simp_all add: js_round_def floor_eq_iff)
  ultimately show ?thesis using assms by (simp add: discount_def)
qed

lemma small_discount_no_badge:
  "shows_list_price (b\<lparr>bm_price := 996, bm_originalPrice := 1000\<rparr>)
   \<and> \<not> discount_badge (b\<lparr>bm_price := 996, bm_originalPrice := 1000\<rparr>)"
  by (simp add: shows_list_price_def discount_badge_def discount_def js_round_def)

lemma rent_teaser_one_month:
  "bm_hasRentOption b = Some True \<Longrightarrow> rent_teaser b = Some (js_round (bm_price b * rental_rate 1))"
  by (simp add: rent_teaser_def rental_rate_def)

theorem home_one_failure_hides_all_witness:
  "let hp' = fst (fetchData initial_home_page (catalog_db\<lparr>sched := [None, Some ''timeout'', None]\<rparr>))
   in section_view hp' (hp_featuredBooks hp') = ErrorText ''timeout''
    \<and> categories_view hp' = ErrorText ''Error loading categories: timeout''"
  using home_one_failure_hides_all [of "catalog_db\<lparr>sched := [None, Some ''timeout'', None]\<rparr>" None "Some ''timeout''" None "[]" initial_home_page]
  by (simp add: Let_def)

end
