(* ===== verification/BookForm.thy ===== *)
theory BookForm
  imports AdminBooks
begin

text \<open>
  The admin book dialogs, \<open>src/components/admin/books/\<close>: the inputs of
  \<open>BookForm.tsx\<close> and the handlers they call, the open-change and category handlers of
  \<open>BookDialog.tsx\<close>, and the buttons of \<open>DeleteBookDialog.tsx\<close>. A number input passes
  its text through \<open>Number\<close>; a browser's number input yields \<open>""\<close> or a decimal
  literal, and a value that is not finite is kept as \<open>null\<close>, the value \<open>JSON.stringify\<close>
  sends for it. The lemmas show that no input of the dialogs removes the model's
  camelCase keys from the form, so the save of C39 fails from every state the dialogs
  reach as well.
\<close>

text \<open>\<open>Number(s)\<close> on the strings a number input produces: white space trimmed, \<open>""\<close> is 0.\<close>

definition js_decimal_literal :: "string \<Rightarrow> bool" where
  "js_decimal_literal t =
     (let (sg, r) = js_sign t;
          ip = takeWhile is_digit r; r1 = drop (length ip) r;
          (fp, r2) = (case r1 of c # q \<Rightarrow> if c = CHR ''.'' then (takeWhile is_digit q, dropWhile is_digit q) else ([], r1)
                               | [] \<Rightarrow> ([], []))
      in (ip \<noteq> [] \<or> fp \<noteq> [])
         \<and> (case r2 of
              [] \<Rightarrow> True
            | e # q \<Rightarrow> (e = CHR ''e'' \<or> e = CHR ''E'') \<and> snd (js_sign q) \<noteq> [] \<and> list_all is_digit (snd (js_sign q))))"

definition js_Number :: "string \<Rightarrow> rat option" where
  "js_Number s =
     (let t = js_trim s in
      if t = [] then Some 0 else if js_decimal_literal t then parseFloat t else None)"

text \<open>The inputs of the form, by the name they pass to their handler.\<close>

datatype form_input =
    TextInput string string
  | NumberInput string string
  | SwitchInput string js_value
  | CategorySelect string

definition text_fields :: "string list" where
  "text_fields = [''title'', ''author'', ''coverImage'', ''isbn'', ''language'', ''publisher'',
                  ''publicationDate'', ''edition'', ''binding'', ''description'']"

definition number_fields :: "string list" where
  "number_fields = [''price'', ''originalPrice'', ''pageCount'']"

definition switch_fields :: "string list" where
  "switch_fields = [''stockStatus'', ''isNew'', ''hasFreeDelivery'', ''hasRentOption'', ''isAvailableForResell'']"

text \<open>An input the form has: a field of its kind, a string for the stock select, a flag for a switch.\<close>

fun form_input_ok :: "form_input \<Rightarrow> bool" where
  "form_input_ok (TextInput n v) \<longleftrightarrow> n \<in> set text_fields"
| "form_input_ok (NumberInput n v) \<longleftrightarrow> n \<in> set number_fields"
| "form_input_ok (SwitchInput n v) \<longleftrightarrow> n \<in> set switch_fields
     \<and> (if n = ''stockStatus'' then (\<exists>s. v = JStr s) else (\<exists>b. v = JBool b))"
| "form_input_ok (CategorySelect v) \<longleftrightarrow> True"

text \<open>\<open>BookDialog.handleCategoryChange\<close>: a change event named \<open>category\<close>.\<close>

definition handleCategoryChange :: "string \<Rightarrow> admin_books_page \<Rightarrow> admin_books_page" where
  "handleCategoryChange value st = handleChange ''category'' value st"

definition form_input_event :: "form_input \<Rightarrow> admin_books_page \<Rightarrow> admin_books_page" where
  "form_input_event i st =
     (case i of
        TextInput n v \<Rightarrow> handleChange n v st
      | NumberInput n v \<Rightarrow>
          (case js_Number v of
             Some q \<Rightarrow> handleNumberChange n q st
           | None \<Rightarrow> handleSwitchChange n JNull st)
      | SwitchInput n v \<Rightarrow> handleSwitchChange n v st
      | CategorySelect v \<Rightarrow> handleCategoryChange v st)"

text \<open>
  \<open>BookDialog.handleOpenChange\<close> with the page's \<open>setIsOpen\<close>: closing resets the form;
  the flag set is chosen by the \<open>bookToEdit\<close> of the render that handles the event.
\<close>

definition handleOpenChange :: "string \<Rightarrow> bool \<Rightarrow> admin_books_page \<Rightarrow> admin_books_page" where
  "handleOpenChange today isOpen st =
     (let st1 = (if \<not> isOpen then resetForm today st else st)
      in if abp_bookToEdit st \<noteq> None then st1\<lparr>abp_editOpen := isOpen\<rparr> else st1\<lparr>abp_addOpen := isOpen\<rparr>)"

text \<open>\<open>DeleteBookDialog\<close>: its open change and its cancel button (\<open>resetBookToDelete\<close>).\<close>

definition deleteOpenChange :: "bool \<Rightarrow> admin_books_page \<Rightarrow> admin_books_page" where
  "deleteOpenChange isOpen st = st\<lparr>abp_deleteOpen := isOpen\<rparr>"

definition resetBookToDelete :: "admin_books_page \<Rightarrow> admin_books_page" where
  "resetBookToDelete st = st\<lparr>abp_bookToDelete := None\<rparr>"

text \<open>The states the page reaches with its dialogs as well.\<close>

inductive dialog_reachable :: "string \<Rightarrow> admin_books_page \<Rightarrow> bool" for today where
  page: "admin_books_reachable today st \<Longrightarrow> dialog_reachable today st"
| input: "dialog_reachable today st \<Longrightarrow> dialog_reachable today (form_input_event i st)"
| open_change: "dialog_reachable today st \<Longrightarrow> dialog_reachable today (handleOpenChange today b st)"
| delete_open: "dialog_reachable today st \<Longrightarrow> dialog_reachable today (deleteOpenChange b st)"
| cancel_delete: "dialog_reachable today st \<Longrightarrow> dialog_reachable today (resetBookToDelete st)"
| submit: "dialog_reachable today st \<Longrightarrow> dialog_reachable today (fst (handleSubmit today st d))"

lemma js_Number_examples:
  "js_Number '''' = Some 0 \<and> js_Number '' 12.5 '' = Some (25/2) \<and> js_Number ''1e3'' = Some 1000
   \<and> js_Number ''-.5'' = Some (-1/2) \<and> js_Number ''5.'' = Some 5 \<and> js_Number ''.'' = None \<and> js_Number ''1e'' = None"
  by (simp add: js_Number_def js_decimal_literal_def parseFloat_def js_trim_def js_space_def js_sign_def
      is_digit_def nat_of_digits_def js_exponent_def pow10_def)

lemma form_input_event_prefix:
  "form_prefix_ok (abp_formData st) \<Longrightarrow> form_prefix_ok (abp_formData (form_input_event i st))"
  by (simp add: form_input_event_def handleChange_def handleNumberChange_def handleSwitchChange_def
      handleCategoryChange_def form_prefix_js_set split: form_input.split option.split)

lemma dialog_form_prefix:
  "dialog_reachable today st \<Longrightarrow> form_prefix_ok (abp_formData st)"
proof (induction rule: dialog_reachable.induct)
  case (page st)
  then show ?case by (rule admin_books_form_prefix)
next
  case (input st i)
  then show ?case by (simp add: form_input_event_prefix)
next
  case (open_change st b)
  then show ?case by (simp add: handleOpenChange_def resetForm_def empty_book_form_prefix Let_def)
next
  case (submit st d)
  then show ?case
    by (simp add: handleSubmit_def resetForm_def empty_book_form_prefix split: option.split prod.split)
qed (simp_all add: deleteOpenChange_def resetBookToDelete_def)

theorem dialog_saves_fail:
  assumes "dialog_reachable today st"
  shows "tables (snd (handleSubmit today st d)) = tables d"
proof -
  have u: "unknown_column books_columns (abp_formData st) = Some ''coverImage''"
    using dialog_form_prefix [OF assms] by (rule unknown_column_coverImage)
  have t: "tables (snd (call d)) = tables d" by (rule call_tables_eq [OF prod.collapse [symmetric]])
  show ?thesis
    using admin_write_unknown_column [OF u, where d = d] t
    by (simp add: handleSubmit_def split: option.split prod.split)
qed

lemma close_edit_dialog:
  "abp_bookToEdit st = Some b \<Longrightarrow>
   handleOpenChange today False st = st\<lparr>abp_formData := empty_book_form today, abp_bookToEdit := None, abp_editOpen := False\<rparr>"
  by (simp add: handleOpenChange_def resetForm_def)

end
