(* ===== verification/TableTypes.thy ===== *)
theory TableTypes
  imports AdminBooks Checkout UserService
begin

text \<open>
  The \<open>Insert\<close> and \<open>Update\<close> types of the generated client
  (\<open>src/integrations/supabase/types.ts\<close>) for the tables the services write, and the
  objects the services send: one column list per table, a column's type, whether an
  insert must give it, and whether it takes \<open>null\<close>. Every \<open>Update\<close> type is its
  \<open>Insert\<close> type with every column optional. Generated uuids are the strings
  \<^const>\<open>uuid_of\<close> of the model's natural ids; a rental's end date is the
  \<open>YYYY-MM-DD\<close> prefix of \<open>toISOString\<close>. The lemmas show that every object the cart,
  order and user services send is an instance of its table's type.
\<close>

datatype col_type = TText | TNumber | TBoolean

type_synonym column = "string \<times> col_type \<times> bool \<times> bool"

definition col :: "string \<Rightarrow> col_type \<Rightarrow> bool \<Rightarrow> bool \<Rightarrow> column" where
  "col name ty required nullable = (name, ty, required, nullable)"

definition value_has_type :: "col_type \<Rightarrow> bool \<Rightarrow> js_value \<Rightarrow> bool" where
  "value_has_type ty nullable v =
     (case v of
        JNull \<Rightarrow> nullable
      | JStr _ \<Rightarrow> ty = TText
      | JNum _ \<Rightarrow> ty = TNumber
      | JBool _ \<Rightarrow> ty = TBoolean
      | JArr _ \<Rightarrow> False)"

text \<open>An object is an instance of a table type: known columns, each once, of their types, every required one given.\<close>

definition instance_of :: "column list \<Rightarrow> js_object \<Rightarrow> bool" where
  "instance_of spec obj \<longleftrightarrow>
     distinct (map fst obj)
     \<and> list_all (\<lambda>(k, v). case map_of spec k of
                             None \<Rightarrow> False
                           | Some (ty, _, nullable) \<Rightarrow> value_has_type ty nullable v) obj
     \<and> list_all (\<lambda>(k, ty, required, _). required \<longrightarrow> k \<in> set (map fst obj)) spec"

definition all_optional :: "column list \<Rightarrow> column list" where
  "all_optional spec = map (\<lambda>(k, ty, required, nullable). (k, ty, False, nullable)) spec"

definition books_insert :: "column list" where
  "books_insert =
     [col ''author'' TText True False, col ''binding'' TText True False, col ''category_id'' TNumber False True,
      col ''cover_image'' TText True False, col ''created_at'' TText False True, col ''description'' TText True False,
      col ''edition'' TText False True, col ''has_free_delivery'' TBoolean False True,
      col ''has_rent_option'' TBoolean False True, col ''id'' TText False False,
      col ''is_available_for_resell'' TBoolean False True, col ''is_new'' TBoolean False True,
      col ''isbn'' TText True False, col ''language'' TText True False, col ''original_price'' TNumber True False,
      col ''page_count'' TNumber True False, col ''price'' TNumber True False,
      col ''publication_date'' TText False True, col ''publisher'' TText True False,
      col ''rating'' TNumber False True, col ''reviews'' TNumber False True, col ''stock_status'' TText True False,
      col ''title'' TText True False, col ''updated_at'' TText False True]"

definition cart_items_insert :: "column list" where
  "cart_items_insert =
     [col ''book_id'' TText True False, col ''cart_id'' TText True False, col ''created_at'' TText False True,
      col ''id'' TText False False, col ''is_rental'' TBoolean False True, col ''quantity'' TNumber False False,
      col ''rental_period'' TNumber False True]"

definition carts_insert :: "column list" where
  "carts_insert =
     [col ''created_at'' TText False True, col ''id'' TText False False, col ''updated_at'' TText False True,
      col ''user_id'' TText True False]"

definition order_items_insert :: "column list" where
  "order_items_insert =
     [col ''book_id'' TText True False, col ''created_at'' TText False True, col ''id'' TText False False,
      col ''is_rental'' TBoolean False True, col ''order_id'' TText True False, col ''price'' TNumber True False,
      col ''quantity'' TNumber False False, col ''rental_end_date'' TText False True,
      col ''rental_period'' TNumber False True]"

definition orders_insert :: "column list" where
  "orders_insert =
     [col ''created_at'' TText False True, col ''id'' TText False False, col ''payment_method'' TText True False,
      col ''shipping_address'' TText True False, col ''shipping_city'' TText True False,
      col ''shipping_country'' TText True False, col ''shipping_state'' TText True False,
      col ''shipping_zip'' TText True False, col ''status'' TText True False, col ''total_amount'' TNumber True False,
      col ''updated_at'' TText False True, col ''user_id'' TText True False]"

definition profiles_insert :: "column list" where
  "profiles_insert =
     [col ''address'' TText False True, col ''created_at'' TText False True, col ''email'' TText False True,
      col ''first_name'' TText False True, col ''id'' TText True False, col ''last_name'' TText False True,
      col ''phone'' TText False True, col ''updated_at'' TText False True]"

definition reviews_insert :: "column list" where
  "reviews_insert =
     [col ''book_id'' TText True False, col ''comment'' TText False True, col ''created_at'' TText False True,
      col ''id'' TText False False, col ''rating'' TNumber True False, col ''user_id'' TText True False]"

section \<open>Dates\<close>

text \<open>The civil date of a day number (days since 1970-01-01), proleptic Gregorian.\<close>

definition civil_of_day :: "int \<Rightarrow> int \<times> int \<times> int" where
  "civil_of_day days =
     (let z = days + 719468;
          era = z div 146097;
          doe = z - era * 146097;
          yoe = (doe - doe div 1460 + doe div 36524 - doe div 146096) div 365;
          doy = doe - (365 * yoe + yoe div 4 - yoe div 100);
          mp = (5 * doy + 2) div 153;
          d = doy - (153 * mp + 2) div 5 + 1;
          m = (if mp < 10 then mp + 3 else mp - 9);
          y = yoe + era * 400 + (if m \<le> 2 then 1 else 0)
      in (y, m, d))"

definition pad_left :: "nat \<Rightarrow> string \<Rightarrow> string" where
  "pad_left n s = replicate (n - length s) (CHR ''0'') @ s"

text \<open>\<open>toISOString().split("T")[0]\<close>: four-digit years, six digits and a sign outside 0--9999.\<close>

definition iso_date_of_day :: "int \<Rightarrow> string" where
  "iso_date_of_day days =
     (let (y, m, d) = civil_of_day days;
          ys = (if 0 \<le> y \<and> y \<le> 9999 then pad_left 4 (string_of_nat (nat y))
                else (if y < 0 then ''-'' else ''+'') @ pad_left 6 (string_of_nat (nat \<bar>y\<bar>)))
      in ys @ ''-'' @ pad_left 2 (string_of_nat (nat m)) @ ''-'' @ pad_left 2 (string_of_nat (nat d)))"

section \<open>The objects the services send\<close>

definition cart_insert_object :: "string \<Rightarrow> js_object" where
  "cart_insert_object userId = [(''user_id'', JStr userId)]"

definition cart_item_insert_object :: "nat \<Rightarrow> string \<Rightarrow> int \<Rightarrow> bool \<Rightarrow> int option \<Rightarrow> js_object" where
  "cart_item_insert_object cartId bookId quantity isRental rentalPeriod =
     js_defined [(''cart_id'', Some (JStr (uuid_of cartId))), (''book_id'', Some (JStr bookId)),
                 (''quantity'', Some (JNum (of_int quantity))), (''is_rental'', Some (JBool isRental)),
                 (''rental_period'', map_option (JNum \<circ> of_int) rentalPeriod)]"

definition quantity_update_object :: "int \<Rightarrow> js_object" where
  "quantity_update_object quantity = [(''quantity'', JNum (of_int quantity))]"

definition order_insert_object :: "string \<Rightarrow> money \<Rightarrow> shipping_info \<Rightarrow> string \<Rightarrow> js_object" where
  "order_insert_object userToUse totalAmount shippingInfo paymentMethod =
     [(''user_id'', JStr userToUse), (''status'', JStr ''pending''), (''total_amount'', JNum totalAmount),
      (''shipping_address'', JStr (sh_address shippingInfo)), (''shipping_city'', JStr (sh_city shippingInfo)),
      (''shipping_state'', JStr (sh_state shippingInfo)), (''shipping_zip'', JStr (sh_zip shippingInfo)),
      (''shipping_country'', JStr (sh_country shippingInfo)), (''payment_method'', JStr paymentMethod)]"

definition order_item_object :: "nat \<Rightarrow> int \<Rightarrow> order_input \<Rightarrow> js_object" where
  "order_item_object orderId now item =
     [(''order_id'', JStr (uuid_of orderId)), (''book_id'', JStr (in_book_id item)),
      (''quantity'', JNum (of_int (in_quantity item))), (''price'', JNum (in_price item)),
      (''is_rental'', JBool (in_is_rental item)),
      (''rental_period'', js_opt (JNum \<circ> of_int) (in_rental_period item)),
      (''rental_end_date'',
         if in_is_rental item then JStr (iso_date_of_day (rental_end_day now (in_rental_period item))) else JNull)]"

definition review_insert_object :: "string \<Rightarrow> string \<Rightarrow> int \<Rightarrow> string \<Rightarrow> js_object" where
  "review_insert_object userToUse bookId rating comment =
     [(''user_id'', JStr userToUse), (''book_id'', JStr bookId), (''rating'', JNum (of_int rating)),
      (''comment'', JStr comment)]"

definition review_update_object :: "int \<Rightarrow> string \<Rightarrow> js_object" where
  "review_update_object rating comment = [(''rating'', JNum (of_int rating)), (''comment'', JStr comment)]"

definition book_rating_object :: "review_row list \<Rightarrow> js_object" where
  "book_rating_object rs = [(''rating'', JNum (rating_avg rs)), (''reviews'', JNum (of_nat (length rs)))]"

definition profile_update_object :: "profile_update \<Rightarrow> js_object" where
  "profile_update_object pu =
     js_defined [(''first_name'', map_option JStr (pu_first_name pu)), (''last_name'', map_option JStr (pu_last_name pu)),
                 (''phone'', map_option JStr (pu_phone pu)), (''address'', map_option JStr (pu_address pu)),
                 (''email'', map_option JStr (pu_email pu))]"

lemma instance_cart: "instance_of carts_insert (cart_insert_object u)"
  by (simp add: instance_of_def carts_insert_def col_def cart_insert_object_def value_has_type_def)

lemma instance_cart_item:
  "instance_of cart_items_insert (cart_item_insert_object c b q k p)"
  by (cases p) (simp_all add: instance_of_def cart_items_insert_def col_def cart_item_insert_object_def
                     value_has_type_def js_defined_def)

lemma instance_quantity_update:
  "instance_of (all_optional cart_items_insert) (quantity_update_object q)"
  by (simp add: instance_of_def all_optional_def cart_items_insert_def col_def quantity_update_object_def
      value_has_type_def)

lemma instance_order:
  "instance_of orders_insert (order_insert_object u t sh pm)"
  by (simp add: instance_of_def orders_insert_def col_def order_insert_object_def value_has_type_def)

lemma instance_order_item:
  "instance_of order_items_insert (order_item_object oid now item)"
  by (simp add: instance_of_def order_items_insert_def col_def order_item_object_def value_has_type_def
      js_opt_def split: option.split)

lemma instance_review:
  "instance_of reviews_insert (review_insert_object u b r c)"
  by (simp add: instance_of_def reviews_insert_def col_def review_insert_object_def value_has_type_def)

lemma instance_review_update:
  "instance_of (all_optional reviews_insert) (review_update_object r c)"
  by (simp add: instance_of_def all_optional_def reviews_insert_def col_def review_update_object_def
      value_has_type_def)

lemma instance_book_rating:
  "instance_of (all_optional books_insert) (book_rating_object rs)"
  by (simp add: instance_of_def all_optional_def books_insert_def col_def book_rating_object_def
      value_has_type_def)

lemma instance_profile_update:
  "instance_of (all_optional profiles_insert) (profile_update_object pu)"
proof -
  show ?thesis
    by (cases "pu_first_name pu"; cases "pu_last_name pu"; cases "pu_phone pu"; cases "pu_address pu";
        cases "pu_email pu")
       (simp_all add: instance_of_def all_optional_def profiles_insert_def col_def profile_update_object_def
          value_has_type_def js_defined_def)
qed

lemma order_item_object_end_date:
  "map_of (order_item_object oid now item) ''rental_end_date''
     = Some (js_opt (JStr \<circ> iso_date_of_day) (oi_rental_end_date (order_item_of n oid now item)))"
  by (simp add: order_item_object_def order_item_of_def js_opt_def)

lemma iso_date_examples:
  "iso_date_of_day 20766 = ''2026-11-09'' \<and> iso_date_of_day (-1) = ''1969-12-31''"
  by code_simp

text \<open>C28. Every object the cart, order and user services send to the backend is an
  instance of its table's generated type: the cart and its lines, a line's new
  quantity, the order header and each order line (its end date an ISO date string),
  a review and its update, a book's recomputed rating, and a profile update.\<close>

theorem service_writes_well_typed:
  "instance_of carts_insert (cart_insert_object u)
   \<and> instance_of cart_items_insert (cart_item_insert_object c b q k p)
   \<and> instance_of (all_optional cart_items_insert) (quantity_update_object q')
   \<and> instance_of orders_insert (order_insert_object u' t sh pm)
   \<and> instance_of order_items_insert (order_item_object oid now item)
   \<and> instance_of reviews_insert (review_insert_object ru rb r cm)
   \<and> instance_of (all_optional reviews_insert) (review_update_object r' cm')
   \<and> instance_of (all_optional books_insert) (book_rating_object rs)
   \<and> instance_of (all_optional profiles_insert) (profile_update_object pu)"
  by (simp add: instance_cart instance_cart_item instance_quantity_update instance_order instance_order_item
      instance_review instance_review_update instance_book_rating instance_profile_update)

end
