(* ===== verification/Routing.thy ===== *)
theory Routing
  imports Navbar JsObject Query
begin

text \<open>
  The router of \<open>src/App.tsx\<close> and the admin layout's navigation
  (\<open>src/components/admin/AdminLayout.tsx\<close>). A route path is a list of segment
  patterns; React Router matches the pathname against each route case-insensitively,
  a \<open>:param\<close> segment taking one non-empty segment, trailing slashes allowed, and the
  catch-all \<open>*\<close> last. Query strings are not part of the pathname. The lemmas show that
  every link of the navigation bars reaches a page, that two links of the shop reach
  the not-found page, that book links round-trip through the detail route, and that
  the admin pages are routed with no guard.
\<close>

datatype app_page =
    HomePageR | BookListingR | BookDetailR string | CartR | OrderConfirmationR | LoginR | RegisterR
  | ProfileR | AboutR | ContactR | PoliciesR
  | AdminDashboardR | AdminBooksR | AdminOrdersR | FeatureRemovedR | AdminUsersR
  | NotFoundR

datatype layout = MainLayout | AdminLayout | NoLayout

datatype segment = Lit string | Param

text \<open>The route table: the nested routes joined to full paths, in the order of the code.\<close>

definition app_routes :: "(segment list \<times> (string list \<Rightarrow> app_page)) list" where
  "app_routes =
     [([], \<lambda>_. HomePageR),
      ([Lit ''books''], \<lambda>_. BookListingR),
      ([Lit ''books'', Param], \<lambda>ps. BookDetailR (hd ps)),
      ([Lit ''cart''], \<lambda>_. CartR),
      ([Lit ''order-confirmation''], \<lambda>_. OrderConfirmationR),
      ([Lit ''login''], \<lambda>_. LoginR),
      ([Lit ''register''], \<lambda>_. RegisterR),
      ([Lit ''profile''], \<lambda>_. ProfileR),
      ([Lit ''about''], \<lambda>_. AboutR),
      ([Lit ''contact''], \<lambda>_. ContactR),
      ([Lit ''policies''], \<lambda>_. PoliciesR),
      ([Lit ''admin''], \<lambda>_. AdminDashboardR),
      ([Lit ''admin'', Lit ''books''], \<lambda>_. AdminBooksR),
      ([Lit ''admin'', Lit ''orders''], \<lambda>_. AdminOrdersR),
      ([Lit ''admin'', Lit ''resell''], \<lambda>_. FeatureRemovedR),
      ([Lit ''admin'', Lit ''users''], \<lambda>_. AdminUsersR)]"

definition layout_of :: "app_page \<Rightarrow> layout" where
  "layout_of p =
     (case p of
        AdminDashboardR \<Rightarrow> AdminLayout | AdminBooksR \<Rightarrow> AdminLayout | AdminOrdersR \<Rightarrow> AdminLayout
      | FeatureRemovedR \<Rightarrow> AdminLayout | AdminUsersR \<Rightarrow> AdminLayout
      | NotFoundR \<Rightarrow> NoLayout
      | _ \<Rightarrow> MainLayout)"

text \<open>The segments of a pathname: after the leading slash, trailing slashes dropped.\<close>

definition path_segments :: "string \<Rightarrow> string list option" where
  "path_segments pathname =
     (case pathname of
        c # rest \<Rightarrow>
          if c = CHR ''/'' then
            (let r = rev (dropWhile (\<lambda>x. x = CHR ''/'') (rev rest)) in
             Some (if r = [] then [] else js_split (CHR ''/'') r))
          else None
      | [] \<Rightarrow> Some [])"

fun match_segments :: "segment list \<Rightarrow> string list \<Rightarrow> string list option" where
  "match_segments [] [] = Some []"
| "match_segments (Lit l # ps) (s # ss) =
     (if map lower_char l = map lower_char s then match_segments ps ss else None)"
| "match_segments (Param # ps) (s # ss) =
     (if s \<noteq> [] then map_option (Cons s) (match_segments ps ss) else None)"
| "match_segments _ _ = None"

fun first_route :: "(segment list \<times> (string list \<Rightarrow> app_page)) list \<Rightarrow> string list \<Rightarrow> app_page" where
  "first_route [] ss = NotFoundR"
| "first_route ((pat, page) # rs) ss =
     (case match_segments pat ss of Some ps \<Rightarrow> page ps | None \<Rightarrow> first_route rs ss)"

definition route :: "string \<Rightarrow> app_page" where
  "route pathname = (case path_segments pathname of Some ss \<Rightarrow> first_route app_routes ss | None \<Rightarrow> NotFoundR)"

text \<open>\<open>AdminLayout\<close>: its links and when one is highlighted.\<close>

definition admin_navItems :: "(string \<times> string) list" where
  "admin_navItems = [(''/admin'', ''Dashboard''), (''/admin/books'', ''Books''), (''/admin/orders'', ''Orders''),
                     (''/admin/resell'', ''Resell Requests''), (''/admin/users'', ''Users'')]"

definition admin_isActive :: "string \<Rightarrow> string \<Rightarrow> bool" where
  "admin_isActive pathname path \<longleftrightarrow>
     (path = ''/admin'' \<and> pathname = ''/admin'') \<or> (path \<noteq> ''/admin'' \<and> prefix path pathname)"

lemma nav_links_reach_pages:
  "\<forall>(label, path) \<in> set navItems. route path \<noteq> NotFoundR \<and> layout_of (route path) = MainLayout"
  by code_simp

lemma admin_nav_links_reach_admin_pages:
  "\<forall>(path, label) \<in> set admin_navItems. layout_of (route path) = AdminLayout"
  by code_simp

lemma dead_links:
  "route ''/resell'' = NotFoundR \<and> route ''/account/orders'' = NotFoundR \<and> route ''/rent'' = NotFoundR"
  by code_simp

lemma admin_isActive_prefix: "admin_isActive ''/admin/bookstore'' ''/admin/books''"
  by (simp add: admin_isActive_def)

lemma last_not_slash: "i \<noteq> [] \<Longrightarrow> CHR ''/'' \<notin> set i \<Longrightarrow> dropWhile (\<lambda>x. x = CHR ''/'') (rev i @ ys) = rev i @ ys"
  by (cases "rev i") auto

lemma lower_books [simp]: "map lower_char ''books'' = ''books''"
  by (simp add: lower_char_def)

theorem book_link_route:
  assumes "i \<noteq> []" and "CHR ''/'' \<notin> set i"
  shows "route (''/books/'' @ i) = BookDetailR i"
  using assms by (simp add: route_def path_segments_def app_routes_def last_not_slash js_split_concat)

end
