(* ===== verification/FormSchemas.thy ===== *)
theory FormSchemas
  imports Checkout Auth
begin

text \<open>
  The zod schemas of the order form (\<open>src/components/OrderForm.tsx\<close>), the login page
  and the register page. \<open>z.string().min(n)\<close> is a length bound; the address check of
  \<open>.email()\<close> belongs to the zod library, not to this repository, and is a parameter
  \<open>is_email\<close>. A schema gives the list of its failing fields with their messages, in the
  order of the schema; the object-level \<open>refine\<close> of the register schema runs after the
  field checks, whose failures do not abort the parse. \<open>react-hook-form\<close> calls
  \<open>onSubmit\<close> only when the list is empty.
\<close>

definition min_check :: "string \<Rightarrow> nat \<Rightarrow> string \<Rightarrow> string \<Rightarrow> (string \<times> string) list" where
  "min_check field n msg s = (if n \<le> length s then [] else [(field, msg)])"

definition email_check :: "(string \<Rightarrow> bool) \<Rightarrow> string \<Rightarrow> string \<Rightarrow> string \<Rightarrow> (string \<times> string) list" where
  "email_check is_email field msg s = (if is_email s then [] else [(field, msg)])"

definition order_form_errors :: "(string \<Rightarrow> bool) \<Rightarrow> form_values \<Rightarrow> (string \<times> string) list" where
  "order_form_errors is_email v =
     min_check ''fullName'' 3 ''Full name is required (min 3 characters)'' (fv_fullName v)
     @ email_check is_email ''email'' ''Please enter a valid email address'' (fv_email v)
     @ min_check ''phone'' 10 ''Please enter a valid phone number'' (fv_phone v)
     @ min_check ''address'' 5 ''Address is required (min 5 characters)'' (fv_address v)
     @ min_check ''city'' 2 ''City is required'' (fv_city v)
     @ min_check ''pincode'' 6 ''Please enter a valid pincode'' (fv_pincode v)
     @ min_check ''state'' 2 ''State is required'' (fv_state v)"

definition login_form_errors :: "(string \<Rightarrow> bool) \<Rightarrow> string \<Rightarrow> string \<Rightarrow> (string \<times> string) list" where
  "login_form_errors is_email email password =
     email_check is_email ''email'' ''Please enter a valid email address'' email
     @ min_check ''password'' 1 ''Password is required'' password"

definition register_form_errors ::
  "(string \<Rightarrow> bool) \<Rightarrow> string \<Rightarrow> string \<Rightarrow> string \<Rightarrow> string \<Rightarrow> (string \<times> string) list" where
  "register_form_errors is_email name email password confirmPassword =
     min_check ''name'' 2 ''Name must be at least 2 characters'' name
     @ email_check is_email ''email'' ''Please enter a valid email address'' email
     @ min_check ''password'' 6 ''Password must be at least 6 characters'' password
     @ (if password = confirmPassword then [] else [(''confirmPassword'', ''Passwords do not match'')])"

text \<open>\<open>form.handleSubmit(onSubmit)\<close> on the order form: the errors, or the submission.\<close>

definition order_form_submit ::
  "(string \<Rightarrow> bool) \<Rightarrow> string option \<Rightarrow> form_values \<Rightarrow> cart_line list \<Rightarrow> nat option \<Rightarrow> money \<Rightarrow> int \<Rightarrow> db
   \<Rightarrow> ((string \<times> string) list + submit_outcome) \<times> db" where
  "order_form_submit is_email user data cartItems cartId cartTotal now d =
     (let errs = order_form_errors is_email data in
      if errs \<noteq> [] then (Inl errs, d)
      else (let (r, d') = onSubmit user data cartItems cartId cartTotal now d in (Inr r, d')))"

lemma min_check_Nil [simp]: "min_check f n m s = [] \<longleftrightarrow> n \<le> length s"
  by (simp add: min_check_def)

lemma email_check_Nil [simp]: "email_check e f m s = [] \<longleftrightarrow> e s"
  by (simp add: email_check_def)

lemma register_schema_is_register_valid:
  "register_form_errors is_email name email password confirmPassword = []
     \<longleftrightarrow> is_email email \<and> register_valid name password confirmPassword"
  by (auto simp: register_form_errors_def register_valid_def)

lemma order_form_rejects_unchanged:
  "order_form_errors is_email data \<noteq> [] \<Longrightarrow>
   order_form_submit is_email user data cartItems cartId cartTotal now d = (Inl (order_form_errors is_email data), d)"
  by (simp add: order_form_submit_def)

lemma order_form_valid_fields:
  "order_form_errors is_email data = [] \<longleftrightarrow>
     3 \<le> length (fv_fullName data) \<and> is_email (fv_email data) \<and> 10 \<le> length (fv_phone data)
     \<and> 5 \<le> length (fv_address data) \<and> 2 \<le> length (fv_city data) \<and> 6 \<le> length (fv_pincode data)
     \<and> 2 \<le> length (fv_state data)"
  by (simp add: order_form_errors_def)

lemma register_mismatch_reported_with_short_name:
  "register_form_errors (\<lambda>_. True) ''A'' ''a@b.in'' ''secret1'' ''secret2''
     = [(''name'', ''Name must be at least 2 characters''), (''confirmPassword'', ''Passwords do not match'')]"
  by (simp add: register_form_errors_def min_check_def email_check_def)

end
