(* ===== verification/Spec2Isabelle.thy ===== *)
theory Spec2Isabelle
  imports BookDetail AdminBooks AdminOrders ResellPage BookListingPage RentPage BookWrites OrderReads ProfilePage Auth Navbar AdminDashboard HomePage BookForm TableTypes Routing FormSchemas
begin

text \<open>
  \<^bold>\<open>A verified model of the Abookwallah bookshop.\<close>

  The program is a React single-page shop (\<open>src/src\<close>) whose state lives in a hosted
  Postgres database and storage bucket reached through the generated client
  (\<open>src/src/integrations/supabase\<close>). Pages keep their state in \<open>useState\<close> hooks and
  call service modules; each service call is one or more round trips, any of which may
  fail. This development models the services against one explicit store, and the pages
  as records of their state with one function per handler or effect; where a page's
  events may come in any order its reachable states are an inductive predicate.

  \<^bold>\<open>Theories.\<close>
  \<^item> \<open>Prelude\<close>: the money type (\<open>rat\<close>: JavaScript's floating point read as exact
    arithmetic), \<open>js_round\<close> for \<open>Math.round\<close>, truthiness of strings, the \<open>.single()\<close>
    reading of a query, and shared lemmas on sums over lists, permutations and
    key-filtered lists.
  \<^item> \<open>JsObject\<close>: JavaScript values and plain objects as sent to the backend, which
    rejects a key that is not a column; \<open>JSON.stringify\<close> dropping \<open>undefined\<close>,
    \<open>split\<close>, number formatting, \<open>trim\<close>, \<open>parseFloat\<close>.
  \<^item> \<open>Pricing\<close>: the cart figures of \<open>pages/CartPage.tsx\<close> as the reducers are written.
    Claims C1--C4, C7--C9: the total's decomposition, fold/sum equivalence, order
    independence, the deposit as the rental fee, rounded tax bounds, non-negativity,
    the rate tables.
  \<^item> \<open>Store\<close>: the rows of every table of \<open>types.ts\<close> and the store \<open>db\<close>: the tables,
    the paths of the \<open>resell-images\<close> bucket, the id counter \<open>next_id\<close> (generated
    uuids become fresh naturals) and \<open>sched\<close>, the outcomes of the coming round trips.
    \<open>call\<close> consumes one outcome (\<open>None\<close> success, \<open>Some msg\<close> an error; an exhausted
    schedule succeeds), so every error path is a branch of the model and a theorem
    quantified over \<open>d\<close> holds for every failure pattern.
  \<^item> \<open>Query\<close>: the backend's \<open>ilike\<close> patterns, \<open>order\<close> (stable, \<open>NULL\<close> largest) and
    \<open>range\<close>, and the services' page arithmetic.
  \<^item> \<open>CartService\<close>: every function of \<open>services/cartService.ts\<close>. Claims C12, C14--C17, C19.
  \<^item> \<open>Checkout\<close>: \<open>OrderForm.onSubmit\<close> and \<open>orderService.createOrder\<close>, block by
    block. Claims C21--C24, C26, C29.
  \<^item> \<open>CartPage\<close>: the cart page's state and handlers. Claims C30--C32.
  \<^item> \<open>TableTypes\<close>: the \<open>Insert\<close> and \<open>Update\<close> types of \<open>types.ts\<close> for the tables the
    services write, the objects the cart, order and user services send, and the ISO
    date of a rental's end (civil date of a day number). Claim C28.
  \<^item> \<open>OrderReads\<close>: \<open>getUserOrders\<close>, \<open>getOrderDetails\<close> and the order confirmation page;
    a placed order reads back with its lines.
  \<^item> \<open>Catalog\<close>: the reads of \<open>services/booksService.ts\<close> and
    \<open>mapDatabaseBookToModel\<close> (\<open>types/book.ts\<close>). Claims C36--C38.
  \<^item> \<open>BookWrites\<close>: \<open>createBook\<close>, \<open>updateBook\<close>, \<open>deleteBook\<close> of the books service and
    \<open>mapModelBookToDatabase\<close>. Claim C5.
  \<^item> \<open>BookDetail\<close>: \<open>pages/BookDetailPage.tsx\<close> add-to-cart. Claim C35.
  \<^item> \<open>BookListingPage\<close>: \<open>pages/BookListingPage.tsx\<close>, its handlers and its three
    effects, reachable states inductive. Claims C13, C33.
  \<^item> \<open>RentPage\<close>: \<open>pages/RentPage.tsx\<close> over \<open>data/mockData.ts\<close>; its search agrees
    with the backend's \<open>ilike\<close> search.
  \<^item> \<open>HomePage\<close>: \<open>pages/HomePage.tsx\<close> over the three catalogue reads, and
    \<open>components/BookCard.tsx\<close>. Claim C20.
  \<^item> \<open>AdminBooks\<close>: the book operations of \<open>services/adminService.ts\<close> and every
    handler of \<open>pages/admin/AdminBooksPage.tsx\<close>, its reachable states inductive.
    Claim C39. \<open>BookForm\<close>: the inputs of the admin book dialogs and the dialogs'
    handlers, with the page's reachable states extended by them.
  \<^item> \<open>AdminOrders\<close>: the order, resell and dashboard operations of \<open>adminService.ts\<close>
    and the specification's order lifecycle as a step relation. Claim C40.
    \<open>AdminDashboard\<close>: the dashboard's category chart (a counting object and the
    key order of \<open>Object.entries\<close>) and the users table's cells.
  \<^item> \<open>UserService\<close>: every function of \<open>services/userService.ts\<close> (profiles, image
    upload, resell requests, reviews and the book rating they maintain), with the
    invariants one-review-per-user-and-book and rating-equals-average. Claim C25.
    \<open>ProfilePage\<close>: \<open>pages/UserProfilePage.tsx\<close> over it.
  \<^item> \<open>ResellPage\<close>: the three-step wizard of \<open>pages/ResellPage.tsx\<close>; the \<open>FileReader\<close>
    loads are separate events. Claims C6, C27.
  \<^item> \<open>Auth\<close>: \<open>services/authService.ts\<close>, the \<open>AuthContext\<close> provider and the login and
    register submit handlers, over an explicit auth server whose runs are an
    inductive step relation. Claims C10, C11.
  \<^item> \<open>Navbar\<close>: \<open>components/Navbar.tsx\<close>, its cart badge composed with the cart
    service. Claim C18.
  \<^item> \<open>FormSchemas\<close>: the zod schemas of the order, login and register forms, the
    email check of the zod library a parameter; the order form submits only valid values.
  \<^item> \<open>Routing\<close>: the route table of \<open>App.tsx\<close> with React Router's matching, and
    the admin layout's links; every navigation link reaches a page, book links reach
    their detail page, two shop links reach the not-found page.
  \<^item> This theory: checkout end to end across the page, the form, the order service
    and the pricing engine (C34).

  \<^bold>\<open>Modelling choices.\<close> Time is one integer \<open>now\<close> (milliseconds) read once per
  submission; calendar dates are day numbers. Joins on foreign keys are total.
  Timestamps no modelled operation reads are left out. Concurrent requests
  (\<open>Promise.all\<close>) run one after the other in index order; the reads started together
  are independent, so the outcomes reached are the same. Characters are the 8-bit
  \<open>char\<close> of HOL: case mapping and \<open>trim\<close> act on ASCII. Keys naming members of
  \<open>Object.prototype\<close> are not given their inherited values. No loop of the modelled
  code is unbounded: every loop is a fold or a structural recursion over a list, and
  the repeated events of a page (file loads, next-page clicks) are runs of a bounded
  length, so no fuel is needed.

  \<^bold>\<open>Not modelled.\<close> The address syntax zod's \<open>.email()\<close> accepts (library code, a
  parameter of the schemas), the static pages (about, contact, policies, not found,
  feature removed; the contact form only toasts and resets), the main layout's
  fade-in timer and one-time welcome toast, the footer, loading screen and testimonial
  card, the foreign-key constraints of the backend (joins are read as total), the three
  tables no code uses, and the presentational parts of every page; toasts other than
  those a lemma reads, navigation, scrolling and rendering carry no state.
\<close>

section \<open>Checkout from the cart page, end to end\<close>

definition checkout_form :: form_values where
  "checkout_form = \<lparr>fv_fullName = ''A. Reader'', fv_email = ''a@example.com'', fv_phone = ''9876543210'',
                    fv_address = ''12 MG Road'', fv_city = ''Pune'', fv_pincode = ''411001'', fv_state = ''MH''\<rparr>"

definition shipping_of_form :: "form_values \<Rightarrow> shipping_info" where
  "shipping_of_form data = \<lparr>sh_address = fv_address data, sh_city = fv_city data,
                            sh_state = fv_state data, sh_zip = fv_pincode data, sh_country = ''India''\<rparr>"

lemma submitCheckout_no_faults:
  assumes "sched d = []" and "cp_cart st = Some c"
  shows "submitCheckout (Some uid) data now st d =
     ((OrderPlaced (order_header (if js_truthy uid then uid else default_user_id)
                     (calculateTotal (cp_cartItems st)) (shipping_of_form data) ''Cash on Delivery'' (next_id d)),
       handleOrderSuccess st),
      snd (createOrder uid (Some (cart_id c)) (map order_input_of (cp_cartItems st)) (shipping_of_form data)
             ''Cash on Delivery'' (calculateTotal (cp_cartItems st)) now d))"
proof -
  let ?r = "createOrder uid (Some (cart_id c)) (map order_input_of (cp_cartItems st)) (shipping_of_form data)
             ''Cash on Delivery'' (calculateTotal (cp_cartItems st)) now d"
  obtain d' where e: "?r = (Inr (order_header (if js_truthy uid then uid else default_user_id)
                     (calculateTotal (cp_cartItems st)) (shipping_of_form data) ''Cash on Delivery'' (next_id d)), d')"
    using createOrder_no_faults_eq [OF assms(1)] by blast
  then have e': "createOrder uid (Some (cart_id c)) (map order_input_of (cp_cartItems st))
        \<lparr>sh_address = fv_address data, sh_city = fv_city data, sh_state = fv_state data, sh_zip = fv_pincode data,
         sh_country = ''India''\<rparr> ''Cash on Delivery'' (calculateTotal (cp_cartItems st)) now d
      = (Inr (order_header (if js_truthy uid then uid else default_user_id)
                     (calculateTotal (cp_cartItems st)) (shipping_of_form data) ''Cash on Delivery'' (next_id d)), d')"
    by (simp add: shipping_of_form_def)
  show ?thesis
    using assms(2) e e' by (simp add: submitCheckout_def onSubmit_def)
qed

text \<open>
  C34. Checking out from the cart page with a signed-in user and no failing round
  trip places one pending order whose stored total is the spec's formula over the
  page's lines (subtotal, 18\<percent> tax rounded, shipping 50 below 500, plus the
  rental deposit), writes one order line per page line with the book's price
  frozen, empties exactly this user's cart in the store and empties the page.
\<close>

theorem checkout_end_to_end:
  assumes "sched d = []" and "cp_cart st = Some c"
  shows "let ((outcome, st'), d') = submitCheckout (Some uid) data now st d;
             xs = cp_cartItems st; S = sum_list (map line_amount xs);
             D = sum_list (map line_amount (filter is_rent xs))
         in (\<exists>order. outcome = OrderPlaced order \<and> order \<in> set (orders d') \<and> o_status order = Pending
                    \<and> o_total_amount order = S + of_int (js_round (S * 18/100)) + (if 500 \<le> S then 0 else 50) + D)
          \<and> order_items d' = order_items d
               @ map2 (\<lambda>k l. order_item_of k (next_id d) now (order_input_of l))
                      [Suc (next_id d)..<Suc (next_id d) + length xs] xs
          \<and> cart_items d' = filter (\<lambda>r. ci_cart_id r \<noteq> cart_id c) (cart_items d)
          \<and> cp_cartItems st' = [] \<and> \<not> cp_isCheckingOut st'"
proof -
  let ?xs = "cp_cartItems st"
  let ?order = "order_header (if js_truthy uid then uid else default_user_id)
                     (calculateTotal ?xs) (shipping_of_form data) ''Cash on Delivery'' (next_id d)"
  let ?r = "createOrder uid (Some (cart_id c)) (map order_input_of ?xs) (shipping_of_form data)
             ''Cash on Delivery'' (calculateTotal ?xs) now d"
  have f: "order_items (snd ?r) = order_items d
        @ map2 (\<lambda>k item. order_item_of k (next_id d) now item)
               [Suc (next_id d)..<Suc (next_id d) + length ?xs] (map order_input_of ?xs)"
     "cart_items (snd ?r) = filter (\<lambda>r. ci_cart_id r \<noteq> cart_id c) (cart_items d)"
    using createOrder_no_faults_eq [OF assms(1)] by simp_all
  have "fst (call d) = None" using assms(1) by (simp add: call_Nil)
  then obtain d' where "?r = (Inr ?order, d')" and o: "orders d' = orders d @ [?order]"
    using createOrder_inserts_header by blast
  then have o': "?order \<in> set (orders (snd ?r))" by simp
  have m: "map2 (\<lambda>k item. order_item_of k (next_id d) now item) ks (map order_input_of ys)
         = map2 (\<lambda>k l. order_item_of k (next_id d) now (order_input_of l)) ks ys" for ks ys
    by (simp add: zip_map2 case_prod_beta)
  have t: "calculateTotal ?xs = sum_list (map line_amount ?xs) + of_int (js_round (sum_list (map line_amount ?xs) * 18/100))
       + (if 500 \<le> sum_list (map line_amount ?xs) then 0 else 50) + sum_list (map line_amount (filter is_rent ?xs))"
    by (simp add: calculateTotal_def pricing_unfold)
  show ?thesis
    using submitCheckout_no_faults [OF assms] f o' m t
    by (simp add: handleOrderSuccess_def order_header_def Let_def)
qed

text \<open>C34, applied to the example page and store: the order total is 2622 and the cart rows are gone.\<close>

theorem checkout_end_to_end_witness:
  "let ((outcome, st'), d') = submitCheckout (Some ''u1'') checkout_form 0 page_example example_db
   in cart_items d' = [] \<and> cp_cartItems st' = []
      \<and> (\<exists>order. outcome = OrderPlaced order \<and> o_total_amount order = 2622)"
proof -
  have h1: "sched example_db = []" by (simp add: example_db_def)
  have f: "\<lfloor>(3821 / 10 :: rat)\<rfloor> = 382" by (simp add: floor_eq_iff)
  have h2: "cp_cart page_example = Some \<lparr>cart_id = 0, cart_user_id = ''u1''\<rparr>" by (simp add: page_example_def)
  show ?thesis
    using checkout_end_to_end [OF h1 h2, of "''u1''" checkout_form 0]
    by (simp add: Let_def split: prod.splits) (auto simp: page_example_def example_db_def line_amount_def js_round_def rental_rate_cases f)
qed

end
